(* ===== verification/Prelude.thy ===== *)
theory Prelude
  imports Main
begin

text \<open>
  Shared vocabulary of the catalog development. A database table is modelled
  as the list of its rows in rowid order (the order in which SQLite returns
  rows of an unordered \<open>SELECT\<close>, so that SQLAlchemy's \<open>.first()\<close> is
  \<^const>\<open>find\<close>); a new row gets the rowid SQLite gives an \<open>INTEGER PRIMARY
  KEY\<close> column, the largest one plus one (\<open>next_rowid\<close>). Python's truthiness
  of an optional string (\<open>None\<close> and \<open>''\<close> are false) is \<open>truthy\<close>.
  The lemmas here are the generic facts about these tables that every
  component proof uses; they are collected in \<open>table_simps\<close>.
\<close>

named_theorems table_simps "facts about tables modelled as row lists"

type_synonym rowid = nat
type_synonym timestamp = nat

text \<open>The JSON bodies and form fields of a request are string dictionaries.\<close>

type_synonym dict = "(string \<times> string) list"

text \<open>
  The Python exceptions that the handlers let escape. Flask turns each of them
  into a response with status 500; the model keeps which one it was.
\<close>

datatype py_exc =
    KeyError | AttributeError | IntegrityError | ValueError
  | NoResultFound | MultipleResultsFound | TypeError

text \<open>
  JSON values, as \<open>jsonify\<close> and the \<open>serialize\<close> properties build them;
  \<open>JDate\<close> is a Python \<open>datetime\<close> inside such a value, before \<open>jsonify\<close> renders it.
\<close>

datatype json =
    JNull | JBool bool | JNum nat | JStr string
  | JArr "json list" | JObj "(string \<times> json) list" | JDate timestamp

definition truthy :: "string option \<Rightarrow> bool" where
  "truthy v \<longleftrightarrow> (case v of None \<Rightarrow> False | Some s \<Rightarrow> s \<noteq> [])"

definition next_rowid :: "('r \<Rightarrow> rowid) \<Rightarrow> 'r list \<Rightarrow> rowid" where
  "next_rowid key rows = Suc (Max (insert 0 (key ` set rows)))"

abbreviation ids_ascending :: "('r \<Rightarrow> rowid) \<Rightarrow> 'r list \<Rightarrow> bool" where
  "ids_ascending key rows \<equiv> sorted_wrt (<) (map key rows)"

text \<open>An SQL \<open>UPDATE\<close> of one row, addressed by its primary key.\<close>

definition replace_row :: "('r \<Rightarrow> rowid) \<Rightarrow> 'r \<Rightarrow> 'r list \<Rightarrow> 'r list" where
  "replace_row key r rows = map (\<lambda>x. if key x = key r then r else x) rows"

subsection \<open>Generic lemmas\<close>

lemma truthy_simps [simp]:
  "\<not> truthy None" "truthy (Some s) \<longleftrightarrow> s \<noteq> []"
  by (simp_all add: truthy_def)

lemma next_rowid_gt [table_simps]: "x \<in> set rows \<Longrightarrow> key x < next_rowid key rows"
  unfolding next_rowid_def by (simp add: le_imp_less_Suc)

lemma next_rowid_fresh [table_simps]: "next_rowid key rows \<notin> key ` set rows"
  using next_rowid_gt by (metis imageE less_irrefl)

lemma ids_ascending_snoc [table_simps]:
  "ids_ascending key rows \<Longrightarrow> sorted_wrt (<) (map key rows @ [next_rowid key rows])"
  by (auto simp: sorted_wrt_append next_rowid_gt)

lemma ids_ascending_filter [table_simps]:
  "ids_ascending key rows \<Longrightarrow> ids_ascending key (filter P rows)"
proof -
  assume "ids_ascending key rows"
  then have "sorted_wrt (\<lambda>x y. key x < key y) rows" by (simp add: sorted_wrt_map)
  then have "sorted_wrt (\<lambda>x y. key x < key y) (filter P rows)" by (rule sorted_wrt_filter)
  then show ?thesis by (simp add: sorted_wrt_map)
qed

lemma map_key_replace_row [table_simps]: "map key (replace_row key r rows) = map key rows"
  by (induction rows) (auto simp: replace_row_def)

lemma set_replace_row_subset [table_simps]:
  "set (replace_row key r rows) \<subseteq> insert r (set rows)"
  by (auto simp: replace_row_def)

lemma ids_ascending_distinct [table_simps]: "ids_ascending key rows \<Longrightarrow> distinct (map key rows)"
  by (simp add: strict_sorted_iff)

text \<open>In a table with distinct keys, looking a row up by its key finds that row.\<close>

lemma find_by_key [table_simps]:
  "distinct (map key rows) \<Longrightarrow> x \<in> set rows \<Longrightarrow> find (\<lambda>r. key r = key x) rows = Some x"
  by (induction rows) (auto simp: image_iff)

lemma find_append_split: "find P (xs @ ys) = (case find P xs of None \<Rightarrow> find P ys | Some x \<Rightarrow> Some x)"
  by (induction xs) auto

lemma distinct_key_eq: "distinct (map k xs) \<Longrightarrow> x \<in> set xs \<Longrightarrow> y \<in> set xs \<Longrightarrow> k x = k y \<Longrightarrow> x = y"
  by (metis distinct_map inj_onD)

lemma find_Some_in_set [table_simps]: "find P xs = Some x \<Longrightarrow> x \<in> set xs \<and> P x"
  by (auto simp: find_Some_iff nth_mem)

end
