(* ===== verification/Token.thy ===== *)
theory Token
  imports Prelude
begin

text \<open>
  The signed, time-limited tokens of \<open>src/vagrant/catalog/database_setup.py\<close>
  (\<open>User.generate_auth_token\<close>, \<open>User.verify_auth_token\<close>). They are produced
  by itsdangerous' \<open>TimedJSONWebSignatureSerializer\<close>, a library outside the
  repository, modelled here from its documented behaviour: \<open>dumps\<close> writes the
  payload, an expiry date \<open>now + expires_in\<close> and a signature computed from the
  secret key and the payload; \<open>loads\<close> raises \<open>BadSignature\<close> on text that does
  not parse or whose signature does not match, and \<open>SignatureExpired\<close> when
  the expiry date is before the current time. The textual form is
  \<open>id.exp.signature\<close> with decimal numbers; the signature is an injective
  function of key and payload (the cryptographic strength of HMAC is not
  modelled). The main facts: decimal printing and parsing are inverse, token
  text parses back to the token, and a token verifies exactly until its expiry.
\<close>

subsection \<open>Decimal numbers in text\<close>

fun digits_of :: "nat \<Rightarrow> string" where
  "digits_of n =
     (if n < 10 then [char_of (48 + n)]
      else digits_of (n div 10) @ [char_of (48 + n mod 10)])"

declare digits_of.simps [simp del]

definition digit_val :: "char \<Rightarrow> nat option" where
  "digit_val c = (let k = of_char c in if 48 \<le> k \<and> k < 58 then Some (k - 48) else None)"

fun parse_digits :: "nat \<Rightarrow> string \<Rightarrow> nat option" where
  "parse_digits acc [] = Some acc"
| "parse_digits acc (c # cs) =
     (case digit_val c of None \<Rightarrow> None | Some d \<Rightarrow> parse_digits (10 * acc + d) cs)"

definition parse_nat :: "string \<Rightarrow> nat option" where
  "parse_nat s = (if s = [] then None else parse_digits 0 s)"

subsection \<open>The serializer\<close>

record token =
  tok_id :: nat
  tok_exp :: timestamp
  tok_sig :: string

datatype serializer_error = BadSignature | SignatureExpired

definition token_payload :: "nat \<Rightarrow> timestamp \<Rightarrow> string" where
  "token_payload i e = digits_of i @ ''.'' @ digits_of e"

definition mac :: "string \<Rightarrow> string \<Rightarrow> string" where
  "mac key msg = digits_of (length key) @ ''#'' @ key @ msg"

definition token_text :: "token \<Rightarrow> string" where
  "token_text t = token_payload (tok_id t) (tok_exp t) @ ''.'' @ tok_sig t"

definition cut_dot :: "string \<Rightarrow> (string \<times> string) option" where
  "cut_dot s =
     (case dropWhile (\<lambda>c. c \<noteq> CHR ''.'') s of
        [] \<Rightarrow> None
      | _ # rest \<Rightarrow> Some (takeWhile (\<lambda>c. c \<noteq> CHR ''.'') s, rest))"

definition parse_token :: "string \<Rightarrow> token option" where
  "parse_token s =
     (case cut_dot s of
        None \<Rightarrow> None
      | Some (a, r) \<Rightarrow>
          (case cut_dot r of
             None \<Rightarrow> None
           | Some (b, sig) \<Rightarrow>
               (case (parse_nat a, parse_nat b) of
                  (Some i, Some e) \<Rightarrow> Some \<lparr>tok_id = i, tok_exp = e, tok_sig = sig\<rparr>
                | _ \<Rightarrow> None)))"

definition serializer_dumps :: "string \<Rightarrow> timestamp \<Rightarrow> nat \<Rightarrow> nat \<Rightarrow> string" where
  "serializer_dumps secret now expires_in i =
     (let e = now + expires_in
      in token_text \<lparr>tok_id = i, tok_exp = e, tok_sig = mac secret (token_payload i e)\<rparr>)"

definition serializer_loads :: "string \<Rightarrow> timestamp \<Rightarrow> string \<Rightarrow> serializer_error + nat" where
  "serializer_loads secret now s =
     (case parse_token s of
        None \<Rightarrow> Inl BadSignature
      | Some t \<Rightarrow>
          if tok_sig t \<noteq> mac secret (token_payload (tok_id t) (tok_exp t)) then Inl BadSignature
          else if tok_exp t < now then Inl SignatureExpired
          else Inr (tok_id t))"

subsection \<open>The methods of \<open>User\<close>\<close>

text \<open>
  \<open>generate_auth_token(self, expiration=600)\<close> signs \<open>{"id": self.id}\<close>;
  the model takes the user's id, the module's random \<open>secret_key\<close> and the
  current time. \<open>verify_auth_token\<close> maps both serializer errors to \<open>None\<close>.
\<close>

definition generate_auth_token :: "string \<Rightarrow> timestamp \<Rightarrow> nat \<Rightarrow> nat \<Rightarrow> string" where
  "generate_auth_token secret now expiration i = serializer_dumps secret now expiration i"

definition verify_auth_token :: "string \<Rightarrow> timestamp \<Rightarrow> string \<Rightarrow> nat option" where
  "verify_auth_token secret now tok =
     (case serializer_loads secret now tok of
        Inl SignatureExpired \<Rightarrow> None
      | Inl BadSignature \<Rightarrow> None
      | Inr user_id \<Rightarrow> Some user_id)"

subsection \<open>Round trips\<close>

lemma digit_val_char_of: "d < 10 \<Longrightarrow> digit_val (char_of (48 + d)) = Some d"
  by (simp add: digit_val_def)

lemma parse_digits_append:
  "parse_digits acc (xs @ ys) = (case parse_digits acc xs of None \<Rightarrow> None | Some a \<Rightarrow> parse_digits a ys)"
  by (induction acc xs rule: parse_digits.induct) (auto split: option.splits)

lemma parse_digits_of: "parse_digits 0 (digits_of n) = Some n"
proof (induction n rule: digits_of.induct)
  case (1 n)
  show ?case
  proof (cases "n < 10")
    case True
    then show ?thesis by (simp add: digits_of.simps [of n] digit_val_char_of)
  next
    case False
    with "1.IH" have "parse_digits 0 (digits_of (n div 10)) = Some (n div 10)" by simp
    with False show ?thesis
      by (simp add: digits_of.simps [of n] parse_digits_append digit_val_char_of)
  qed
qed

lemma digits_of_not_Nil: "digits_of n \<noteq> []"
  by (subst digits_of.simps) simp

lemma parse_nat_digits_of: "parse_nat (digits_of n) = Some n"
  by (simp add: parse_nat_def digits_of_not_Nil parse_digits_of)

lemma char_of_digit_ne_dot: "(m::nat) < 10 \<Longrightarrow> char_of (48 + m) \<noteq> CHR ''.''"
  by (simp add: char_of_eq_iff take_bit_eq_mod)

lemma dot_notin_digits_of: "CHR ''.'' \<notin> set (digits_of n)"
proof (induction n rule: digits_of.induct)
  case (1 n)
  then show ?case
    using char_of_digit_ne_dot [of n] char_of_digit_ne_dot [of "n mod 10"]
    by (subst digits_of.simps) auto
qed

lemma char_of_digit_ne_hash: "(m::nat) < 10 \<Longrightarrow> char_of (48 + m) \<noteq> CHR ''#''"
  by (simp add: char_of_eq_iff take_bit_eq_mod)

lemma hash_notin_digits_of: "CHR ''#'' \<notin> set (digits_of n)"
proof (induction n rule: digits_of.induct)
  case (1 n)
  then show ?case
    using char_of_digit_ne_hash [of n] char_of_digit_ne_hash [of "n mod 10"]
    by (subst digits_of.simps) auto
qed

text \<open>The signature determines the key it was computed with.\<close>

lemma mac_split:
  "takeWhile (\<lambda>c. c \<noteq> CHR ''#'') (mac key msg) = digits_of (length key)"
  "dropWhile (\<lambda>c. c \<noteq> CHR ''#'') (mac key msg) = CHR ''#'' # key @ msg"
  unfolding mac_def using hash_notin_digits_of [of "length key"]
  by (subst takeWhile_append2 dropWhile_append2; auto)+

lemma mac_inj_key:
  assumes "mac k m = mac k' m"
  shows "k = k'"
proof -
  from assms have "dropWhile (\<lambda>c. c \<noteq> CHR ''#'') (mac k m) = dropWhile (\<lambda>c. c \<noteq> CHR ''#'') (mac k' m)"
    by (rule arg_cong)
  then have "CHR ''#'' # k @ m = CHR ''#'' # k' @ m" by (simp only: mac_split)
  then show ?thesis by simp
qed

lemma cut_dot_append:
  assumes "CHR ''.'' \<notin> set a"
  shows "cut_dot (a @ CHR ''.'' # r) = Some (a, r)"
proof -
  have "dropWhile (\<lambda>c. c \<noteq> CHR ''.'') (a @ CHR ''.'' # r) = CHR ''.'' # r"
    using assms by (subst dropWhile_append2) auto
  moreover have "takeWhile (\<lambda>c. c \<noteq> CHR ''.'') (a @ CHR ''.'' # r) = a"
    using assms by (subst takeWhile_append2) auto
  ultimately show ?thesis by (simp add: cut_dot_def)
qed

lemma parse_token_text: "parse_token (token_text t) = Some t"
proof -
  let ?a = "digits_of (tok_id t)" and ?b = "digits_of (tok_exp t)"
  have "token_text t = ?a @ CHR ''.'' # (?b @ CHR ''.'' # tok_sig t)"
    by (simp add: token_text_def token_payload_def)
  then show ?thesis
    by (simp add: parse_token_def cut_dot_append dot_notin_digits_of parse_nat_digits_of)
qed

text \<open>
  C5: A token issued by generate_auth_token at time t with expiration e verifies under the same secret key, giving back the user id, exactly at the times t' with t' <= t + e; after that it is rejected.
\<close>

theorem verify_generate:
  "verify_auth_token secret now' (generate_auth_token secret now expiration i) =
     (if now + expiration < now' then None else Some i)"
  by (simp add: verify_auth_token_def generate_auth_token_def serializer_dumps_def
      serializer_loads_def parse_token_text Let_def)

text \<open>
  C27: A token issued under one secret key is rejected, at every time, by
  verify_auth_token under any other key.
\<close>

theorem verify_other_secret:
  assumes "secret' \<noteq> secret"
  shows "verify_auth_token secret' now' (generate_auth_token secret now expiration i) = None"
proof -
  have "mac secret (token_payload i (now + expiration)) \<noteq> mac secret' (token_payload i (now + expiration))"
    using assms mac_inj_key by metis
  then show ?thesis
    by (simp add: verify_auth_token_def generate_auth_token_def serializer_dumps_def
        serializer_loads_def parse_token_text Let_def)
qed

end
