(* ===== verification/Http_Date.thy ===== *)
theory Http_Date
  imports Token
begin

text \<open>
  How Flask's \<open>jsonify\<close> renders the \<open>datetime\<close> values that the \<open>serialize\<close>
  property of \<open>Item\<close> (\<open>src/vagrant/catalog/database_setup.py\<close>) puts into a
  JSON document. Flask's JSON encoder, a library outside the repository,
  turns a \<open>datetime\<close> into an HTTP date, Werkzeug's \<open>http_date\<close>: weekday, day,
  month, year, time of day and \<open>GMT\<close>, as in \<open>Thu, 01 Jan 1970 00:01:40 GMT\<close>.
  A naive \<open>datetime\<close> (the program stores \<open>datetime.now()\<close>) is printed with
  its own fields. A \<open>timestamp\<close> of the model counts the seconds from
  1970-01-01 00:00:00 of that clock; \<open>civil_year\<close> and \<open>civil_month\<close> are the
  Gregorian calendar, \<open>http_date\<close> the format, and \<open>jsonify\<close> the rendering of a
  whole document. The lemmas give the bounds of each field and that every
  rendered date passes the format check \<open>is_http_date\<close>.
\<close>

subsection \<open>The Gregorian calendar\<close>

definition leap_year :: "nat \<Rightarrow> bool" where
  "leap_year y \<longleftrightarrow> 4 dvd y \<and> (\<not> 100 dvd y \<or> 400 dvd y)"

definition month_days :: "nat \<Rightarrow> nat list" where
  "month_days y = [31, if leap_year y then 29 else 28, 31, 30, 31, 30, 31, 31, 30, 31, 30, 31]"

definition year_days :: "nat \<Rightarrow> nat" where
  "year_days y = sum_list (month_days y)"

text \<open>The year of day \<open>d\<close> counted from the first day of year \<open>y\<close>, and the day within it.\<close>

function civil_year :: "nat \<Rightarrow> nat \<Rightarrow> nat \<times> nat" where
  "civil_year y d = (if d < year_days y then (y, d) else civil_year (Suc y) (d - year_days y))"
  by pat_completeness auto

termination
  by (relation "measure snd") (simp_all add: year_days_def month_days_def)

declare civil_year.simps [simp del]

text \<open>The month (from \<open>m\<close>) of day \<open>d\<close> of a year with the given month lengths, and the day within it.\<close>

primrec civil_month :: "nat list \<Rightarrow> nat \<Rightarrow> nat \<Rightarrow> nat \<times> nat" where
  "civil_month [] m d = (m, d)"
| "civil_month (l # ls) m d = (if d < l then (m, d) else civil_month ls (Suc m) (d - l))"

subsection \<open>The HTTP date format\<close>

definition weekday_names :: "string list" where
  "weekday_names = [''Mon'', ''Tue'', ''Wed'', ''Thu'', ''Fri'', ''Sat'', ''Sun'']"

definition month_names :: "string list" where
  "month_names = [''Jan'', ''Feb'', ''Mar'', ''Apr'', ''May'', ''Jun'', ''Jul'', ''Aug'', ''Sep'', ''Oct'',
                  ''Nov'', ''Dec'']"

text \<open>\<open>%02d\<close>.\<close>

definition pad2 :: "nat \<Rightarrow> string" where
  "pad2 n = [char_of (48 + n div 10), char_of (48 + n mod 10)]"

text \<open>
  Werkzeug's \<open>http_date\<close>: 1970-01-01 was a Thursday, so the weekday of day
  \<open>days\<close> is \<open>(days + 3) mod 7\<close> counted from Monday.
\<close>

definition http_date :: "timestamp \<Rightarrow> string" where
  "http_date t =
     (let days = t div 86400; secs = t mod 86400;
          (y, yd) = civil_year 1970 days; (m, d) = civil_month (month_days y) 0 yd
      in weekday_names ! ((days + 3) mod 7) @ '', '' @ pad2 (Suc d) @ '' '' @ month_names ! m @ '' '' @
         digits_of y @ '' '' @ pad2 (secs div 3600) @ '':'' @ pad2 (secs mod 3600 div 60) @ '':'' @
         pad2 (secs mod 60) @ '' GMT'')"

text \<open>\<open>jsonify\<close>: the document as it is sent, every \<open>datetime\<close> rendered by \<open>http_date\<close>.\<close>

fun jsonify :: "json \<Rightarrow> json" where
  "jsonify (JDate t) = JStr (http_date t)"
| "jsonify (JArr xs) = JArr (map jsonify xs)"
| "jsonify (JObj kvs) = JObj (map (\<lambda>(k, v). (k, jsonify v)) kvs)"
| "jsonify JNull = JNull"
| "jsonify (JBool b) = JBool b"
| "jsonify (JNum n) = JNum n"
| "jsonify (JStr s) = JStr s"

text \<open>
  The format check: three-letter weekday, comma, two-digit day 01..31,
  three-letter month, a decimal year, hours 00..23, minutes and seconds
  00..59, \<open>GMT\<close>.
\<close>

definition two_digits :: "nat \<Rightarrow> nat \<Rightarrow> string \<Rightarrow> bool" where
  "two_digits lo hi s \<longleftrightarrow> length s = 2 \<and> (case parse_nat s of None \<Rightarrow> False | Some v \<Rightarrow> lo \<le> v \<and> v \<le> hi)"

definition is_http_date :: "string \<Rightarrow> bool" where
  "is_http_date s \<longleftrightarrow>
     (let n = length s; y = take (n - 25) (drop 12 s); c = drop (n - 13) s
      in 26 \<le> n \<and> take 3 s \<in> set weekday_names \<and> take 2 (drop 3 s) = '', '' \<and>
         two_digits 1 31 (take 2 (drop 5 s)) \<and> s ! 7 = CHR '' '' \<and> take 3 (drop 8 s) \<in> set month_names \<and>
         s ! 11 = CHR '' '' \<and> parse_nat y \<noteq> None \<and> c ! 0 = CHR '' '' \<and> two_digits 0 23 (take 2 (drop 1 c)) \<and>
         c ! 3 = CHR '':'' \<and> two_digits 0 59 (take 2 (drop 4 c)) \<and> c ! 6 = CHR '':'' \<and>
         two_digits 0 59 (take 2 (drop 7 c)) \<and> drop 9 c = '' GMT'')"

subsection \<open>Bounds of the fields\<close>

lemma civil_year_bound: "civil_year y d = (y', d') \<Longrightarrow> d' < year_days y'"
proof (induction y d rule: civil_year.induct)
  case (1 y d)
  then show ?case by (subst (asm) civil_year.simps) (auto split: if_splits)
qed

lemma civil_month_bound:
  "civil_month ls k d = (m, d') \<Longrightarrow> d < sum_list ls \<Longrightarrow> k \<le> m \<and> m - k < length ls \<and> d' < ls ! (m - k)"
proof (induction ls arbitrary: k d)
  case Nil
  then show ?case by simp
next
  case (Cons l ls)
  show ?case
  proof (cases "d < l")
    case True
    with Cons.prems show ?thesis by simp
  next
    case False
    with Cons.prems have "civil_month ls (Suc k) (d - l) = (m, d')" "d - l < sum_list ls" by auto
    from Cons.IH [OF this] have "Suc k \<le> m" "m - Suc k < length ls" "d' < ls ! (m - Suc k)" by auto
    moreover have "m - k = Suc (m - Suc k)" using \<open>Suc k \<le> m\<close> by simp
    ultimately show ?thesis by simp
  qed
qed

lemma month_days_length [simp]: "length (month_days y) = 12"
  by (simp add: month_days_def)

lemma month_days_le_31: "i < 12 \<Longrightarrow> month_days y ! i \<le> 31"
proof -
  assume "i < 12"
  then have "month_days y ! i \<in> set (month_days y)" by (simp add: nth_mem)
  then show ?thesis by (auto simp: month_days_def)
qed

lemma parse_nat_pad2: "n < 100 \<Longrightarrow> parse_nat (pad2 n) = Some n"
  by (simp add: parse_nat_def pad2_def digit_val_char_of)

lemma two_digits_pad2: "lo \<le> n \<Longrightarrow> n \<le> hi \<Longrightarrow> n < 100 \<Longrightarrow> two_digits lo hi (pad2 n)"
  by (simp add: two_digits_def parse_nat_pad2) (simp add: pad2_def)

lemma length_pad2 [simp]: "length (pad2 n) = 2"
  by (simp add: pad2_def)

text \<open>Where the fields of a date text sit.\<close>

lemma date_text_fields:
  fixes y :: string
  assumes "length w = 3" "length dd = 2" "length mn = 3" "length hh = 2" "length mi = 2" "length ss = 2"
  defines "s \<equiv> w @ '', '' @ dd @ '' '' @ mn @ '' '' @ y @ '' '' @ hh @ '':'' @ mi @ '':'' @ ss @ '' GMT''"
  shows "length s = 25 + length y \<and> take 3 s = w \<and> take 2 (drop 3 s) = '', '' \<and> take 2 (drop 5 s) = dd \<and>
         s ! 7 = CHR '' '' \<and> take 3 (drop 8 s) = mn \<and> s ! 11 = CHR '' '' \<and> take (length s - 25) (drop 12 s) = y \<and>
         drop (length s - 13) s = '' '' @ hh @ '':'' @ mi @ '':'' @ ss @ '' GMT''"
proof -
  obtain w1 w2 w3 where w: "w = [w1, w2, w3]" using assms(1) by (auto simp: length_Suc_conv numeral_3_eq_3)
  obtain d1 d2 where d: "dd = [d1, d2]" using assms(2) by (auto simp: length_Suc_conv numeral_2_eq_2)
  obtain m1 m2 m3 where m: "mn = [m1, m2, m3]" using assms(3) by (auto simp: length_Suc_conv numeral_3_eq_3)
  let ?p = "w @ '', '' @ dd @ '' '' @ mn @ '' '' @ y" and ?r = "'' '' @ hh @ '':'' @ mi @ '':'' @ ss @ '' GMT''"
  have sr: "s = ?p @ ?r" by (simp add: s_def)
  have "length s - 13 = length ?p" using assms(4-6) by (simp add: sr)
  with sr have "drop (length s - 13) s = ?r" by (metis append_eq_conv_conj)
  then show ?thesis using assms(4-6) by (simp add: s_def w d m)
qed

lemma weekday_name: "i < 7 \<Longrightarrow> weekday_names ! i \<in> set weekday_names \<and> length (weekday_names ! i) = 3"
proof -
  assume "i < 7"
  then have "i < length weekday_names" by (simp add: weekday_names_def)
  then have "weekday_names ! i \<in> set weekday_names" by (rule nth_mem)
  moreover have "\<forall>x\<in>set weekday_names. length x = 3" by (simp add: weekday_names_def)
  ultimately show ?thesis by blast
qed

lemma month_name: "i < 12 \<Longrightarrow> month_names ! i \<in> set month_names \<and> length (month_names ! i) = 3"
proof -
  assume "i < 12"
  then have "i < length month_names" by (simp add: month_names_def)
  then have "month_names ! i \<in> set month_names" by (rule nth_mem)
  moreover have "\<forall>x\<in>set month_names. length x = 3" by (simp add: month_names_def)
  ultimately show ?thesis by blast
qed

lemma time_of_day_bounds:
  "(t::nat) mod 86400 div 3600 \<le> 23" "t mod 86400 mod 3600 div 60 \<le> 59" "t mod 86400 mod 60 \<le> 59"
  by (simp_all add: less_Suc_eq_le [symmetric] div_less_iff_less_mult)

lemma is_http_date_intro:
  assumes w: "w \<in> set weekday_names" "length w = 3" and dd: "two_digits 1 31 dd"
    and mn: "mn \<in> set month_names" "length mn = 3" and y: "parse_nat y \<noteq> None" "y \<noteq> []"
    and t: "two_digits 0 23 hh" "two_digits 0 59 mi" "two_digits 0 59 ss"
  shows "is_http_date (w @ '', '' @ dd @ '' '' @ mn @ '' '' @ y @ '' '' @ hh @ '':'' @ mi @ '':'' @ ss @ '' GMT'')"
    (is "is_http_date ?s")
proof -
  have l: "length dd = 2" "length hh = 2" "length mi = 2" "length ss = 2"
    using dd t by (simp_all add: two_digits_def)
  define c where "c = '' '' @ hh @ '':'' @ mi @ '':'' @ ss @ '' GMT''"
  have cc: "c ! 0 = CHR '' ''" "take 2 (drop 1 c) = hh" "c ! 3 = CHR '':''" "take 2 (drop 4 c) = mi"
    "c ! 6 = CHR '':''" "take 2 (drop 7 c) = ss" "drop 9 c = '' GMT''"
    using l by (auto simp: c_def length_Suc_conv numeral_2_eq_2)
  note f = date_text_fields [OF w(2) l(1) mn(2) l(2-4), of y]
  have ls: "length ?s = 25 + length y" using f by blast
  have n: "26 \<le> length ?s" unfolding ls using y(2) by (cases y) auto
  from f have F: "take 3 ?s = w" "take 2 (drop 3 ?s) = '', ''" "take 2 (drop 5 ?s) = dd" "?s ! 7 = CHR '' ''"
    "take 3 (drop 8 ?s) = mn" "?s ! 11 = CHR '' ''" "take (length ?s - 25) (drop 12 ?s) = y"
    "drop (length ?s - 13) ?s = c" unfolding c_def by blast+
  show ?thesis
    unfolding is_http_date_def Let_def
    by (intro conjI; (simp only: n F cc w dd mn y t simp_thms)?)
qed

text \<open>Every date \<open>jsonify\<close> writes has the HTTP date format, with its fields in range.\<close>

theorem http_date_format: "is_http_date (http_date t)"
proof -
  obtain y yd where cy: "civil_year 1970 (t div 86400) = (y, yd)" by fastforce
  obtain m d where cm: "civil_month (month_days y) 0 yd = (m, d)" by fastforce
  from civil_year_bound [OF cy] have "yd < sum_list (month_days y)" by (simp add: year_days_def)
  from civil_month_bound [OF cm this] have m: "m < 12" and "d < month_days y ! m" by simp_all
  with month_days_le_31 [OF m, of y] have d: "Suc d \<le> 31" by simp
  note w = weekday_name [of "(t div 86400 + 3) mod 7"] and mn = month_name [OF m]
  note f = date_text_fields [of "weekday_names ! ((t div 86400 + 3) mod 7)" "pad2 (Suc d)" "month_names ! m"
      "pad2 (t mod 86400 div 3600)" "pad2 (t mod 86400 mod 3600 div 60)" "pad2 (t mod 86400 mod 60)" "digits_of y"]
  have ht: "http_date t = weekday_names ! ((t div 86400 + 3) mod 7) @ '', '' @ pad2 (Suc d) @ '' '' @
      month_names ! m @ '' '' @ digits_of y @ '' '' @ pad2 (t mod 86400 div 3600) @ '':'' @
      pad2 (t mod 86400 mod 3600 div 60) @ '':'' @ pad2 (t mod 86400 mod 60) @ '' GMT''"
    by (simp add: http_date_def cy cm Let_def)
  show ?thesis
    unfolding ht using d
    by (intro is_http_date_intro w mn two_digits_pad2 time_of_day_bounds)
       (simp_all add: parse_nat_digits_of digits_of_not_Nil w mn)
qed

text \<open>The facts that evaluate a date of a concrete timestamp by \<open>simp\<close>.\<close>

lemmas http_date_eval = http_date_def civil_year.simps year_days_def month_days_def leap_year_def
  weekday_names_def month_names_def pad2_def digits_of.simps char_of_def bit_0

end
