(* ===== verification/Schema.thy ===== *)
theory Schema
  imports Http_Date
begin

text \<open>
  The ORM schema of \<open>src/vagrant/catalog/database_setup.py\<close>: the classes
  \<open>User\<close>, \<open>Category\<close> and \<open>Item\<close> become records, one per row; the SQLite
  database is the record \<open>catalog_db\<close> of the three tables, each a list of rows
  in rowid order. \<open>session.add(x); session.commit()\<close> of a new row is
  \<open>add_user\<close>, \<open>add_category\<close>, \<open>add_item\<close> (the row gets the next rowid) followed
  by \<open>commit\<close>, which raises \<open>IntegrityError\<close> when a \<open>unique=True\<close> column
  would hold a duplicate. Foreign keys are declared but SQLite does not enforce
  them; they are part of the invariant \<open>wf_db\<close> instead, which also records
  what the handlers keep true: rowids ascending, items referring to existing
  categories and users, non-empty item names, and every local account (one
  with a password hash) being the first user of its name, so that a login by
  name reaches it. Password hashing by passlib is modelled as a salted digest
  that is injective in the password (its one-wayness is not modelled).
\<close>

subsection \<open>Password hashing (passlib)\<close>

datatype pw_hash = Sha256Crypt string string

definition pwd_encrypt :: "string \<Rightarrow> string \<Rightarrow> pw_hash" where
  "pwd_encrypt salt password = Sha256Crypt salt (salt @ password)"

fun pwd_verify :: "string \<Rightarrow> pw_hash option \<Rightarrow> bool" where
  "pwd_verify password None = False"
| "pwd_verify password (Some (Sha256Crypt salt digest)) = (digest = salt @ password)"

subsection \<open>Rows\<close>

record user =
  uid :: rowid
  name :: string
  email :: string
  picture :: "string option"
  google_id :: "string option"
  password_hash :: "pw_hash option"
  admin :: bool

definition hash_password :: "string \<Rightarrow> string \<Rightarrow> user \<Rightarrow> user" where
  "hash_password salt password u = u\<lparr>password_hash := Some (pwd_encrypt salt password)\<rparr>"

definition verify_password_hash :: "user \<Rightarrow> string \<Rightarrow> bool" where
  "verify_password_hash u password = pwd_verify password (password_hash u)"

record category =
  cat_id :: rowid
  cat_name :: string

definition category_serialize :: "category \<Rightarrow> json" where
  "category_serialize c = JObj [(''name'', JStr (cat_name c)), (''id'', JNum (cat_id c))]"

record item =
  item_id :: rowid
  item_name :: string
  description :: string
  category_id :: rowid
  creation_date :: timestamp
  last_edited :: timestamp
  user_id :: rowid

definition item_serialize :: "item \<Rightarrow> json" where
  "item_serialize i = JObj
     [(''name'', JStr (item_name i)), (''description'', JStr (description i)),
      (''id'', JNum (item_id i)), (''category_id'', JNum (category_id i)),
      (''creation_date'', JDate (creation_date i)), (''last_edited'', JDate (last_edited i))]"

subsection \<open>The database and its constraints\<close>

record catalog_db =
  users :: "user list"
  categories :: "category list"
  items :: "item list"

definition empty_db :: catalog_db where
  "empty_db = \<lparr>users = [], categories = [], items = []\<rparr>"

text \<open>The \<open>unique=True\<close> columns: \<open>Category.name\<close>, \<open>Item.name\<close>, \<open>User.google_id\<close>
  (SQL allows any number of \<open>NULL\<close>s in a unique column).\<close>

definition db_constraints :: "catalog_db \<Rightarrow> bool" where
  "db_constraints db \<longleftrightarrow>
     distinct (map cat_name (categories db)) \<and> distinct (map item_name (items db)) \<and>
     distinct (List.map_filter google_id (users db))"

definition commit :: "catalog_db \<Rightarrow> py_exc + catalog_db" where
  "commit db = (if db_constraints db then Inr db else Inl IntegrityError)"

definition add_user :: "user \<Rightarrow> catalog_db \<Rightarrow> catalog_db" where
  "add_user u db = db\<lparr>users := users db @ [u\<lparr>uid := next_rowid uid (users db)\<rparr>]\<rparr>"

definition add_category :: "string \<Rightarrow> catalog_db \<Rightarrow> catalog_db" where
  "add_category n db =
     db\<lparr>categories := categories db @ [\<lparr>cat_id = next_rowid cat_id (categories db), cat_name = n\<rparr>]\<rparr>"

definition add_item :: "item \<Rightarrow> catalog_db \<Rightarrow> catalog_db" where
  "add_item it db = db\<lparr>items := items db @ [it\<lparr>item_id := next_rowid item_id (items db)\<rparr>]\<rparr>"

text \<open>An \<open>Item(...)\<close> constructed by a handler, before the flush gives it a rowid.\<close>

definition new_item :: "string \<Rightarrow> string \<Rightarrow> rowid \<Rightarrow> timestamp \<Rightarrow> rowid \<Rightarrow> item" where
  "new_item n d cid now u =
     \<lparr>item_id = 0, item_name = n, description = d, category_id = cid,
      creation_date = now, last_edited = now, user_id = u\<rparr>"

text \<open>The row an edit writes back: each non-empty form field replaces its column.\<close>

definition edited_item ::
  "item \<Rightarrow> string \<Rightarrow> string \<Rightarrow> rowid option \<Rightarrow> timestamp \<Rightarrow> item" where
  "edited_item it newName newDesc newCat now =
     it\<lparr>item_name := (if newName \<noteq> [] then newName else item_name it),
        description := (if newDesc \<noteq> [] then newDesc else description it),
        category_id := (case newCat of None \<Rightarrow> category_id it | Some c \<Rightarrow> c),
        last_edited := now\<rparr>"

subsection \<open>The invariant\<close>

definition wf_rows :: "catalog_db \<Rightarrow> bool" where
  "wf_rows db \<longleftrightarrow>
     ids_ascending uid (users db) \<and> ids_ascending cat_id (categories db) \<and>
     ids_ascending item_id (items db) \<and>
     (\<forall>it \<in> set (items db).
        category_id it \<in> cat_id ` set (categories db) \<and> user_id it \<in> uid ` set (users db) \<and>
        item_name it \<noteq> []) \<and>
     (\<forall>u \<in> set (users db). password_hash u \<noteq> None \<longrightarrow> find (\<lambda>v. name v = name u) (users db) = Some u)"

definition wf_db :: "catalog_db \<Rightarrow> bool" where
  "wf_db db \<longleftrightarrow> wf_rows db \<and> db_constraints db"

named_theorems wf_simps "how the table operations change the database invariant"

subsection \<open>Commit\<close>

lemma commit_Inr_iff [wf_simps]: "commit db = Inr db' \<longleftrightarrow> db' = db \<and> db_constraints db"
  by (auto simp: commit_def)

lemma commit_Inl_iff [wf_simps]: "commit db = Inl e \<longleftrightarrow> e = IntegrityError \<and> \<not> db_constraints db"
  by (auto simp: commit_def)

lemma wf_db_commit [wf_simps]: "wf_rows db \<Longrightarrow> commit db = Inr db' \<Longrightarrow> wf_db db'"
  by (auto simp: commit_def wf_db_def split: if_splits)

subsection \<open>Constraints of new and changed rows\<close>

lemma constraints_add_category [wf_simps]:
  "db_constraints db \<Longrightarrow>
     db_constraints (add_category n db) \<longleftrightarrow> n \<notin> cat_name ` set (categories db)"
  by (auto simp: db_constraints_def add_category_def)

lemma constraints_add_item [wf_simps]:
  "db_constraints db \<Longrightarrow>
     db_constraints (add_item it db) \<longleftrightarrow> item_name it \<notin> item_name ` set (items db)"
  by (auto simp: db_constraints_def add_item_def)

lemma constraints_add_user [wf_simps]:
  "db_constraints db \<Longrightarrow>
     db_constraints (add_user u db) \<longleftrightarrow>
       (case google_id u of None \<Rightarrow> True | Some g \<Rightarrow> g \<notin> set (List.map_filter google_id (users db)))"
  by (auto simp: db_constraints_def add_user_def map_filter_def split: option.splits)

lemma constraints_filter [wf_simps]:
  "db_constraints db \<Longrightarrow>
     db_constraints (db\<lparr>categories := filter P (categories db), items := filter Q (items db)\<rparr>)"
  by (simp add: db_constraints_def distinct_map_filter)

lemma constraints_filter_items [wf_simps]:
  "db_constraints db \<Longrightarrow> db_constraints (db\<lparr>items := filter Q (items db)\<rparr>)"
  by (simp add: db_constraints_def distinct_map_filter)

subsection \<open>The invariant under the table operations\<close>

lemma wf_rows_empty [wf_simps]: "wf_rows empty_db"
  by (simp add: wf_rows_def empty_db_def)

lemma wf_db_empty: "wf_db empty_db"
  by (simp add: wf_db_def wf_rows_def db_constraints_def empty_db_def)

lemma wf_rows_add_category [wf_simps]: "wf_rows db \<Longrightarrow> wf_rows (add_category n db)"
  unfolding wf_rows_def add_category_def by (auto intro: ids_ascending_snoc)

lemma wf_rows_add_item [wf_simps]:
  "wf_rows db \<Longrightarrow> category_id it \<in> cat_id ` set (categories db) \<Longrightarrow>
   user_id it \<in> uid ` set (users db) \<Longrightarrow> item_name it \<noteq> [] \<Longrightarrow> wf_rows (add_item it db)"
  unfolding wf_rows_def add_item_def by (auto intro: ids_ascending_snoc)

lemma find_snoc_absent:
  "\<not> (\<exists>x\<in>set xs. P x) \<Longrightarrow> P y \<Longrightarrow> find P (xs @ [y]) = Some y"
  by (induction xs) auto

lemma find_snoc_present: "find P xs = Some x \<Longrightarrow> find P (xs @ ys) = Some x"
  by (induction xs) auto

lemma wf_rows_add_user [wf_simps]:
  assumes "wf_rows db"
    and "password_hash u \<noteq> None \<Longrightarrow> name u \<notin> name ` set (users db)"
  shows "wf_rows (add_user u db)"
proof -
  let ?u = "u\<lparr>uid := next_rowid uid (users db)\<rparr>"
  have old: "find (\<lambda>v. name v = name w) (users db @ [?u]) = Some w"
    if "w \<in> set (users db)" "password_hash w \<noteq> None" for w
    using assms(1) that by (auto simp: wf_rows_def intro: find_snoc_present)
  have new: "find (\<lambda>v. name v = name ?u) (users db @ [?u]) = Some ?u"
    if "password_hash u \<noteq> None"
    using assms(2) [OF that] by (intro find_snoc_absent) (auto intro: rev_image_eqI)
  from assms(1) old new show ?thesis
    unfolding wf_rows_def add_user_def by (auto intro: ids_ascending_snoc)
qed

text \<open>Deleting items, or categories together with every item that refers to them.\<close>

lemma wf_rows_filter_items [wf_simps]: "wf_rows db \<Longrightarrow> wf_rows (db\<lparr>items := filter Q (items db)\<rparr>)"
  unfolding wf_rows_def by (auto intro: ids_ascending_filter)

lemma wf_rows_cascade [wf_simps]:
  assumes "wf_rows db"
    and "\<And>it. it \<in> set (items db) \<Longrightarrow> Q it \<Longrightarrow> (\<exists>c\<in>set (categories db). P c \<and> cat_id c = category_id it)"
  shows "wf_rows (db\<lparr>categories := filter P (categories db), items := filter Q (items db)\<rparr>)"
proof -
  have "\<forall>it\<in>set (filter Q (items db)). category_id it \<in> cat_id ` set (filter P (categories db))"
    using assms(2) by force
  with assms(1) show ?thesis
    unfolding wf_rows_def by (auto intro: ids_ascending_filter)
qed

text \<open>Changing the columns of one item in place.\<close>

lemma wf_rows_items_ok:
  "wf_rows db \<Longrightarrow> x \<in> set (items db) \<Longrightarrow>
   category_id x \<in> cat_id ` set (categories db) \<and> user_id x \<in> uid ` set (users db) \<and>
   item_name x \<noteq> []"
  by (simp add: wf_rows_def)

lemma wf_rows_replace_item [wf_simps]:
  assumes "wf_rows db" and "old \<in> set (items db)" and "item_id it = item_id old"
    and "category_id it \<in> cat_id ` set (categories db)" and "user_id it = user_id old"
    and "item_name it \<noteq> []"
  shows "wf_rows (db\<lparr>items := replace_row item_id it (items db)\<rparr>)"
proof -
  have ok: "category_id x \<in> cat_id ` set (categories db) \<and> user_id x \<in> uid ` set (users db) \<and>
      item_name x \<noteq> []" if "x \<in> set (replace_row item_id it (items db))" for x
  proof -
    from that set_replace_row_subset have "x = it \<or> x \<in> set (items db)" by fast
    then show ?thesis
    proof
      assume "x = it"
      with assms wf_rows_items_ok [OF assms(1,2)] show ?thesis by simp
    next
      assume "x \<in> set (items db)"
      with assms(1) show ?thesis by (rule wf_rows_items_ok)
    qed
  qed
  from assms(1) have "ids_ascending item_id (replace_row item_id it (items db))"
    by (simp add: wf_rows_def map_key_replace_row)
  with assms(1) ok show ?thesis
    unfolding wf_rows_def by simp
qed

text \<open>The keys of a well-formed database.\<close>

lemma wf_item_ids: "wf_db db \<Longrightarrow> distinct (map item_id (items db))"
  by (simp add: wf_db_def wf_rows_def ids_ascending_distinct)

lemma wf_cat_ids_distinct: "wf_db db \<Longrightarrow> distinct (map cat_id (categories db))"
  by (simp add: wf_db_def wf_rows_def ids_ascending_distinct)

lemma wf_item_names_distinct: "wf_db db \<Longrightarrow> distinct (map item_name (items db))"
  by (simp add: wf_db_def db_constraints_def)

lemma wf_cat_names_distinct: "wf_db db \<Longrightarrow> distinct (map cat_name (categories db))"
  by (simp add: wf_db_def db_constraints_def)

end
