(* ===== verification/Http.thy ===== *)
theory Http
  imports Schema
begin

text \<open>
  The Flask side of \<open>src/vagrant/catalog/project.py\<close>: the cookie session
  \<open>login_session\<close> (the keys \<open>userId\<close>, \<open>admin\<close>, \<open>state\<close>, \<open>credentials\<close> the
  handlers use), the parts of \<open>request\<close> they read, and the responses they
  return. A handler is a function from the database, the client's session and
  the request to a response, the new database and the new session
  (\<open>outcome\<close>). \<open>abort(code, msg)\<close> is \<open>Abort code msg\<close>; \<open>redirect(url_for(e))\<close>
  after \<open>flash(m)\<close> is \<open>Redirect e [m]\<close>; \<open>render_template\<close> is \<open>Render\<close> with the
  data passed to the template; an exception the handler does not catch is
  \<open>Raised\<close>, which Flask answers with status 500. The time (\<open>datetime.now()\<close>,
  \<open>time.time()\<close>), the random strings (anti-forgery state, password salt) and
  Google's answer to \<open>id_token.verify_oauth2_token\<close> are fields of the request,
  since they come from outside the program.
\<close>

record login_session =
  ls_userId :: "rowid option"
  ls_admin :: "bool option"
  ls_state :: "string option"
  ls_credentials :: "string option"

definition empty_session :: login_session where
  "empty_session = \<lparr>ls_userId = None, ls_admin = None, ls_state = None, ls_credentials = None\<rparr>"

datatype http_method = GET | POST | PUT | DELETE

text \<open>The claims of a Google ID token that \<open>gconnect\<close> and \<open>createUser\<close> read.\<close>

record idinfo =
  id_iss :: string
  id_sub :: string
  id_email :: string
  id_name :: "string option"
  id_picture :: "string option"

record request =
  req_method :: http_method
  req_form :: dict
  req_json :: "dict option"
  req_args :: dict
  req_data :: string
  req_auth :: "(string \<times> string) option"
  req_now :: timestamp
  req_rand :: string
  req_idinfo :: "idinfo option"

datatype endpoint = Home | ShowItem rowid | ShowCategory rowid

datatype page =
    HomePage "category list" "item list" "rowid option" string
  | NewItemPage "category list"
  | NewCategoryPage
  | CategoryPage category "item list" "rowid option"
  | ItemPage "category option" item "rowid option"
  | EditItemPage "category list" item string
  | DeleteItemPage item

datatype response =
    Render page
  | Redirect endpoint "string list"
  | Abort nat string
  | Json nat json
  | Text string
  | Raised py_exc

fun status :: "response \<Rightarrow> nat" where
  "status (Render _) = 200"
| "status (Redirect _ _) = 302"
| "status (Abort c _) = c"
| "status (Json c _) = c"
| "status (Text _) = 200"
| "status (Raised _) = 500"

type_synonym outcome = "response \<times> catalog_db \<times> login_session"

text \<open>
  \<open>request.get_json()\<close> (and \<open>request.json\<close>) is the body parsed as JSON; the
  handlers use it as a dictionary. \<open>req_json\<close> is \<open>None\<close> when it is not a JSON
  object: with Flask 1.x, \<open>get_json()\<close> returns \<open>None\<close> for a body that is not
  JSON, and a JSON array or string is no dictionary either; then
  \<open>body.get(k)\<close> raises \<open>AttributeError\<close> and \<open>body[k]\<close> raises \<open>TypeError\<close>.
  \<open>json_field req k\<close> is \<open>body.get(k)\<close> on an object body.
\<close>

definition json_field :: "request \<Rightarrow> string \<Rightarrow> string option" where
  "json_field req k = (case req_json req of None \<Rightarrow> None | Some body \<Rightarrow> map_of body k)"

text \<open>\<open>request.form[k]\<close>: a missing key makes werkzeug answer 400.\<close>

definition form_missing :: "request \<Rightarrow> string list \<Rightarrow> bool" where
  "form_missing req ks \<longleftrightarrow> (\<exists>k \<in> set ks. map_of (req_form req) k = None)"

definition form_value :: "request \<Rightarrow> string \<Rightarrow> string" where
  "form_value req k = (case map_of (req_form req) k of None \<Rightarrow> [] | Some v \<Rightarrow> v)"

definition bad_request :: response where
  "bad_request = Abort 400 ''Bad Request''"

text \<open>\<open>login_session.get("admin")\<close> as a truth value.\<close>

definition is_admin :: "login_session \<Rightarrow> bool" where
  "is_admin ls \<longleftrightarrow> ls_admin ls = Some True"

subsection \<open>What every handler keeps\<close>

text \<open>
  The interface between the handlers and the server: a session is sound when
  the user it names has a row, and a handler's outcome is sound when the new
  database is well formed, the new session sound, and no user row was lost
  (users are never deleted, so the sessions of other clients stay sound).
  Each component proves \<open>sound_step\<close> for its handlers; \<open>Server\<close> combines them.
\<close>

definition session_ok :: "catalog_db \<Rightarrow> login_session \<Rightarrow> bool" where
  "session_ok db ls \<longleftrightarrow> (case ls_userId ls of None \<Rightarrow> True | Some i \<Rightarrow> i \<in> uid ` set (users db))"

definition sound_step :: "catalog_db \<Rightarrow> login_session \<Rightarrow> outcome \<Rightarrow> bool" where
  "sound_step db ls out \<longleftrightarrow>
     (case out of (_, db', ls') \<Rightarrow> wf_db db' \<and> session_ok db' ls' \<and> set (users db) \<subseteq> set (users db'))"

named_theorems sound_intros "outcomes that keep the invariant"

lemma session_ok_mono: "session_ok db ls \<Longrightarrow> set (users db) \<subseteq> set (users db') \<Longrightarrow> session_ok db' ls"
  by (auto simp: session_ok_def split: option.splits)

lemma session_ok_empty [simp]: "session_ok db empty_session"
  by (simp add: session_ok_def empty_session_def)

lemma sound_step_unchanged [sound_intros]:
  "wf_db db \<Longrightarrow> session_ok db ls \<Longrightarrow> sound_step db ls (r, db, ls)"
  by (simp add: sound_step_def)

lemma sound_step_commit [sound_intros]:
  "wf_db db \<Longrightarrow> session_ok db ls \<Longrightarrow> wf_rows db' \<Longrightarrow> users db' = users db \<Longrightarrow>
   commit db' = Inr db'' \<Longrightarrow> sound_step db ls (r, db'', ls)"
  by (auto simp: sound_step_def commit_Inr_iff wf_db_def session_ok_def split: option.splits)

lemma wf_db_rows: "wf_db db \<Longrightarrow> wf_rows db"
  by (simp add: wf_db_def)

lemma session_ok_user: "session_ok db ls \<Longrightarrow> ls_userId ls = Some u \<Longrightarrow> u \<in> uid ` set (users db)"
  by (simp add: session_ok_def)

lemma sound_step_commit_case:
  assumes "wf_db db" "session_ok db ls" "\<And>db'. commit X = Inr db' \<Longrightarrow> sound_step db ls (r, db', ls)"
  shows "sound_step db ls (case commit X of Inl e \<Rightarrow> (Raised e, db, ls) | Inr db' \<Rightarrow> (r, db', ls))"
  using assms by (cases "commit X") (auto intro: sound_step_unchanged)

text \<open>The four kinds of write the catalog handlers commit.\<close>

lemma sound_step_add_item [sound_intros]:
  assumes "wf_db db" "session_ok db ls" "cat \<in> set (categories db)" "ls_userId ls = Some u"
    "n \<noteq> []" "commit (add_item (new_item n d (cat_id cat) t u) db) = Inr db'"
  shows "sound_step db ls (r, db', ls)"
proof (rule sound_step_commit [OF assms(1,2) _ _ assms(6)])
  show "wf_rows (add_item (new_item n d (cat_id cat) t u) db)"
    using assms(1-5) by (intro wf_rows_add_item) (auto simp: new_item_def wf_db_def session_ok_def)
qed (simp add: add_item_def)

lemma sound_step_add_category [sound_intros]:
  "wf_db db \<Longrightarrow> session_ok db ls \<Longrightarrow> commit (add_category n db) = Inr db' \<Longrightarrow>
   sound_step db ls (r, db', ls)"
  by (rule sound_step_commit) (simp_all add: wf_rows_add_category wf_db_rows,
      simp add: add_category_def)

lemma sound_step_filter_items [sound_intros]:
  "wf_db db \<Longrightarrow> session_ok db ls \<Longrightarrow> commit (db\<lparr>items := filter Q (items db)\<rparr>) = Inr db' \<Longrightarrow>
   sound_step db ls (r, db', ls)"
  by (rule sound_step_commit) (simp_all add: wf_rows_filter_items wf_db_rows)

lemma sound_step_cascade [sound_intros]:
  assumes "wf_db db" "session_ok db ls"
    "commit (db\<lparr>categories := filter (\<lambda>x. cat_id x \<noteq> c) (categories db),
                  items := filter (\<lambda>i. category_id i \<noteq> c) (items db)\<rparr>) = Inr db'"
  shows "sound_step db ls (r, db', ls)"
proof (rule sound_step_commit [OF assms(1,2) _ _ assms(3)])
  have wf: "wf_rows db" using assms(1) by (rule wf_db_rows)
  then have "\<And>it. it \<in> set (items db) \<Longrightarrow> category_id it \<in> cat_id ` set (categories db)"
    by (blast dest: wf_rows_items_ok)
  then show "wf_rows (db\<lparr>categories := filter (\<lambda>x. cat_id x \<noteq> c) (categories db),
                  items := filter (\<lambda>i. category_id i \<noteq> c) (items db)\<rparr>)"
    by (intro wf_rows_cascade [OF wf]) force
qed simp

lemma sound_step_clear [sound_intros]:
  assumes "wf_db db" "session_ok db ls"
    "commit (db\<lparr>categories := [], items := []\<rparr>) = Inr db'"
  shows "sound_step db ls (r, db', ls)"
proof (rule sound_step_commit [OF assms(1,2) _ _ assms(3)])
  have "wf_rows (db\<lparr>categories := filter (\<lambda>_. False) (categories db), items := filter (\<lambda>_. False) (items db)\<rparr>)"
    using wf_db_rows [OF assms(1)] by (rule wf_rows_cascade) simp
  then show "wf_rows (db\<lparr>categories := [], items := []\<rparr>)" by simp
qed simp

lemma sound_step_clear_items [sound_intros]:
  assumes "wf_db db" "session_ok db ls" "commit (db\<lparr>items := []\<rparr>) = Inr db'"
  shows "sound_step db ls (r, db', ls)"
proof (rule sound_step_commit [OF assms(1,2) _ _ assms(3)])
  have "wf_rows (db\<lparr>items := filter (\<lambda>_. False) (items db)\<rparr>)"
    using wf_db_rows [OF assms(1)] by (rule wf_rows_filter_items)
  then show "wf_rows (db\<lparr>items := []\<rparr>)" by simp
qed simp

lemma sound_step_replace_item [sound_intros]:
  assumes "wf_db db" "session_ok db ls" "old \<in> set (items db)"
    "case c of None \<Rightarrow> True | Some k \<Rightarrow> k \<in> cat_id ` set (categories db)"
    "commit (db\<lparr>items := replace_row item_id (edited_item old n d c t) (items db)\<rparr>) = Inr db'"
  shows "sound_step db ls (r, db', ls)"
proof (rule sound_step_commit [OF assms(1,2) _ _ assms(5)])
  have "wf_rows db" using assms(1) by (rule wf_db_rows)
  from wf_rows_items_ok [OF this assms(3)] assms(4)
  show "wf_rows (db\<lparr>items := replace_row item_id (edited_item old n d c t) (items db)\<rparr>)"
    by (intro wf_rows_replace_item [OF \<open>wf_rows db\<close> assms(3)])
       (auto simp: edited_item_def split: option.splits)
qed simp

end
