(* ===== verification/Auth.thy ===== *)
theory Auth
  imports Http
begin

text \<open>
  The authentication handlers of \<open>src/vagrant/catalog/project.py\<close>:
  local signup \<open>new_user\<close> (\<open>POST /users/\<close>), the basic-auth callback
  \<open>verify_password\<close> and the \<open>@auth.login_required\<close> wrapper of flask_httpauth
  around a handler, the token endpoint \<open>get_auth_token\<close> (\<open>/token/\<close>), and the
  Google sign-in \<open>gconnect\<close>/\<open>gdisconnect\<close> with their helpers \<open>createUser\<close>
  and \<open>getUserID\<close>. The secret key of the token serializer is a parameter
  \<open>secret\<close>: \<open>database_setup.py\<close> draws it at random when the module is loaded.
\<close>

subsection \<open>Local signup\<close>

definition new_user :: "catalog_db \<Rightarrow> login_session \<Rightarrow> request \<Rightarrow> outcome" where
  "new_user db ls req =
     (case req_json req of
        None \<Rightarrow> (Raised AttributeError, db, ls)
      | Some j \<Rightarrow>
     (let username = map_of j ''username''; password = map_of j ''password'';
          mail = map_of j ''email''
      in if username = None \<or> password = None \<or> mail = None
         then (Abort 400 ''You need to supply an username and a password'', db, ls)
         else if find (\<lambda>u. Some (name u) = username) (users db) \<noteq> None
         then (Abort 400 ''Username already used'', db, ls)
         else
           (let u = hash_password (req_rand req) (the password)
                      \<lparr>uid = 0, name = the username, email = the mail, picture = None,
                       google_id = None, password_hash = None, admin = False\<rparr>
            in case commit (add_user u db) of
                 Inl e \<Rightarrow> (Raised e, db, ls)
               | Inr db' \<Rightarrow>
                   (Json 200 (jsonify (JArr [JObj [(''username'', JStr (the username))], JNum 201])), db', ls))))"

subsection \<open>Credential verification\<close>

text \<open>
  \<open>verify_password(username_or_token, password)\<close>: every \<open>GET\<close> passes
  without looking at the credentials; otherwise a valid token (a truthy user
  id) selects the user by id, and anything else is looked up as a user name
  and checked against the password hash. On success the user's id and admin
  flag are written into the session. A token naming a user id with no row
  makes \<open>user.id\<close> fail with \<open>AttributeError\<close>.
\<close>

definition login_user :: "login_session \<Rightarrow> user \<Rightarrow> login_session" where
  "login_user ls u = ls\<lparr>ls_userId := Some (uid u), ls_admin := Some (admin u)\<rparr>"

definition verify_password ::
  "string \<Rightarrow> catalog_db \<Rightarrow> login_session \<Rightarrow> request \<Rightarrow> string \<Rightarrow> string \<Rightarrow>
   py_exc + bool \<times> login_session" where
  "verify_password secret db ls req username_or_token password =
     (if req_method req = GET then Inr (True, ls)
      else
        (let user_id = verify_auth_token secret (req_now req) username_or_token
         in if user_id \<noteq> None \<and> user_id \<noteq> Some 0
            then (case find (\<lambda>u. Some (uid u) = user_id) (users db) of
                    None \<Rightarrow> Inl AttributeError
                  | Some u \<Rightarrow> Inr (True, login_user ls u))
            else (case find (\<lambda>u. name u = username_or_token) (users db) of
                    None \<Rightarrow> Inr (False, ls)
                  | Some u \<Rightarrow>
                      if \<not> verify_password_hash u password then Inr (False, ls)
                      else Inr (True, login_user ls u))))"

text \<open>
  flask_httpauth's \<open>login_required\<close>: the credentials of the \<open>Authorization\<close>
  header, or two empty strings when there is none, go to the callback; a
  \<open>False\<close> answer is a 401 response.
\<close>

definition login_required ::
  "string \<Rightarrow> (catalog_db \<Rightarrow> login_session \<Rightarrow> request \<Rightarrow> outcome) \<Rightarrow>
   catalog_db \<Rightarrow> login_session \<Rightarrow> request \<Rightarrow> outcome" where
  "login_required secret handler db ls req =
     (let (u, p) = (case req_auth req of None \<Rightarrow> ([], []) | Some c \<Rightarrow> c)
      in case verify_password secret db ls req u p of
           Inl e \<Rightarrow> (Raised e, db, ls)
         | Inr (False, ls') \<Rightarrow> (Abort 401 ''Unauthorized Access'', db, ls')
         | Inr (True, ls') \<Rightarrow> handler db ls' req)"

subsection \<open>Tokens\<close>

definition get_auth_token :: "string \<Rightarrow> catalog_db \<Rightarrow> login_session \<Rightarrow> request \<Rightarrow> outcome" where
  "get_auth_token secret db ls req =
     (case ls_userId ls of
        None \<Rightarrow> (Raised KeyError, db, ls)
      | Some i \<Rightarrow>
          (case find (\<lambda>u. uid u = i) (users db) of
             None \<Rightarrow> (Raised AttributeError, db, ls)
           | Some u \<Rightarrow>
               (Json 200 (jsonify (JObj [(''token'', JStr (generate_auth_token secret (req_now req) 600 (uid u)))])),
                db, ls)))"

subsection \<open>Google sign-in\<close>

definition getUserID :: "catalog_db \<Rightarrow> string \<Rightarrow> rowid option" where
  "getUserID db e = map_option uid (find (\<lambda>u. email u = e) (users db))"

text \<open>
  \<open>createUser\<close> commits the new row and then reads it back with \<open>.one()\<close>
  by e-mail; an exception of that query comes after the commit, so the model
  returns the database next to the result.
\<close>

definition createUser :: "catalog_db \<Rightarrow> idinfo \<Rightarrow> (py_exc + rowid) \<times> catalog_db" where
  "createUser db info =
     (case (id_name info, id_picture info) of
        (Some n, Some p) \<Rightarrow>
          (let u = \<lparr>uid = 0, name = n, email = id_email info, picture = Some p,
                    google_id = Some (id_sub info), password_hash = None, admin = False\<rparr>
           in case commit (add_user u db) of
                Inl e \<Rightarrow> (Inl e, db)
              | Inr db' \<Rightarrow>
                  (case filter (\<lambda>v. email v = id_email info) (users db') of
                     [] \<Rightarrow> (Inl NoResultFound, db')
                   | [v] \<Rightarrow> (Inr (uid v), db')
                   | _ \<Rightarrow> (Inl MultipleResultsFound, db')))
      | _ \<Rightarrow> (Inl KeyError, db))"

definition google_issuers :: "string list" where
  "google_issuers = [''accounts.google.com'', ''https://accounts.google.com'']"

definition gconnect :: "catalog_db \<Rightarrow> login_session \<Rightarrow> request \<Rightarrow> outcome" where
  "gconnect db ls req =
     (case ls_state ls of
        None \<Rightarrow> (Raised KeyError, db, ls)
      | Some st \<Rightarrow>
          if map_of (req_args req) ''state'' \<noteq> Some st
          then (Json 401 (JStr ''Invalid state content''), db, ls)
          else
            (case req_idinfo req of
               None \<Rightarrow> (Raised ValueError, db, ls)
             | Some info \<Rightarrow>
                 if id_iss info \<notin> set google_issuers then (Raised ValueError, db, ls)
                 else
                   (let signin = (\<lambda>i. ls\<lparr>ls_userId := Some i, ls_credentials := Some (req_data req)\<rparr>)
                    in case getUserID db (id_email info) of
                         Some i \<Rightarrow> (Redirect Home [], db, signin i)
                       | None \<Rightarrow>
                           (case createUser db info of
                              (Inl e, db') \<Rightarrow> (Raised e, db', ls)
                            | (Inr i, db') \<Rightarrow> (Redirect Home [], db', signin i)))))"

text \<open>\<open>gdisconnect\<close>: the call that revokes the token at Google is an external
  effect whose answer the handler ignores; it is not modelled.\<close>

definition gdisconnect :: "catalog_db \<Rightarrow> login_session \<Rightarrow> request \<Rightarrow> outcome" where
  "gdisconnect db ls req =
     (case ls_userId ls of
        None \<Rightarrow> (Json 401 (JStr ''Current user not connected.''), db, ls)
      | Some _ \<Rightarrow>
          (case ls_credentials ls of
             None \<Rightarrow> (Raised KeyError, db, ls)
           | Some _ \<Rightarrow> (Redirect Home [], db, ls\<lparr>ls_userId := None, ls_credentials := None\<rparr>)))"

subsection \<open>The authentication handlers keep the invariant\<close>

lemma session_ok_login_user: "u \<in> set (users db) \<Longrightarrow> session_ok db (login_user ls u)"
  by (simp add: session_ok_def login_user_def)

lemma verify_password_session:
  "session_ok db ls \<Longrightarrow> verify_password secret db ls req u p = Inr (b, ls') \<Longrightarrow> session_ok db ls'"
  unfolding verify_password_def Let_def
  by (auto split: if_splits option.splits dest: find_Some_in_set intro: session_ok_login_user)

lemma login_required_sound:
  assumes "wf_db db" "session_ok db ls"
    and "\<And>ls'. session_ok db ls' \<Longrightarrow> sound_step db ls' (handler db ls' req)"
  shows "sound_step db ls (login_required secret handler db ls req)"
proof -
  obtain u p where up: "(case req_auth req of None \<Rightarrow> ([], []) | Some c \<Rightarrow> c) = (u, p)"
    by (cases "case req_auth req of None \<Rightarrow> ([], []) | Some c \<Rightarrow> c")
  show ?thesis
  proof (cases "verify_password secret db ls req u p")
    case (Inl e)
    with up assms(1,2) show ?thesis
      by (simp add: login_required_def sound_step_unchanged)
  next
    case (Inr r)
    obtain b ls' where r: "r = (b, ls')" by (cases r)
    with Inr assms(2) have ok: "session_ok db ls'" by (blast dest: verify_password_session)
    have "sound_step db ls' (handler db ls' req)" using ok by (rule assms(3))
    moreover have "sound_step db ls (Abort 401 ''Unauthorized Access'', db, ls')"
      using assms(1) ok by (simp add: sound_step_def)
    moreover have "sound_step db ls (handler db ls' req) = sound_step db ls' (handler db ls' req)"
      by (simp add: sound_step_def)
    ultimately show ?thesis using Inr r up
      by (cases b) (simp_all add: login_required_def)
  qed
qed

lemma new_user_sound:
  assumes "wf_db db" "session_ok db ls"
  shows "sound_step db ls (new_user db ls req)"
proof -
  have leaf: "sound_step db ls (case commit (add_user (hash_password salt pw u) db) of
      Inl e \<Rightarrow> (Raised e, db, ls) | Inr db' \<Rightarrow> (r, db', ls))"
    if "name u \<notin> name ` set (users db)" for salt pw u r
  proof (rule sound_step_commit_case [OF assms])
    fix db' assume c: "commit (add_user (hash_password salt pw u) db) = Inr db'"
    have "wf_rows (add_user (hash_password salt pw u) db)"
      by (rule wf_rows_add_user [OF wf_db_rows [OF assms(1)]]) (simp add: hash_password_def that)
    then have "wf_db db'" using c by (rule wf_db_commit)
    moreover have "set (users db) \<subseteq> set (users db')" using c by (auto simp: commit_Inr_iff add_user_def)
    ultimately show "sound_step db ls (r, db', ls)"
      using assms(2) by (simp add: sound_step_def session_ok_mono)
  qed
  show ?thesis
    unfolding new_user_def Let_def
    by (auto simp: assms sound_step_unchanged find_None_iff split: option.split intro!: leaf)
qed

lemma get_auth_token_sound:
  "wf_db db \<Longrightarrow> session_ok db ls \<Longrightarrow> sound_step db ls (get_auth_token secret db ls req)"
  unfolding get_auth_token_def by (simp add: sound_step_unchanged split: option.split)

lemma gdisconnect_sound:
  "wf_db db \<Longrightarrow> session_ok db ls \<Longrightarrow> sound_step db ls (gdisconnect db ls req)"
  unfolding gdisconnect_def
  by (simp add: sound_step_unchanged split: option.split) (simp add: sound_step_def session_ok_def)

lemma createUser_sound:
  assumes "wf_db db" and "createUser db info = (res, db')"
  shows "wf_db db' \<and> set (users db) \<subseteq> set (users db') \<and>
         (\<forall>i. res = Inr i \<longrightarrow> i \<in> uid ` set (users db'))"
proof (cases "\<exists>n p. id_name info = Some n \<and> id_picture info = Some p")
  case False
  with assms show ?thesis by (auto simp: createUser_def split: option.splits)
next
  case True
  then obtain n p where np: "id_name info = Some n" "id_picture info = Some p" by blast
  let ?u = "\<lparr>uid = 0, name = n, email = id_email info, picture = Some p,
             google_id = Some (id_sub info), password_hash = None, admin = False\<rparr>"
  show ?thesis
  proof (cases "commit (add_user ?u db)")
    case (Inl e)
    with assms np show ?thesis by (auto simp: createUser_def)
  next
    case (Inr db1)
    have "wf_rows (add_user ?u db)" using wf_db_rows [OF assms(1)] by (rule wf_rows_add_user) simp
    then have "wf_db db1" using Inr by (rule wf_db_commit)
    moreover have "set (users db) \<subseteq> set (users db1)" using Inr by (auto simp: commit_Inr_iff add_user_def)
    moreover have "db' = db1" and "res = Inr i \<Longrightarrow> i \<in> uid ` set (users db1)" for i
      using assms(2) np Inr
      by (auto simp: createUser_def split: list.splits dest!: filter_eq_ConsD)
    ultimately show ?thesis by blast
  qed
qed

lemma gconnect_sound:
  assumes "wf_db db" "session_ok db ls"
  shows "sound_step db ls (gconnect db ls req)"
proof -
  have created: "sound_step db ls
      (case createUser db info of (Inl e, db') \<Rightarrow> (Raised e, db', ls)
         | (Inr i, db') \<Rightarrow> (Redirect Home [], db', ls\<lparr>ls_userId := Some i, ls_credentials := Some d\<rparr>))"
    for info d
  proof (cases "createUser db info")
    case (Pair res db')
    with createUser_sound [OF assms(1) this] assms(2) show ?thesis
      by (cases res) (auto simp: sound_step_def session_ok_def intro: session_ok_mono [unfolded session_ok_def])
  qed
  have found: "getUserID db e = Some i \<Longrightarrow> i \<in> uid ` set (users db)" for e i
    by (auto simp: getUserID_def dest: find_Some_in_set)
  show ?thesis
    unfolding gconnect_def Let_def
    by (auto simp: assms sound_step_unchanged created split: option.split)
       (auto simp: sound_step_def session_ok_def assms(1) dest: found)
qed
subsection \<open>Properties\<close>

text \<open>
  C6: In a well-formed database, a non-GET request whose credentials are the name of a local account (not a valid token) and a password authenticates exactly when the password matches that account's hash, and then writes that account's id and admin flag into the session; otherwise it fails and the session is unchanged.
\<close>

theorem verify_password_local_login:
  assumes "wf_db db" "req_method req \<noteq> GET" "verify_auth_token secret (req_now req) (name u) = None"
    and "u \<in> set (users db)" "password_hash u \<noteq> None"
  shows "verify_password secret db ls req (name u) pw =
           (if verify_password_hash u pw then Inr (True, login_user ls u) else Inr (False, ls))"
proof -
  have "find (\<lambda>v. name v = name u) (users db) = Some u"
    using assms(1,4,5) by (simp add: wf_db_def wf_rows_def)
  with assms(2,3) show ?thesis by (simp add: verify_password_def)
qed

text \<open>
  C16: Google sign-in with a valid anti-forgery state and ID token whose e-mail no user has (and whose Google id is unused) appends one new user with that name, e-mail, picture and Google id, logs the session in as that user with the next rowid, and redirects home: the .one() read-back cannot fail.
\<close>

theorem gconnect_creates_user:
  assumes "db_constraints db" "ls_state ls = Some st" "map_of (req_args req) ''state'' = Some st"
    and "req_idinfo req = Some info" "id_iss info \<in> set google_issuers"
    and "id_name info = Some n" "id_picture info = Some p"
    and "id_email info \<notin> email ` set (users db)"
    and "id_sub info \<notin> set (List.map_filter google_id (users db))"
  shows "gconnect db ls req =
     (Redirect Home [],
      add_user \<lparr>uid = 0, name = n, email = id_email info, picture = Some p,
                google_id = Some (id_sub info), password_hash = None, admin = False\<rparr> db,
      ls\<lparr>ls_userId := Some (next_rowid uid (users db)), ls_credentials := Some (req_data req)\<rparr>)"
proof -
  let ?u = "\<lparr>uid = 0, name = n, email = id_email info, picture = Some p,
             google_id = Some (id_sub info), password_hash = None, admin = False\<rparr>"
  have none: "getUserID db (id_email info) = None"
    using assms(8) by (force simp: getUserID_def find_None_iff)
  have c: "commit (add_user ?u db) = Inr (add_user ?u db)"
    using assms(1,9) by (simp add: commit_def constraints_add_user)
  have "filter (\<lambda>v. email v = id_email info) (users (add_user ?u db)) = [?u\<lparr>uid := next_rowid uid (users db)\<rparr>]"
    using assms(8) by (auto simp: add_user_def filter_empty_conv intro: rev_image_eqI)
  then have "createUser db info = (Inr (next_rowid uid (users db)), add_user ?u db)"
    using assms(6,7) c by (simp add: createUser_def)
  with assms(2-5) none show ?thesis by (simp add: gconnect_def Let_def)
qed

text \<open>
  C18: Signing up with a fresh user name stores the user with the salted hash of the password, but the response has status 200 and the body [{"username": name}, 201]: jsonify receives the intended status as a second value.
\<close>

theorem new_user_status_200:
  assumes "db_constraints db"
    and "json_field req ''username'' = Some n" "json_field req ''password'' = Some p"
    and "json_field req ''email'' = Some e" "n \<notin> name ` set (users db)"
  shows "new_user db ls req =
     (Json 200 (JArr [JObj [(''username'', JStr n)], JNum 201]),
      add_user \<lparr>uid = 0, name = n, email = e, picture = None, google_id = None,
                password_hash = Some (pwd_encrypt (req_rand req) p), admin = False\<rparr> db, ls) \<and>
     status (fst (new_user db ls req)) = 200"
proof -
  have "find (\<lambda>u. Some (name u) = Some n) (users db) = None"
    using assms(5) by (auto simp: find_None_iff)
  moreover have "commit (add_user \<lparr>uid = 0, name = n, email = e, picture = None, google_id = None,
                password_hash = Some (pwd_encrypt (req_rand req) p), admin = False\<rparr> db) =
      Inr (add_user \<lparr>uid = 0, name = n, email = e, picture = None, google_id = None,
                password_hash = Some (pwd_encrypt (req_rand req) p), admin = False\<rparr> db)"
    using assms(1) by (simp add: commit_def constraints_add_user)
  ultimately show ?thesis
    using assms(2-4) by (auto simp: new_user_def Let_def hash_password_def json_field_def split: option.splits)
qed

text \<open>
  C21: GET /gdisconnect for a session logged in through basic auth (a user id but no OAuth credentials) raises KeyError (status 500) and leaves the session logged in.
\<close>

theorem gdisconnect_without_credentials:
  "ls_userId ls = Some i \<Longrightarrow> ls_credentials ls = None \<Longrightarrow> gdisconnect db ls req = (Raised KeyError, db, ls)"
  by (simp add: gdisconnect_def)

text \<open>
  C22: Google sign-in whose e-mail matches no user but whose Google id is already stored (the Google account changed its e-mail) fails with IntegrityError (status 500) on the unique google_id column, and changes nothing.
\<close>

theorem gconnect_reused_google_id:
  assumes "db_constraints db" "ls_state ls = Some st" "map_of (req_args req) ''state'' = Some st"
    and "req_idinfo req = Some info" "id_iss info \<in> set google_issuers"
    and "id_name info = Some n" "id_picture info = Some p"
    and "id_email info \<notin> email ` set (users db)"
    and "id_sub info \<in> set (List.map_filter google_id (users db))"
  shows "gconnect db ls req = (Raised IntegrityError, db, ls)"
proof -
  have none: "getUserID db (id_email info) = None"
    using assms(8) by (force simp: getUserID_def find_None_iff)
  have "createUser db info = (Inl IntegrityError, db)"
    using assms(1,6,7,9) by (simp add: createUser_def commit_def constraints_add_user)
  with assms(2-5) none show ?thesis by (simp add: gconnect_def Let_def)
qed

end
