(* ===== verification/Pages.thy ===== *)
theory Pages
  imports Http
begin

text \<open>
  The server-rendered pages of \<open>src/vagrant/catalog/project.py\<close>, one
  definition per view function, in the order of the file: \<open>showHome\<close>,
  \<open>newItem\<close>, \<open>newCategory\<close>, \<open>showCategory\<close>, \<open>showItem\<close>, \<open>editItem\<close>,
  \<open>deleteItem\<close>. Each follows the view's early returns in order. The views are
  registered for \<open>GET\<close> and \<open>POST\<close> only; the final \<open>Raised TypeError\<close> branch is
  the \<open>None\<close> a view returns for any other method, which Flask rejects.
\<close>

text \<open>The five newest items: \<open>order_by(desc(Item.creation_date)).limit(5)\<close>;
  items created at the same time keep their rowid order.\<close>

definition latest_items :: "item list \<Rightarrow> item list" where
  "latest_items its = take 5 (sort_key (\<lambda>i. - int (creation_date i)) its)"

definition showHome :: "catalog_db \<Rightarrow> login_session \<Rightarrow> request \<Rightarrow> outcome" where
  "showHome db ls req =
     (let state = req_rand req
      in (Render (HomePage (categories db) (latest_items (items db)) (ls_userId ls) state),
          db, ls\<lparr>ls_state := Some state\<rparr>))"

definition not_connected :: response where
  "not_connected = Redirect Home [''User is not connected'']"

definition newItem :: "catalog_db \<Rightarrow> login_session \<Rightarrow> request \<Rightarrow> outcome" where
  "newItem db ls req =
     (case ls_userId ls of
        None \<Rightarrow> (not_connected, db, ls)
      | Some userId \<Rightarrow>
          if req_method req = GET then (Render (NewItemPage (categories db)), db, ls)
          else if req_method req = POST then
            (if form_missing req [''name'', ''description'', ''category''] then (bad_request, db, ls)
             else
               (let n = form_value req ''name''; d = form_value req ''description'';
                    c = form_value req ''category''
                in if n \<noteq> [] \<and> d \<noteq> [] \<and> c \<noteq> [] then
                     (if find (\<lambda>i. item_name i = n) (items db) \<noteq> None
                      then (Abort 400 ''Item already exists'', db, ls)
                      else if c = [] then (Abort 400 ''Category does not exist'', db, ls)
                      else
                        (case find (\<lambda>x. cat_name x = c) (categories db) of
                           None \<Rightarrow> (Raised AttributeError, db, ls)
                         | Some categoryData \<Rightarrow>
                             (case commit (add_item (new_item n d (cat_id categoryData) (req_now req) userId) db) of
                                Inl e \<Rightarrow> (Raised e, db, ls)
                              | Inr db' \<Rightarrow> (Redirect Home [''New item '' @ n @ '' created!''], db', ls))))
                   else (Abort 400 ''The name, description and category parameters must be supplied'', db, ls)))
          else (Raised TypeError, db, ls))"

definition newCategory :: "catalog_db \<Rightarrow> login_session \<Rightarrow> request \<Rightarrow> outcome" where
  "newCategory db ls req =
     (case ls_userId ls of
        None \<Rightarrow> (not_connected, db, ls)
      | Some _ \<Rightarrow>
          if req_method req = GET then (Render NewCategoryPage, db, ls)
          else if req_method req = POST then
            (if form_missing req [''name''] then (bad_request, db, ls)
             else
               (let n = form_value req ''name''
                in if n = [] then (Abort 400 ''No category name provided'', db, ls)
                   else if find (\<lambda>x. cat_name x = n) (categories db) \<noteq> None
                   then (Abort 400 ''Category already exists'', db, ls)
                   else
                     (case commit (add_category n db) of
                        Inl e \<Rightarrow> (Raised e, db, ls)
                      | Inr db' \<Rightarrow> (Redirect Home [''New category '' @ n @ '' created!''], db', ls))))
          else (Raised TypeError, db, ls))"

definition showCategory :: "catalog_db \<Rightarrow> login_session \<Rightarrow> rowid \<Rightarrow> outcome" where
  "showCategory db ls category_id' =
     (case find (\<lambda>x. cat_id x = category_id') (categories db) of
        None \<Rightarrow> (Abort 404 ''Not Found'', db, ls)
      | Some categoryData \<Rightarrow>
          (Render (CategoryPage categoryData
             (filter (\<lambda>i. category_id i = category_id') (items db)) (ls_userId ls)), db, ls))"

definition showItem :: "catalog_db \<Rightarrow> login_session \<Rightarrow> rowid \<Rightarrow> outcome" where
  "showItem db ls item_id' =
     (case find (\<lambda>i. item_id i = item_id') (items db) of
        None \<Rightarrow> (Abort 404 ''Not Found'', db, ls)
      | Some itemData \<Rightarrow>
          (Render (ItemPage (find (\<lambda>x. cat_id x = category_id itemData) (categories db))
             itemData (ls_userId ls)), db, ls))"

definition editItem :: "catalog_db \<Rightarrow> login_session \<Rightarrow> request \<Rightarrow> rowid \<Rightarrow> outcome" where
  "editItem db ls req item_id' =
     (case ls_userId ls of
        None \<Rightarrow> (not_connected, db, ls)
      | Some userId \<Rightarrow>
          (case find (\<lambda>i. item_id i = item_id') (items db) of
             None \<Rightarrow> (Abort 404 ''Not Found'', db, ls)
           | Some itemData \<Rightarrow>
               if user_id itemData \<noteq> userId
               then (Redirect Home [''User cannot edit item '' @ item_name itemData], db, ls)
               else if req_method req = GET then
                 (case find (\<lambda>x. cat_id x = category_id itemData) (categories db) of
                    None \<Rightarrow> (Raised AttributeError, db, ls)
                  | Some itemCategory \<Rightarrow>
                      (Render (EditItemPage (categories db) itemData (cat_name itemCategory)), db, ls))
               else if req_method req = POST then
                 (if form_missing req [''name'', ''description'', ''category''] then (bad_request, db, ls)
                  else
                    (let newName = form_value req ''name''; newDesc = form_value req ''description'';
                         newCat = form_value req ''category''
                     in if newName = [] \<and> newDesc = [] \<and> newCat = []
                        then (Redirect (ShowItem item_id') [''Item not edited''], db, ls)
                        else if newName \<noteq> item_name itemData \<and>
                                find (\<lambda>i. item_name i = newName) (items db) \<noteq> None
                        then (Abort 400 ''This item name has already been used'', db, ls)
                        else
                          (let newCategory = find (\<lambda>x. cat_name x = newCat) (categories db)
                           in if newCat \<noteq> [] \<and> newCategory = None then (Raised AttributeError, db, ls)
                              else
                                (let it' = edited_item itemData newName newDesc
                                             (if newCat \<noteq> [] then map_option cat_id newCategory else None)
                                             (req_now req)
                                 in case commit (db\<lparr>items := replace_row item_id it' (items db)\<rparr>) of
                                      Inl e \<Rightarrow> (Raised e, db, ls)
                                    | Inr db' \<Rightarrow>
                                        (Redirect (ShowItem item_id') [''Item successfully edited''], db', ls)))))
               else (Raised TypeError, db, ls)))"

definition deleteItem :: "catalog_db \<Rightarrow> login_session \<Rightarrow> request \<Rightarrow> rowid \<Rightarrow> outcome" where
  "deleteItem db ls req item_id' =
     (case ls_userId ls of
        None \<Rightarrow> (not_connected, db, ls)
      | Some userId \<Rightarrow>
          (case find (\<lambda>i. item_id i = item_id') (items db) of
             None \<Rightarrow> (Abort 404 ''Not Found'', db, ls)
           | Some itemData \<Rightarrow>
               if user_id itemData \<noteq> userId
               then (Redirect Home [''User cannot delete item '' @ item_name itemData], db, ls)
               else if req_method req = GET then (Render (DeleteItemPage itemData), db, ls)
               else if req_method req = POST then
                 (case commit (db\<lparr>items := filter (\<lambda>i. item_id i \<noteq> item_id') (items db)\<rparr>) of
                    Inl e \<Rightarrow> (Raised e, db, ls)
                  | Inr db' \<Rightarrow>
                      (Redirect (ShowCategory (category_id itemData))
                         [''Item '' @ item_name itemData @ '' successfully deleted''], db', ls))
               else (Raised TypeError, db, ls)))"

subsection \<open>The pages keep the invariant\<close>

lemma showHome_sound:
  "wf_db db \<Longrightarrow> session_ok db ls \<Longrightarrow> sound_step db ls (showHome db ls req)"
  by (simp add: showHome_def Let_def sound_step_def session_ok_def)

lemma newItem_sound:
  "wf_db db \<Longrightarrow> session_ok db ls \<Longrightarrow> sound_step db ls (newItem db ls req)"
  unfolding newItem_def Let_def
  by (auto split: option.splits sum.splits intro: sound_intros dest: find_Some_in_set)

lemma newCategory_sound:
  "wf_db db \<Longrightarrow> session_ok db ls \<Longrightarrow> sound_step db ls (newCategory db ls req)"
  unfolding newCategory_def Let_def
  by (auto split: option.splits sum.splits intro: sound_intros)

lemma showCategory_sound:
  "wf_db db \<Longrightarrow> session_ok db ls \<Longrightarrow> sound_step db ls (showCategory db ls c)"
  unfolding showCategory_def by (auto split: option.splits intro: sound_intros)

lemma showItem_sound:
  "wf_db db \<Longrightarrow> session_ok db ls \<Longrightarrow> sound_step db ls (showItem db ls i)"
  unfolding showItem_def by (auto split: option.splits intro: sound_intros)

lemma editItem_sound:
  assumes "wf_db db" "session_ok db ls"
  shows "sound_step db ls (editItem db ls req i)"
proof -
  have leaf: "sound_step db ls (case commit (db\<lparr>items := replace_row item_id (edited_item itemData nn nd
             (if newCat \<noteq> [] then map_option cat_id (find (\<lambda>x. cat_name x = newCat) (categories db))
              else None) t) (items db)\<rparr>) of Inl e \<Rightarrow> (Raised e, db, ls) | Inr db' \<Rightarrow> (r, db', ls))"
    if "find (\<lambda>it. item_id it = i) (items db) = Some itemData"
      and "\<not> (newCat \<noteq> [] \<and> find (\<lambda>x. cat_name x = newCat) (categories db) = None)"
    for itemData newCat nn nd t r
  proof (rule sound_step_commit_case [OF assms])
    fix db' assume "commit (db\<lparr>items := replace_row item_id (edited_item itemData nn nd
             (if newCat \<noteq> [] then map_option cat_id (find (\<lambda>x. cat_name x = newCat) (categories db))
              else None) t) (items db)\<rparr>) = Inr db'"
    note c = this
    from that(1) have "itemData \<in> set (items db)" by (blast dest: find_Some_in_set)
    moreover have "case (if newCat \<noteq> [] then map_option cat_id (find (\<lambda>x. cat_name x = newCat) (categories db))
        else None) of None \<Rightarrow> True | Some k \<Rightarrow> k \<in> cat_id ` set (categories db)"
      using that(2) by (cases "find (\<lambda>x. cat_name x = newCat) (categories db)") (auto dest: find_Some_in_set)
    ultimately show "sound_step db ls (r, db', ls)"
      by (rule sound_step_replace_item [OF assms _ _ c])
  qed
  show ?thesis
    unfolding editItem_def Let_def
    by (cases "ls_userId ls"; cases "find (\<lambda>it. item_id it = i) (items db)";
        simp add: assms sound_step_unchanged leaf split: option.split)
qed
lemma deleteItem_sound:
  "wf_db db \<Longrightarrow> session_ok db ls \<Longrightarrow> sound_step db ls (deleteItem db ls req i)"
  unfolding deleteItem_def by (auto split: option.splits sum.splits intro: sound_intros)
subsection \<open>Properties\<close>

text \<open>
  C4: The edit and delete pages of an item refuse every logged-in user other than the item's creator, administrators included, with a redirect to the home page and a flash message, and change nothing.
\<close>

theorem page_change_requires_owner:
  assumes "ls_userId ls = Some u" and "find (\<lambda>i. item_id i = k) (items db) = Some it"
    and "user_id it \<noteq> u"
  shows "editItem db ls req k = (Redirect Home [''User cannot edit item '' @ item_name it], db, ls) \<and>
         deleteItem db ls req k = (Redirect Home [''User cannot delete item '' @ item_name it], db, ls)"
  using assms by (simp add: editItem_def deleteItem_def)

text \<open>
  C7: Creating a category on the page with a non-empty name that an existing category already has yields a 400 "Category already exists" and changes nothing.
\<close>

theorem newCategory_duplicate:
  assumes "ls_userId ls \<noteq> None" "req_method req = POST" "map_of (req_form req) ''name'' = Some n"
    and "n \<noteq> []" "n \<in> cat_name ` set (categories db)"
  shows "newCategory db ls req = (Abort 400 ''Category already exists'', db, ls)"
  using assms
  by (auto simp: newCategory_def Let_def form_missing_def form_value_def find_None_iff)

text \<open>
  C10: Creating an item on the page with a missing or empty name, description or category yields status 400 and changes neither the database nor the session.
\<close>

theorem newItem_missing_fields:
  assumes "ls_userId ls \<noteq> None" "req_method req = POST"
    and "form_missing req [''name'', ''description'', ''category''] \<or> form_value req ''name'' = [] \<or>
         form_value req ''description'' = [] \<or> form_value req ''category'' = []"
  shows "status (fst (newItem db ls req)) = 400 \<and> snd (newItem db ls req) = (db, ls)"
  using assms by (auto simp: newItem_def Let_def bad_request_def)

text \<open>
  C12: Creating an item on the page with a fresh item name and a category name that no category has raises AttributeError (status 500), since the code tests the form string instead of the query result; the database is unchanged.
\<close>

theorem newItem_unknown_category:
  assumes "ls_userId ls = Some u" "req_method req = POST"
    and "map_of (req_form req) ''name'' = Some n" "map_of (req_form req) ''description'' = Some d"
    and "map_of (req_form req) ''category'' = Some c" "n \<noteq> []" "d \<noteq> []" "c \<noteq> []"
    and "n \<notin> item_name ` set (items db)" "c \<notin> cat_name ` set (categories db)"
  shows "newItem db ls req = (Raised AttributeError, db, ls)"
proof -
  have "find (\<lambda>i. item_name i = n) (items db) = None"
    "find (\<lambda>x. cat_name x = c) (categories db) = None"
    using assms(9,10) by (auto simp: find_None_iff)
  with assms(1-8) show ?thesis
    by (simp add: newItem_def Let_def form_missing_def form_value_def)
qed

text \<open>
  C15: The home page lists min(5, n) of the n items, newest first, all of them items of the database, and no item left out is newer than an item listed.
\<close>

theorem latest_items_newest:
  "length (latest_items its) = min 5 (length its) \<and>
   sorted_wrt (\<lambda>a b. creation_date b \<le> creation_date a) (latest_items its) \<and>
   set (latest_items its) \<subseteq> set its \<and>
   (\<forall>x \<in> set its - set (latest_items its). \<forall>y \<in> set (latest_items its).
      creation_date x \<le> creation_date y)"
proof -
  let ?f = "\<lambda>i. - int (creation_date i)" and ?S = "sort_key (\<lambda>i. - int (creation_date i)) its"
  have s: "sorted (map ?f ?S)" by (rule sorted_sort_key)
  then have sw: "sorted_wrt (\<lambda>a b. ?f a \<le> ?f b) ?S" by (simp add: sorted_map)
  have len: "length (latest_items its) = min 5 (length its)"
    by (simp add: latest_items_def length_sort)
  have ord: "sorted_wrt (\<lambda>a b. creation_date b \<le> creation_date a) (latest_items its)"
  proof -
    have "sorted_wrt (\<lambda>a b. ?f a \<le> ?f b) (take 5 ?S)" using sw by (rule sorted_wrt_take)
    then show ?thesis by (simp add: latest_items_def sorted_wrt_mono_rel [of _ "\<lambda>a b. ?f a \<le> ?f b"])
  qed
  have sub: "set (latest_items its) \<subseteq> set its"
    by (auto simp: latest_items_def dest: in_set_takeD)
  have rest: "creation_date x \<le> creation_date y"
    if "x \<in> set its - set (latest_items its)" "y \<in> set (latest_items its)" for x y
  proof -
    have "x \<in> set (drop 5 ?S)"
      using that(1) by (metis DiffE append_take_drop_id latest_items_def set_append set_sort UnE)
    moreover have "y \<in> set (take 5 ?S)" using that(2) by (simp add: latest_items_def)
    moreover have "sorted_wrt (\<lambda>a b. ?f a \<le> ?f b) (take 5 ?S @ drop 5 ?S)"
      using sw by (simp only: append_take_drop_id)
    then have "\<forall>a\<in>set (take 5 ?S). \<forall>b\<in>set (drop 5 ?S). ?f a \<le> ?f b"
      unfolding sorted_wrt_append by blast
    ultimately have "?f y \<le> ?f x" by blast
    then show ?thesis by simp
  qed
  from len ord sub rest show ?thesis by blast
qed

end
