(* ===== verification/Api.thy ===== *)
theory Api
  imports Http
begin

text \<open>
  The JSON API of \<open>src/vagrant/catalog/project.py\<close> (lines 423-634), one
  definition per view function, with its branches per HTTP method in the
  order of the source. Every API view is wrapped in \<open>@auth.login_required\<close>;
  the wrapper is \<open>Auth.login_required\<close>, applied in \<open>Server\<close>, so the session
  these definitions receive is the one the credential check left. Request
  bodies are \<open>request.get_json()\<close>, a string dictionary: \<open>body["k"]\<close> on a
  missing key raises \<open>KeyError\<close>, \<open>body.get("k")\<close> gives \<open>None\<close>.
\<close>

definition apiAllCategories :: "catalog_db \<Rightarrow> login_session \<Rightarrow> request \<Rightarrow> outcome" where
  "apiAllCategories db ls req =
     (if req_method req = GET then
        (Json 200 (jsonify (JObj [(''categories'', JArr (map category_serialize (categories db)))])), db, ls)
      else if req_method req = POST then
        (if ls_userId ls = None \<or> ls_userId ls = Some 0
         then (Abort 401 ''Only registered users can perform this operation'', db, ls)
         else
           (case req_json req of
              None \<Rightarrow> (Raised TypeError, db, ls)
            | Some body \<Rightarrow>
           (case map_of body ''name'' of
              None \<Rightarrow> (Raised KeyError, db, ls)
            | Some n \<Rightarrow>
                if find (\<lambda>x. cat_name x = n) (categories db) \<noteq> None
                then (Abort 400 ''Category already exists'', db, ls)
                else
                  (case commit (add_category n db) of
                     Inl e \<Rightarrow> (Raised e, db, ls)
                   | Inr db' \<Rightarrow> (Text (''New Category '' @ n @ '' created''), db', ls)))))
      else if req_method req = DELETE then
        (if \<not> is_admin ls
         then (Abort 401 ''Only administrators can perform this operation'', db, ls)
         else
           (case commit (db\<lparr>categories := [], items := []\<rparr>) of
              Inl e \<Rightarrow> (Raised e, db, ls)
            | Inr db' \<Rightarrow> (Text ''All categories and items deleted'', db', ls)))
      else (Raised TypeError, db, ls))"

definition apiManageCategory :: "catalog_db \<Rightarrow> login_session \<Rightarrow> request \<Rightarrow> rowid \<Rightarrow> outcome" where
  "apiManageCategory db ls req category_id' =
     (if req_method req = GET then
        (if find (\<lambda>x. cat_id x = category_id') (categories db) = None
         then (Abort 400 ''Category does not exist'', db, ls)
         else (Json 200 (jsonify (JArr (map item_serialize
                 (filter (\<lambda>i. category_id i = category_id') (items db))))), db, ls))
      else if req_method req = DELETE then
        (if \<not> is_admin ls
         then (Abort 401 ''Only administrators can perform this operation'', db, ls)
         else if find (\<lambda>x. cat_id x = category_id') (categories db) = None
         then (Abort 400 ''Category does not exist'', db, ls)
         else
           (case commit (db\<lparr>categories := filter (\<lambda>x. cat_id x \<noteq> category_id') (categories db),
                            items := filter (\<lambda>i. category_id i \<noteq> category_id') (items db)\<rparr>) of
              Inl e \<Rightarrow> (Raised e, db, ls)
            | Inr db' \<Rightarrow> (Text ''Category deleted'', db', ls)))
      else (Raised TypeError, db, ls))"

definition apiAllItems :: "catalog_db \<Rightarrow> login_session \<Rightarrow> request \<Rightarrow> outcome" where
  "apiAllItems db ls req =
     (if req_method req = GET then
        (Json 200 (jsonify (JObj [(''items'', JArr (map item_serialize (items db)))])), db, ls)
      else if req_method req = POST then
        (case req_json req of
           None \<Rightarrow> (Raised AttributeError, db, ls)
         | Some body \<Rightarrow>
        (let n = map_of body ''name''; d = map_of body ''description'';
             c = map_of body ''category''
         in if truthy n \<and> truthy d \<and> truthy c then
              (if find (\<lambda>i. Some (item_name i) = n) (items db) \<noteq> None
               then (Abort 400 ''Item already exists'', db, ls)
               else
                 (case find (\<lambda>x. Some (cat_name x) = c) (categories db) of
                    None \<Rightarrow> (Abort 400 ''Category does not exist'', db, ls)
                  | Some category \<Rightarrow>
                      (case ls_userId ls of
                         None \<Rightarrow> (Raised KeyError, db, ls)
                       | Some userId \<Rightarrow>
                           (case commit (add_item (new_item (the n) (the d) (cat_id category)
                                                     (req_now req) userId) db) of
                              Inl e \<Rightarrow> (Raised e, db, ls)
                            | Inr db' \<Rightarrow> (Text (''New item '' @ the n @ '' sucessfully created''), db', ls)))))
            else (Abort 400 ''The name, description and category parameters must be supplied'', db, ls)))
      else if req_method req = DELETE then
        (if \<not> is_admin ls then (Text ''Only administrators can perform this operation'', db, ls)
         else
           (case commit (db\<lparr>items := []\<rparr>) of
              Inl e \<Rightarrow> (Raised e, db, ls)
            | Inr db' \<Rightarrow> (Text ''All items were deleted'', db', ls)))
      else (Raised TypeError, db, ls))"

text \<open>
  The check that the acting user may change an item: \<open>itemData.user_id !=
  login_session.get("userId") and not login_session.get("admin")\<close> refuses.
\<close>

definition may_change :: "login_session \<Rightarrow> item \<Rightarrow> bool" where
  "may_change ls it \<longleftrightarrow> ls_userId ls = Some (user_id it) \<or> is_admin ls"

definition apiManageItem :: "catalog_db \<Rightarrow> login_session \<Rightarrow> request \<Rightarrow> rowid \<Rightarrow> outcome" where
  "apiManageItem db ls req item_id' =
     (if req_method req = GET then
        (case find (\<lambda>i. item_id i = item_id') (items db) of
           None \<Rightarrow> (Abort 400 ''Item does not exist'', db, ls)
         | Some itemData \<Rightarrow> (Json 200 (jsonify (JObj [(''item'', item_serialize itemData)])), db, ls))
      else if req_method req = PUT then
        (let body = req_json req
         in case find (\<lambda>i. item_id i = item_id') (items db) of
              None \<Rightarrow> (Abort 400 ''Item does not exist'', db, ls)
            | Some itemData \<Rightarrow>
                if \<not> may_change ls itemData then (Abort 401 ''You cannot edit this item'', db, ls)
                else
                  (case body of
                     None \<Rightarrow> (Raised AttributeError, db, ls)
                   | Some body \<Rightarrow>
                  (let n = map_of body ''name''; d = map_of body ''description'';
                       c = map_of body ''category''
                   in if truthy n \<and> find (\<lambda>i. Some (item_name i) = n) (items db) \<noteq> None
                      then (Abort 400 ''The new item name has already been used'', db, ls)
                      else
                        (let catData = find (\<lambda>x. Some (cat_name x) = c) (categories db)
                         in if truthy c \<and> catData = None
                            then (Abort 400 ''The new category does not exist yet'', db, ls)
                            else
                              (let it' = edited_item itemData
                                           (if truthy n then the n else [])
                                           (if truthy d then the d else [])
                                           (if truthy c then map_option cat_id catData else None)
                                           (req_now req)
                               in case commit (db\<lparr>items := replace_row item_id it' (items db)\<rparr>) of
                                    Inl e \<Rightarrow> (Raised e, db, ls)
                                  | Inr db' \<Rightarrow> (Text ''Item sucessfully edited'', db', ls))))))
      else if req_method req = DELETE then
        (case find (\<lambda>i. item_id i = item_id') (items db) of
           None \<Rightarrow> (Abort 400 ''The requested item does not exist'', db, ls)
         | Some it \<Rightarrow>
             if \<not> may_change ls it then (Abort 401 ''You cannot edit this item'', db, ls)
             else
               (case commit (db\<lparr>items := filter (\<lambda>i. item_id i \<noteq> item_id') (items db)\<rparr>) of
                  Inl e \<Rightarrow> (Raised e, db, ls)
                | Inr db' \<Rightarrow> (Text (''Deleted item '' @ item_name it), db', ls)))
      else (Raised TypeError, db, ls))"

subsection \<open>The API keeps the invariant\<close>

lemma apiAllCategories_sound:
  "wf_db db \<Longrightarrow> session_ok db ls \<Longrightarrow> sound_step db ls (apiAllCategories db ls req)"
  unfolding apiAllCategories_def
  by (simp add: sound_step_unchanged sound_step_commit_case sound_step_add_category
      sound_step_clear split: option.split)

lemma apiManageCategory_sound:
  "wf_db db \<Longrightarrow> session_ok db ls \<Longrightarrow> sound_step db ls (apiManageCategory db ls req c)"
  unfolding apiManageCategory_def
  by (simp add: sound_step_unchanged sound_step_commit_case sound_step_cascade)

lemma apiAllItems_sound:
  assumes "wf_db db" "session_ok db ls"
  shows "sound_step db ls (apiAllItems db ls req)"
proof -
  have leaf: "sound_step db ls (case commit (add_item (new_item n d (cat_id cat) t u) db) of
      Inl e \<Rightarrow> (Raised e, db, ls) | Inr db' \<Rightarrow> (r, db', ls))"
    if "find P (categories db) = Some cat" "ls_userId ls = Some u" "truthy (Some n)" for P n d cat t u r
    using that assms
    by (intro sound_step_commit_case [OF assms] sound_step_add_item [OF assms])
       (auto dest: find_Some_in_set)
  show ?thesis
    unfolding apiAllItems_def Let_def
    by (cases "req_json req"; cases "json_field req ''name''";
        simp add: assms json_field_def sound_step_unchanged sound_step_commit_case sound_step_clear_items leaf
         split: option.split)
qed

lemma apiManageItem_sound:
  assumes "wf_db db" "session_ok db ls"
  shows "sound_step db ls (apiManageItem db ls req i)"
proof -
  have leaf: "sound_step db ls (case commit (db\<lparr>items := replace_row item_id (edited_item itemData nn nd
             (if truthy c then map_option cat_id (find (\<lambda>x. Some (cat_name x) = c) (categories db))
              else None) t) (items db)\<rparr>) of Inl e \<Rightarrow> (Raised e, db, ls) | Inr db' \<Rightarrow> (r, db', ls))"
    if "find (\<lambda>it. item_id it = i) (items db) = Some itemData"
      and "\<not> (truthy c \<and> find (\<lambda>x. Some (cat_name x) = c) (categories db) = None)"
    for itemData c nn nd t r
  proof (rule sound_step_commit_case [OF assms])
    fix db' assume commit: "commit (db\<lparr>items := replace_row item_id (edited_item itemData nn nd
             (if truthy c then map_option cat_id (find (\<lambda>x. Some (cat_name x) = c) (categories db))
              else None) t) (items db)\<rparr>) = Inr db'"
    from that(1) have "itemData \<in> set (items db)" by (blast dest: find_Some_in_set)
    moreover have "case (if truthy c then map_option cat_id (find (\<lambda>x. Some (cat_name x) = c) (categories db))
        else None) of None \<Rightarrow> True | Some k \<Rightarrow> k \<in> cat_id ` set (categories db)"
      using that(2) by (cases "find (\<lambda>x. Some (cat_name x) = c) (categories db)") (auto dest: find_Some_in_set)
    ultimately show "sound_step db ls (r, db', ls)"
      by (rule sound_step_replace_item [OF assms _ _ commit])
  qed
  show ?thesis
    unfolding apiManageItem_def Let_def
    by (cases "find (\<lambda>it. item_id it = i) (items db)";
        simp add: assms sound_step_unchanged sound_step_commit_case sound_step_filter_items leaf
        split: option.split)
qed
subsection \<open>Properties\<close>

text \<open>
  C2: DELETE /api/categories/<id>/ by an administrator on an existing category answers "Category deleted" and removes the category together with every item that refers to it, leaving all other categories and items as they were.
\<close>

theorem apiManageCategory_delete_cascade:
  assumes "wf_db db" "is_admin ls" "req_method req = DELETE" "c \<in> set (categories db)"
  shows "apiManageCategory db ls req (cat_id c) =
     (Text ''Category deleted'',
      db\<lparr>categories := filter (\<lambda>x. cat_id x \<noteq> cat_id c) (categories db),
         items := filter (\<lambda>i. category_id i \<noteq> cat_id c) (items db)\<rparr>, ls)"
proof -
  have "find (\<lambda>x. cat_id x = cat_id c) (categories db) \<noteq> None"
    using assms(4) by (auto simp: find_None_iff)
  moreover have "db_constraints db" using assms(1) by (simp add: wf_db_def)
  ultimately show ?thesis
    using assms(2,3) by (simp add: apiManageCategory_def commit_def constraints_filter)
qed

text \<open>
  C3: PUT or DELETE /api/items/<id>/ on an existing item by a session that is neither the item's owner nor an administrator is refused with 401 and changes nothing.
\<close>

theorem apiManageItem_forbidden:
  assumes "req_method req = PUT \<or> req_method req = DELETE"
    and "find (\<lambda>i. item_id i = k) (items db) = Some it"
    and "ls_userId ls \<noteq> Some (user_id it)" and "\<not> is_admin ls"
  shows "apiManageItem db ls req k = (Abort 401 ''You cannot edit this item'', db, ls)"
  using assms by (auto simp: apiManageItem_def may_change_def)

text \<open>
  C8: POST /api/categories/ by a logged-in user with the name of an existing category yields a 400 "Category already exists" and changes nothing.
\<close>

theorem apiAllCategories_duplicate:
  assumes "ls_userId ls = Some u" "u \<noteq> 0" "req_method req = POST"
    and "json_field req ''name'' = Some n" "n \<in> cat_name ` set (categories db)"
  shows "apiAllCategories db ls req = (Abort 400 ''Category already exists'', db, ls)"
  using assms by (auto simp: apiAllCategories_def json_field_def find_None_iff split: option.splits)

text \<open>
  C9: POST /api/items/ with a JSON object body that lacks a non-empty name, description or category yields a 400 and changes nothing.
\<close>

theorem apiAllItems_missing_fields:
  assumes "req_method req = POST" "req_json req \<noteq> None"
    and "\<not> (truthy (json_field req ''name'') \<and> truthy (json_field req ''description'') \<and>
            truthy (json_field req ''category''))"
  shows "apiAllItems db ls req =
           (Abort 400 ''The name, description and category parameters must be supplied'', db, ls)"
  using assms by (auto simp: apiAllItems_def json_field_def Let_def split: option.splits)

text \<open>
  C11: POST /api/items/ with a fresh item name and a category name that no category has is rejected with 400 "Category does not exist" and changes nothing.
\<close>

theorem apiAllItems_unknown_category:
  assumes "req_method req = POST"
    and "json_field req ''name'' = Some n" "json_field req ''description'' = Some d"
    and "json_field req ''category'' = Some c" "n \<noteq> []" "d \<noteq> []" "c \<noteq> []"
    and "n \<notin> item_name ` set (items db)" "c \<notin> cat_name ` set (categories db)"
  shows "apiAllItems db ls req = (Abort 400 ''Category does not exist'', db, ls)"
proof -
  have "find (\<lambda>i. Some (item_name i) = Some n) (items db) = None"
    "find (\<lambda>x. Some (cat_name x) = Some c) (categories db) = None"
    using assms(8,9) by (auto simp: find_None_iff)
  with assms(1-7) show ?thesis
    by (auto simp: apiAllItems_def json_field_def Let_def split: option.splits)
qed

text \<open>
  C19: DELETE /api/items/ by a non-administrator deletes nothing but answers with status 200 and the text "Only administrators can perform this operation" instead of an error status.
\<close>

theorem apiAllItems_delete_nonadmin:
  "req_method req = DELETE \<Longrightarrow> \<not> is_admin ls \<Longrightarrow>
   apiAllItems db ls req = (Text ''Only administrators can perform this operation'', db, ls) \<and>
   status (fst (apiAllItems db ls req)) = 200"
  by (simp add: apiAllItems_def)

text \<open>
  C20: PUT /api/items/<id>/ that sends the item's own current name is rejected with 400 "The new item name has already been used", because the uniqueness query finds the item itself.
\<close>

theorem apiManageItem_rename_own_name:
  assumes "req_method req = PUT" "find (\<lambda>i. item_id i = k) (items db) = Some it" "may_change ls it"
    and "json_field req ''name'' = Some (item_name it)" "item_name it \<noteq> []"
  shows "apiManageItem db ls req k = (Abort 400 ''The new item name has already been used'', db, ls)"
proof -
  have "it \<in> set (items db)" using assms(2) by (blast dest: find_Some_in_set)
  then have "find (\<lambda>i. Some (item_name i) = Some (item_name it)) (items db) \<noteq> None"
    by (auto simp: find_None_iff)
  with assms show ?thesis by (auto simp: apiManageItem_def json_field_def Let_def split: option.splits)
qed

end
