(* ===== verification/Server.thy ===== *)
theory Server
  imports Auth Pages Api
begin

text \<open>
  The application as a whole: Flask's URL map of \<open>src/vagrant/catalog/project.py\<close>
  (the \<open>@app.route\<close> decorators with their \<open>methods\<close>) as the datatype \<open>route\<close>
  and the dispatcher \<open>serve\<close>, which answers 405 to a method the route does not
  list and wraps the views marked \<open>@auth.login_required\<close>. The server state is
  the database and the cookie session of every client; a step is one request
  of one client, so any interleaving of clients' requests is a sequence of
  steps. \<open>reach\<close> is the set of states reachable from an empty database, for a
  fixed secret key. The main result: every reachable state satisfies the
  database invariant and every session names an existing user.
\<close>

datatype route =
    RNewUser | RToken | RGConnect | RGDisconnect
  | RHome | RNewItem | RNewCategory | RShowCategory rowid | RShowItem rowid
  | REditItem rowid | RDeleteItem rowid
  | RApiCategories | RApiCategory rowid | RApiItems | RApiItem rowid

fun route_methods :: "route \<Rightarrow> http_method list" where
  "route_methods RNewUser = [POST]"
| "route_methods RToken = [GET]"
| "route_methods RGConnect = [POST]"
| "route_methods RGDisconnect = [GET]"
| "route_methods RHome = [GET]"
| "route_methods RNewItem = [GET, POST]"
| "route_methods RNewCategory = [GET, POST]"
| "route_methods (RShowCategory _) = [GET]"
| "route_methods (RShowItem _) = [GET]"
| "route_methods (REditItem _) = [GET, POST]"
| "route_methods (RDeleteItem _) = [GET, POST]"
| "route_methods RApiCategories = [GET, POST, DELETE]"
| "route_methods (RApiCategory _) = [GET, DELETE]"
| "route_methods RApiItems = [GET, POST, DELETE]"
| "route_methods (RApiItem _) = [GET, PUT, DELETE]"

fun dispatch :: "string \<Rightarrow> route \<Rightarrow> catalog_db \<Rightarrow> login_session \<Rightarrow> request \<Rightarrow> outcome" where
  "dispatch secret RNewUser = new_user"
| "dispatch secret RToken = login_required secret (get_auth_token secret)"
| "dispatch secret RGConnect = gconnect"
| "dispatch secret RGDisconnect = gdisconnect"
| "dispatch secret RHome = showHome"
| "dispatch secret RNewItem = newItem"
| "dispatch secret RNewCategory = newCategory"
| "dispatch secret (RShowCategory c) = (\<lambda>db ls req. showCategory db ls c)"
| "dispatch secret (RShowItem i) = (\<lambda>db ls req. showItem db ls i)"
| "dispatch secret (REditItem i) = (\<lambda>db ls req. editItem db ls req i)"
| "dispatch secret (RDeleteItem i) = (\<lambda>db ls req. deleteItem db ls req i)"
| "dispatch secret RApiCategories = login_required secret apiAllCategories"
| "dispatch secret (RApiCategory c) = login_required secret (\<lambda>db ls req. apiManageCategory db ls req c)"
| "dispatch secret RApiItems = login_required secret apiAllItems"
| "dispatch secret (RApiItem i) = login_required secret (\<lambda>db ls req. apiManageItem db ls req i)"

definition serve :: "string \<Rightarrow> route \<Rightarrow> catalog_db \<Rightarrow> login_session \<Rightarrow> request \<Rightarrow> outcome" where
  "serve secret r db ls req =
     (if req_method req \<notin> set (route_methods r) then (Abort 405 ''Method Not Allowed'', db, ls)
      else dispatch secret r db ls req)"

record server =
  srv_db :: catalog_db
  srv_sessions :: "nat \<Rightarrow> login_session"

definition init_server :: server where
  "init_server = \<lparr>srv_db = empty_db, srv_sessions = (\<lambda>_. empty_session)\<rparr>"

text \<open>One request of client \<open>c\<close> on route \<open>r\<close>.\<close>

definition server_step :: "string \<Rightarrow> server \<Rightarrow> nat \<Rightarrow> route \<Rightarrow> request \<Rightarrow> response \<times> server" where
  "server_step secret s c r req =
     (case serve secret r (srv_db s) (srv_sessions s c) req of
        (resp, db', ls') \<Rightarrow> (resp, \<lparr>srv_db = db', srv_sessions = (srv_sessions s)(c := ls')\<rparr>))"

inductive reach :: "string \<Rightarrow> server \<Rightarrow> bool" for secret where
  init: "reach secret init_server"
| step: "reach secret s \<Longrightarrow> server_step secret s c r req = (resp, s') \<Longrightarrow> reach secret s'"

definition server_inv :: "server \<Rightarrow> bool" where
  "server_inv s \<longleftrightarrow> wf_db (srv_db s) \<and> (\<forall>c. session_ok (srv_db s) (srv_sessions s c))"

subsection \<open>Every route keeps the invariant\<close>

lemma dispatch_sound:
  "wf_db db \<Longrightarrow> session_ok db ls \<Longrightarrow> sound_step db ls (dispatch secret r db ls req)"
  by (cases r)
     (simp_all add: login_required_sound new_user_sound get_auth_token_sound gconnect_sound
       gdisconnect_sound showHome_sound newItem_sound newCategory_sound showCategory_sound
       showItem_sound editItem_sound deleteItem_sound apiAllCategories_sound
       apiManageCategory_sound apiAllItems_sound apiManageItem_sound)

lemma serve_sound:
  "wf_db db \<Longrightarrow> session_ok db ls \<Longrightarrow> sound_step db ls (serve secret r db ls req)"
  by (simp add: serve_def dispatch_sound sound_step_unchanged)

lemma server_inv_init: "server_inv init_server"
  by (simp add: server_inv_def init_server_def wf_db_empty)

lemma server_inv_step:
  assumes "server_inv s" and "server_step secret s c r req = (resp, s')"
  shows "server_inv s'"
proof -
  obtain resp' db' ls' where out: "serve secret r (srv_db s) (srv_sessions s c) req = (resp', db', ls')"
    by (cases "serve secret r (srv_db s) (srv_sessions s c) req") auto
  from assms(1) have "sound_step (srv_db s) (srv_sessions s c) (resp', db', ls')"
    unfolding out [symmetric] server_inv_def by (blast intro: serve_sound)
  then have "wf_db db'" "session_ok db' ls'" "set (users (srv_db s)) \<subseteq> set (users db')"
    by (simp_all add: sound_step_def)
  moreover have "s' = \<lparr>srv_db = db', srv_sessions = (srv_sessions s)(c := ls')\<rparr>"
    using assms(2) out by (simp add: server_step_def)
  ultimately show ?thesis
    using assms(1) by (auto simp: server_inv_def intro: session_ok_mono)
qed

lemma reach_server_inv: "reach secret s \<Longrightarrow> server_inv s"
proof (induction rule: reach.induct)
  case init
  show ?case by (rule server_inv_init)
next
  case (step s c r req resp s')
  then show ?case by (blast intro: server_inv_step)
qed

text \<open>Consequences used by the properties of later theories.\<close>

lemma reach_wf: "reach secret s \<Longrightarrow> wf_db (srv_db s)"
  by (drule reach_server_inv) (simp add: server_inv_def)

lemma server_step_serve:
  "server_step secret s c r req =
     (fst (serve secret r (srv_db s) (srv_sessions s c) req),
      \<lparr>srv_db = fst (snd (serve secret r (srv_db s) (srv_sessions s c) req)),
       srv_sessions = (srv_sessions s)(c := snd (snd (serve secret r (srv_db s) (srv_sessions s c) req)))\<rparr>)"
  by (simp add: server_step_def split: prod.split)

subsection \<open>Properties\<close>

text \<open>
  C1: In every state the server reaches from an empty database, through any interleaving of requests of any clients on any route, the database is well formed (ascending rowids, unique category and item names and Google ids, every item refers to an existing category and user and has a non-empty name, every local account is the first user of its name) and every client session that names a user names an existing one.
\<close>

theorem reachable_state_wf:
  assumes "reach secret s"
  shows "wf_db (srv_db s) \<and> session_ok (srv_db s) (srv_sessions s c)"
  using reach_server_inv [OF assms] by (simp add: server_inv_def)

text \<open>
  C13: GET /token/ issues a token for the user named by the client's cookie session without checking any credential: the basic-auth callback accepts every GET, so the Authorization header is never looked at.
\<close>

theorem serve_token_get_bypass:
  assumes "wf_db db" "req_method req = GET" "ls_userId ls = Some (uid u)" "u \<in> set (users db)"
  shows "serve secret RToken db ls req =
     (Json 200 (JObj [(''token'', JStr (generate_auth_token secret (req_now req) 600 (uid u)))]), db, ls)"
proof -
  have "distinct (map uid (users db))"
    using assms(1) by (simp add: wf_db_def wf_rows_def ids_ascending_distinct)
  then have "find (\<lambda>v. uid v = uid u) (users db) = Some u"
    using assms(4) by (rule find_by_key)
  with assms(2,3) show ?thesis
    by (simp add: serve_def login_required_def verify_password_def get_auth_token_def)
qed

text \<open>
  C33: No request ever deletes or changes a user row: from a reachable state,
  every step keeps all rows of the users table.
\<close>

theorem users_never_deleted:
  assumes "reach secret s" "server_step secret s c r req = (resp, s')"
  shows "set (users (srv_db s)) \<subseteq> set (users (srv_db s'))"
proof -
  obtain resp' db' ls' where out: "serve secret r (srv_db s) (srv_sessions s c) req = (resp', db', ls')"
    by (cases "serve secret r (srv_db s) (srv_sessions s c) req") auto
  from reach_server_inv [OF assms(1)] have "sound_step (srv_db s) (srv_sessions s c) (resp', db', ls')"
    unfolding out [symmetric] server_inv_def by (blast intro: serve_sound)
  moreover have "srv_db s' = db'" using assms(2) out by (auto simp: server_step_serve)
  ultimately show ?thesis by (simp add: sound_step_def)
qed

end
