(* ===== verification/Integrity.thy ===== *)
theory Integrity
  imports Server
begin

text \<open>
  The unique constraints of \<open>src/vagrant/catalog/database_setup.py\<close>
  (\<open>Category.name\<close>, \<open>Item.name\<close>, \<open>User.google_id\<close>) make \<open>session.commit()\<close>
  raise \<open>IntegrityError\<close>. The handlers query for a clash before each insert
  or update; this theory shows that these queries are complete: on a
  well-formed database no request fails with \<open>IntegrityError\<close>, except Google
  sign-in, whose \<open>createUser\<close> does not look for a stored Google id.
\<close>

lemma commit_guarded: "db_constraints X \<Longrightarrow> (case commit X of Inl e \<Rightarrow> f e | Inr y \<Rightarrow> g y) = g X"
  by (simp add: commit_def)

lemma replace_row_Cons:
  "replace_row key r (a # rows) = (if key a = key r then r else a) # replace_row key r rows"
  by (simp add: replace_row_def)

lemma distinct_map_replace_row:
  assumes "distinct (map key rows)" "distinct (map f rows)" "r0 \<in> set rows" "key r = key r0"
    and "f r = f r0 \<or> f r \<notin> f ` set rows"
  shows "distinct (map f (replace_row key r rows))"
  using assms
proof (induction rows)
  case Nil
  then show ?case by simp
next
  case (Cons a rows)
  show ?case
  proof (cases "a = r0")
    case True
    with Cons.prems have "replace_row key r rows = rows"
      by (auto simp: replace_row_def intro!: map_idI) (metis image_eqI)+
    with True Cons.prems show ?thesis by (auto simp: replace_row_def)
  next
    case False
    with Cons.prems have "key a \<noteq> key r" by auto
    moreover have "f a \<notin> f ` set (replace_row key r rows)"
      using False Cons.prems set_replace_row_subset [of key r rows] by fastforce
    moreover have "distinct (map f (replace_row key r rows))"
      using False Cons.prems by (intro Cons.IH) auto
    ultimately show ?thesis by (simp add: replace_row_Cons)
  qed
qed

subsection \<open>The guarded writes\<close>

named_theorems integrity_intros "writes whose commit cannot violate a unique constraint"

lemma integrity_add_category [integrity_intros]:
  "db_constraints db \<Longrightarrow> find (\<lambda>x. cat_name x = n) (categories db) = None \<Longrightarrow>
   db_constraints (add_category n db)"
  by (auto simp: constraints_add_category find_None_iff)

lemma integrity_add_item [integrity_intros]:
  "db_constraints db \<Longrightarrow> find (\<lambda>i. item_name i = n) (items db) = None \<Longrightarrow>
   db_constraints (add_item (new_item n d c t u) db)"
  by (auto simp: constraints_add_item new_item_def find_None_iff)

lemma integrity_add_local_user [integrity_intros]:
  "db_constraints db \<Longrightarrow> google_id u = None \<Longrightarrow> db_constraints (add_user u db)"
  by (simp add: constraints_add_user)

lemma integrity_clear [integrity_intros]:
  "db_constraints db \<Longrightarrow> db_constraints (db\<lparr>items := []\<rparr>)"
  "db_constraints db \<Longrightarrow> db_constraints (db\<lparr>categories := [], items := []\<rparr>)"
  by (simp_all add: db_constraints_def)

lemma integrity_edit [integrity_intros]:
  assumes "wf_db db" "find (\<lambda>i. item_id i = k) (items db) = Some old"
    and "nn = [] \<or> nn = item_name old \<or> find (\<lambda>i. item_name i = nn) (items db) = None"
  shows "db_constraints (db\<lparr>items := replace_row item_id (edited_item old nn nd c t) (items db)\<rparr>)"
proof -
  have old: "old \<in> set (items db)" using find_Some_in_set [OF assms(2)] by simp
  have "distinct (map item_name (replace_row item_id (edited_item old nn nd c t) (items db)))"
  proof (rule distinct_map_replace_row [OF _ _ old])
    show "distinct (map item_id (items db))" using assms(1) by (rule wf_item_ids)
    show "distinct (map item_name (items db))" using assms(1) by (rule wf_item_names_distinct)
    show "item_name (edited_item old nn nd c t) = item_name old \<or>
          item_name (edited_item old nn nd c t) \<notin> item_name ` set (items db)"
      using assms(3) by (auto simp: edited_item_def find_None_iff)
  qed (simp add: edited_item_def)
  with assms(1) show ?thesis by (simp add: wf_db_def db_constraints_def)
qed

text \<open>The two forms of the rename guard: the page's and the API's.\<close>

lemma commit_edit_page:
  assumes "wf_db db" "find (\<lambda>i. item_id i = k) (items db) = Some old"
    "\<not> (nn \<noteq> item_name old \<and> find (\<lambda>i. item_name i = nn) (items db) \<noteq> None)"
    "r \<noteq> Raised IntegrityError"
  shows "fst (case commit (db\<lparr>items := replace_row item_id (edited_item old nn nd c t) (items db)\<rparr>) of
               Inl e \<Rightarrow> (Raised e, db, ls) | Inr db' \<Rightarrow> (r, db', ls)) \<noteq> Raised IntegrityError"
  using integrity_edit [OF assms(1,2), of nn nd c t] assms(3,4) by (auto simp: commit_guarded)

lemma commit_edit_api:
  assumes "wf_db db" "find (\<lambda>i. item_id i = k) (items db) = Some old"
    "\<not> (truthy n \<and> find (\<lambda>i. Some (item_name i) = n) (items db) \<noteq> None)"
    "r \<noteq> Raised IntegrityError"
  shows "fst (case commit (db\<lparr>items := replace_row item_id
                 (edited_item old (if truthy n then the n else []) nd c t) (items db)\<rparr>) of
               Inl e \<Rightarrow> (Raised e, db, ls) | Inr db' \<Rightarrow> (r, db', ls)) \<noteq> Raised IntegrityError"
proof -
  have "(if truthy n then the n else []) = [] \<or>
        find (\<lambda>i. item_name i = (if truthy n then the n else [])) (items db) = None"
    using assms(3) by (cases n) auto
  from integrity_edit [OF assms(1,2)] this assms(4) show ?thesis by (auto simp: commit_guarded)
qed

subsection \<open>Every catalog handler\<close>

lemma newItem_no_integrity: "wf_db db \<Longrightarrow> fst (newItem db ls req) \<noteq> Raised IntegrityError"
  unfolding newItem_def Let_def wf_db_def not_connected_def bad_request_def
  by (auto simp: commit_guarded integrity_add_item split: option.split)

lemma newCategory_no_integrity: "wf_db db \<Longrightarrow> fst (newCategory db ls req) \<noteq> Raised IntegrityError"
  unfolding newCategory_def Let_def wf_db_def not_connected_def bad_request_def
  by (auto simp: commit_guarded integrity_add_category split: option.split)

lemma deleteItem_no_integrity: "wf_db db \<Longrightarrow> fst (deleteItem db ls req i) \<noteq> Raised IntegrityError"
  unfolding deleteItem_def wf_db_def not_connected_def
  by (auto simp: commit_guarded constraints_filter_items split: option.split)

lemma apiAllCategories_no_integrity: "wf_db db \<Longrightarrow> fst (apiAllCategories db ls req) \<noteq> Raised IntegrityError"
  unfolding apiAllCategories_def wf_db_def
  by (auto simp: commit_guarded integrity_add_category integrity_clear split: option.split)

lemma apiManageCategory_no_integrity:
  "wf_db db \<Longrightarrow> fst (apiManageCategory db ls req c) \<noteq> Raised IntegrityError"
  unfolding apiManageCategory_def wf_db_def
  by (auto simp: commit_guarded constraints_filter)

lemma apiAllItems_no_integrity: "wf_db db \<Longrightarrow> fst (apiAllItems db ls req) \<noteq> Raised IntegrityError"
  unfolding apiAllItems_def Let_def wf_db_def
  by (cases "req_json req"; cases "json_field req ''name''")
     (auto simp: commit_guarded integrity_add_item integrity_clear json_field_def split: option.split)

lemma new_user_no_integrity: "wf_db db \<Longrightarrow> fst (new_user db ls req) \<noteq> Raised IntegrityError"
  unfolding new_user_def Let_def wf_db_def
  by (auto simp: commit_guarded integrity_add_local_user hash_password_def split: option.split)

lemma editItem_no_integrity: "wf_db db \<Longrightarrow> fst (editItem db ls req i) \<noteq> Raised IntegrityError"
  unfolding editItem_def Let_def
  by (cases "ls_userId ls"; cases "find (\<lambda>it. item_id it = i) (items db)";
      simp add: not_connected_def bad_request_def commit_edit_page split: option.split)

lemma apiManageItem_no_integrity:
  "wf_db db \<Longrightarrow> fst (apiManageItem db ls req i) \<noteq> Raised IntegrityError"
  unfolding apiManageItem_def Let_def
  by (cases "find (\<lambda>it. item_id it = i) (items db)";
      simp add: commit_edit_api commit_guarded constraints_filter_items wf_db_def split: option.split)

lemma verify_password_Inl: "verify_password secret db ls req u p = Inl e \<Longrightarrow> e = AttributeError"
  unfolding verify_password_def Let_def by (auto split: if_splits option.splits)

lemma login_required_no_integrity:
  assumes "\<And>ls'. fst (handler db ls' req) \<noteq> Raised IntegrityError"
  shows "fst (login_required secret handler db ls req) \<noteq> Raised IntegrityError"
  using assms unfolding login_required_def
  by (auto split: prod.split sum.split bool.split dest: verify_password_Inl)

lemma dispatch_no_integrity:
  "wf_db db \<Longrightarrow> r \<noteq> RGConnect \<Longrightarrow> fst (dispatch secret r db ls req) \<noteq> Raised IntegrityError"
  by (cases r)
     (simp_all add: login_required_no_integrity new_user_no_integrity newItem_no_integrity
       newCategory_no_integrity editItem_no_integrity deleteItem_no_integrity
       apiAllCategories_no_integrity apiManageCategory_no_integrity apiAllItems_no_integrity
       apiManageItem_no_integrity showHome_def showCategory_def showItem_def get_auth_token_def
       gdisconnect_def Let_def split: option.split)

subsection \<open>Property\<close>

text \<open>
  C28: On a well-formed database, no request on any route other than Google
  sign-in (/gconnect) fails with IntegrityError: every insert and update of
  the pages, the API and signup is preceded by a query that rules out a
  clash with a unique column.
\<close>

theorem integrity_error_only_gconnect:
  assumes "wf_db db" "r \<noteq> RGConnect"
  shows "fst (serve secret r db ls req) \<noteq> Raised IntegrityError"
  using assms by (simp add: serve_def dispatch_no_integrity)

end
