(* ===== verification/Catalog_Spec.thy ===== *)
theory Catalog_Spec
  imports Integrity
begin

text \<open>
  The contract of the catalog as the spec states it (section 3 and 4.2):
  a set of category names and a map from item names to their description,
  category name and owner. \<open>abs_db\<close> reads a database as such a catalog
  (rowids forgotten, an item's category by name). The abstract operations
  say what creating, editing and deleting promise: a new item needs a fresh
  name and an existing category, an edit replaces the non-empty fields under
  the same conditions, deleting a category removes its items. The lemmas show
  that the handlers implement these operations on well-formed databases.
\<close>

type_synonym entry = "string \<times> string \<times> rowid"

record catalog =
  cat_names :: "string set"
  entries :: "string \<Rightarrow> entry option"

definition cat_name_of :: "catalog_db \<Rightarrow> rowid \<Rightarrow> string" where
  "cat_name_of db cid = (case find (\<lambda>c. cat_id c = cid) (categories db) of None \<Rightarrow> [] | Some c \<Rightarrow> cat_name c)"

definition entry_of :: "catalog_db \<Rightarrow> item \<Rightarrow> entry" where
  "entry_of db i = (description i, cat_name_of db (category_id i), user_id i)"

definition abs_db :: "catalog_db \<Rightarrow> catalog" where
  "abs_db db = \<lparr>cat_names = cat_name ` set (categories db),
                entries = (\<lambda>n. map_option (entry_of db) (find (\<lambda>i. item_name i = n) (items db)))\<rparr>"

definition spec_add_item :: "string \<Rightarrow> string \<Rightarrow> string \<Rightarrow> rowid \<Rightarrow> catalog \<Rightarrow> catalog option" where
  "spec_add_item n d c u C =
     (if entries C n \<noteq> None \<or> c \<notin> cat_names C then None
      else Some (C\<lparr>entries := (entries C)(n \<mapsto> (d, c, u))\<rparr>))"

definition spec_add_category :: "string \<Rightarrow> catalog \<Rightarrow> catalog option" where
  "spec_add_category c C = (if c \<in> cat_names C then None else Some (C\<lparr>cat_names := insert c (cat_names C)\<rparr>))"

definition spec_delete_category :: "string \<Rightarrow> catalog \<Rightarrow> catalog" where
  "spec_delete_category c C =
     C\<lparr>cat_names := cat_names C - {c},
       entries := (\<lambda>n. case entries C n of None \<Rightarrow> None | Some (d, c', u) \<Rightarrow> if c' = c then None else Some (d, c', u))\<rparr>"

definition spec_delete_item :: "string \<Rightarrow> catalog \<Rightarrow> catalog" where
  "spec_delete_item n C = C\<lparr>entries := (entries C)(n := None)\<rparr>"

text \<open>
  Editing the entry \<open>n\<close>: each non-empty field replaces the old value; a new
  name must be free and a new category must exist.
\<close>

definition spec_edit_item :: "string \<Rightarrow> string \<Rightarrow> string \<Rightarrow> string \<Rightarrow> catalog \<Rightarrow> catalog option" where
  "spec_edit_item n nn nd nc C =
     (case entries C n of
        None \<Rightarrow> None
      | Some (d, c, u) \<Rightarrow>
          (let n' = (if nn \<noteq> [] then nn else n); d' = (if nd \<noteq> [] then nd else d);
               c' = (if nc \<noteq> [] then nc else c)
           in if (n' \<noteq> n \<and> entries C n' \<noteq> None) \<or> (nc \<noteq> [] \<and> nc \<notin> cat_names C) then None
              else Some (C\<lparr>entries := (entries C)(n := None, n' \<mapsto> (d', c', u))\<rparr>)))"

subsection \<open>Lemmas on the abstraction\<close>

lemma find_append_fresh:
  "\<not> (\<exists>x\<in>set xs. P x) \<Longrightarrow> find P (xs @ ys) = find P ys"
  by (induction xs) auto

lemma find_filter_distinct:
  "distinct (map k xs) \<Longrightarrow>
   find (\<lambda>x. k x = n) (filter P xs) =
     (case find (\<lambda>x. k x = n) xs of None \<Rightarrow> None | Some x \<Rightarrow> if P x then Some x else None)"
proof (induction xs)
  case Nil
  then show ?case by simp
next
  case (Cons a xs)
  have "find (\<lambda>x. k x = k a) xs = None"
    using Cons.prems by (auto simp: find_None_iff) (metis image_eqI)
  with Cons show ?case by (auto split: option.splits)
qed

lemma cat_name_of_member:
  "distinct (map cat_id (categories db)) \<Longrightarrow> c \<in> set (categories db) \<Longrightarrow> cat_name_of db (cat_id c) = cat_name c"
  by (simp add: cat_name_of_def find_by_key)

lemma entry_of_cong: "categories db' = categories db \<Longrightarrow> entry_of db' = entry_of db"
  by (simp add: entry_of_def [abs_def] cat_name_of_def)

lemma entries_abs_db: "entries (abs_db db) n = map_option (entry_of db) (find (\<lambda>i. item_name i = n) (items db))"
  by (simp add: abs_db_def)

lemma cat_name_of_item:
  assumes "wf_db db" "it \<in> set (items db)"
  obtains y where "y \<in> set (categories db)" "cat_id y = category_id it" "cat_name_of db (category_id it) = cat_name y"
proof -
  from wf_rows_items_ok [OF wf_db_rows [OF assms(1)] assms(2)]
  obtain y where "y \<in> set (categories db)" "cat_id y = category_id it" by auto
  with cat_name_of_member [OF wf_cat_ids_distinct [OF assms(1)]] that show ?thesis by metis
qed

lemma abs_add_item:
  assumes "find (\<lambda>i. item_name i = item_name it) (items db) = None"
  shows "abs_db (add_item it db) = (abs_db db)\<lparr>entries := (entries (abs_db db))(item_name it \<mapsto> entry_of db it)\<rparr>"
proof -
  have e: "entry_of (add_item it db) = entry_of db" by (rule entry_of_cong) (simp add: add_item_def)
  show ?thesis using assms unfolding abs_db_def e
    by (auto simp: add_item_def find_append_split fun_eq_iff entry_of_def split: option.split)
qed

lemma cat_name_of_add_category:
  "k \<in> cat_id ` set (categories db) \<Longrightarrow> cat_name_of (add_category n db) k = cat_name_of db k"
  by (cases "find (\<lambda>c. cat_id c = k) (categories db)")
     (auto simp: cat_name_of_def add_category_def find_append_split find_None_iff)

lemma abs_add_category:
  assumes "wf_db db"
  shows "abs_db (add_category n db) = (abs_db db)\<lparr>cat_names := insert n (cat_names (abs_db db))\<rparr>"
proof -
  have "entries (abs_db (add_category n db)) m = entries (abs_db db) m" for m
  proof (cases "find (\<lambda>i. item_name i = m) (items db)")
    case (Some it)
    then have "it \<in> set (items db)" by (simp add: find_Some_in_set)
    with assms obtain y where "y \<in> set (categories db)" "cat_id y = category_id it"
      by (rule cat_name_of_item)
    then have "cat_name_of (add_category n db) (category_id it) = cat_name_of db (category_id it)"
      by (intro cat_name_of_add_category) force
    with Some show ?thesis by (simp add: entries_abs_db entry_of_def add_category_def)
  qed (simp add: entries_abs_db add_category_def)
  then show ?thesis by (simp add: abs_db_def add_category_def fun_eq_iff)
qed

lemma abs_delete_item:
  assumes "wf_db db" "it \<in> set (items db)"
  shows "abs_db (db\<lparr>items := filter (\<lambda>i. item_id i \<noteq> item_id it) (items db)\<rparr>) =
         spec_delete_item (item_name it) (abs_db db)"
proof -
  have ids: "distinct (map item_id (items db))" using assms(1) by (rule wf_item_ids)
  have names: "distinct (map item_name (items db))" using assms(1) by (rule wf_item_names_distinct)
  have "entries (abs_db (db\<lparr>items := filter (\<lambda>i. item_id i \<noteq> item_id it) (items db)\<rparr>)) m =
        (if m = item_name it then None else entries (abs_db db) m)" for m
  proof (cases "find (\<lambda>i. item_name i = m) (items db)")
    case (Some x)
    have x: "x \<in> set (items db)" "item_name x = m" using find_Some_in_set [OF Some] by simp_all
    have "item_id x = item_id it \<longleftrightarrow> m = item_name it"
      using distinct_key_eq [OF ids x(1) assms(2)] distinct_key_eq [OF names x(1) assms(2)] x(2) by auto
    with Some show ?thesis
      by (simp add: entries_abs_db find_filter_distinct [OF names] entry_of_def cat_name_of_def)
  qed (simp add: entries_abs_db find_filter_distinct [OF names])
  then show ?thesis by (simp add: abs_db_def spec_delete_item_def fun_eq_iff entry_of_def cat_name_of_def)
qed

lemma abs_cascade:
  assumes "wf_db db" "c \<in> set (categories db)"
  shows "abs_db (db\<lparr>categories := filter (\<lambda>x. cat_id x \<noteq> cat_id c) (categories db),
                    items := filter (\<lambda>i. category_id i \<noteq> cat_id c) (items db)\<rparr>) =
         spec_delete_category (cat_name c) (abs_db db)"
    (is "abs_db ?db' = _")
proof -
  have cids: "distinct (map cat_id (categories db))" using assms(1) by (rule wf_cat_ids_distinct)
  have cnames: "distinct (map cat_name (categories db))" using assms(1) by (rule wf_cat_names_distinct)
  have names: "distinct (map item_name (items db))" using assms(1) by (rule wf_item_names_distinct)
  have same: "cat_id y = cat_id c \<longleftrightarrow> cat_name y = cat_name c" if "y \<in> set (categories db)" for y
    using distinct_key_eq [OF cids that assms(2)] distinct_key_eq [OF cnames that assms(2)] by auto
  have cn: "cat_names (abs_db ?db') = cat_names (abs_db db) - {cat_name c}"
    using same by (auto simp: abs_db_def image_iff)
  have e: "entries (abs_db ?db') m =
        (case entries (abs_db db) m of None \<Rightarrow> None
         | Some (d, c', u) \<Rightarrow> if c' = cat_name c then None else Some (d, c', u))" for m
  proof (cases "find (\<lambda>i. item_name i = m) (items db)")
    case (Some x)
    have "x \<in> set (items db)" using find_Some_in_set [OF Some] by simp
    with assms(1) obtain y where y: "y \<in> set (categories db)" "cat_id y = category_id x"
        "cat_name_of db (category_id x) = cat_name y"
      by (rule cat_name_of_item)
    have "find (\<lambda>z. cat_id z = category_id x) (categories db) = Some y"
      using find_by_key [OF cids y(1)] y(2) by simp
    then have "cat_name_of ?db' (category_id x) = cat_name_of db (category_id x)"
      if "category_id x \<noteq> cat_id c"
      using that y(2) by (simp add: cat_name_of_def find_filter_distinct [OF cids])
    with Some same [OF y(1)] y(2,3) show ?thesis
      by (auto simp: entries_abs_db find_filter_distinct [OF names] entry_of_def)
  qed (simp add: entries_abs_db find_filter_distinct [OF names])
  show ?thesis by (rule catalog.equality) (simp_all add: spec_delete_category_def cn e fun_eq_iff)
qed

lemma entries_abs_db_None: "entries (abs_db db) n = None \<longleftrightarrow> find (\<lambda>i. item_name i = n) (items db) = None"
  by (simp add: entries_abs_db)

lemma cat_names_abs_db: "c \<in> cat_names (abs_db db) \<longleftrightarrow> find (\<lambda>x. cat_name x = c) (categories db) \<noteq> None"
  by (auto simp: abs_db_def find_None_iff)

lemma set_replace_row_key:
  assumes "distinct (map key rows)" "r0 \<in> set rows" "key r = key r0"
  shows "set (replace_row key r rows) = insert r (set rows - {r0})"
proof -
  have "\<And>x. x \<in> set rows \<Longrightarrow> key x = key r \<longleftrightarrow> x = r0"
    using assms distinct_key_eq [OF assms(1)] by metis
  with assms(2) show ?thesis by (auto simp: replace_row_def)
qed

lemma abs_replace_item:
  assumes wf: "wf_db db" and it: "it \<in> set (items db)" and id: "item_id it' = item_id it"
    and fresh: "item_name it' = item_name it \<or> item_name it' \<notin> item_name ` set (items db)"
  shows "abs_db (db\<lparr>items := replace_row item_id it' (items db)\<rparr>) =
         (abs_db db)\<lparr>entries := (entries (abs_db db))(item_name it := None, item_name it' \<mapsto> entry_of db it')\<rparr>"
    (is "abs_db ?db' = _")
proof -
  have ids: "distinct (map item_id (items db))" using wf by (rule wf_item_ids)
  have names: "distinct (map item_name (items db))" using wf by (rule wf_item_names_distinct)
  have names': "distinct (map item_name (items ?db'))"
    using distinct_map_replace_row [OF ids names it id fresh] by simp
  have set': "set (items ?db') = insert it' (set (items db) - {it})"
    using set_replace_row_key [OF ids it id] by simp
  have e: "entry_of ?db' = entry_of db" by (rule entry_of_cong) simp
  have "find (\<lambda>i. item_name i = m) (items ?db') =
        (if m = item_name it' then Some it' else if m = item_name it then None
         else find (\<lambda>i. item_name i = m) (items db))" for m
  proof (cases "m = item_name it'")
    case True
    then show ?thesis using find_by_key [OF names', of it'] set' by simp
  next
    case False
    show ?thesis
    proof (cases "find (\<lambda>i. item_name i = m) (items db)")
      case None
      then have "find (\<lambda>i. item_name i = m) (items ?db') = None"
        using False set' by (auto simp: find_None_iff)
      with None False show ?thesis by simp
    next
      case (Some x)
      have x: "x \<in> set (items db)" "item_name x = m" using find_Some_in_set [OF Some] by simp_all
      show ?thesis
      proof (cases "m = item_name it")
        case True
        then have "x = it" using distinct_key_eq [OF names x(1) it] x(2) by simp
        have "\<forall>y \<in> set (items ?db'). item_name y \<noteq> m"
          using set' False True distinct_key_eq [OF names _ it] by auto
        with False True show ?thesis by (simp add: find_None_iff)
      next
        case mit: False
        then have "x \<in> set (items ?db')" using x set' by auto
        from find_by_key [OF names' this] x(2) False mit Some show ?thesis by simp
      qed
    qed
  qed
  then show ?thesis by (auto simp: abs_db_def e fun_eq_iff)
qed

lemma abs_add_new_item:
  assumes wf: "wf_db db" and n: "find (\<lambda>i. item_name i = n) (items db) = None"
    and c: "find (\<lambda>x. cat_name x = c) (categories db) = Some cat"
  shows "commit (add_item (new_item n d (cat_id cat) t u) db) = Inr (add_item (new_item n d (cat_id cat) t u) db)"
    and "abs_db (add_item (new_item n d (cat_id cat) t u) db) =
           (abs_db db)\<lparr>entries := (entries (abs_db db))(n \<mapsto> (d, c, u))\<rparr>"
proof -
  have cat: "cat \<in> set (categories db)" "cat_name cat = c" using find_Some_in_set [OF c] by simp_all
  have "db_constraints (add_item (new_item n d (cat_id cat) t u) db)"
    using wf n by (auto simp: wf_db_def constraints_add_item new_item_def find_None_iff)
  then show "commit (add_item (new_item n d (cat_id cat) t u) db) = Inr (add_item (new_item n d (cat_id cat) t u) db)"
    by (simp add: commit_def)
  have "entry_of db (new_item n d (cat_id cat) t u) = (d, c, u)"
    using cat cat_name_of_member [OF wf_cat_ids_distinct [OF wf] cat(1)]
    by (simp add: entry_of_def new_item_def)
  with abs_add_item [of "new_item n d (cat_id cat) t u" db] n
  show "abs_db (add_item (new_item n d (cat_id cat) t u) db) =
           (abs_db db)\<lparr>entries := (entries (abs_db db))(n \<mapsto> (d, c, u))\<rparr>"
    by (simp add: new_item_def)
qed

subsection \<open>The handlers implement the contract\<close>

text \<open>
  C23: a POST /api/items/ with non-empty name, description and category by a
  logged-in user implements the abstract item creation: when the catalog
  refuses it (name taken or category unknown) the answer is 400 and nothing
  changes; otherwise the answer is 200 and the new database reads as the
  catalog with the new entry.
\<close>

theorem apiAllItems_refines_add_item:
  assumes wf: "wf_db db" and m: "req_method req = POST"
    and j: "json_field req ''name'' = Some n" "json_field req ''description'' = Some d"
      "json_field req ''category'' = Some c"
    and ne: "n \<noteq> []" "d \<noteq> []" "c \<noteq> []" and u: "ls_userId ls = Some u"
    and r: "apiAllItems db ls req = (r, db', ls')"
  shows "case spec_add_item n d c u (abs_db db) of
           None \<Rightarrow> db' = db \<and> status r = 400
         | Some C \<Rightarrow> abs_db db' = C \<and> status r = 200"
proof (cases "find (\<lambda>i. item_name i = n) (items db) = None")
  case False
  with r m j ne show ?thesis
    by (auto simp: apiAllItems_def spec_add_item_def entries_abs_db_None json_field_def split: option.splits)
next
  case True
  show ?thesis
  proof (cases "find (\<lambda>x. cat_name x = c) (categories db)")
    case None
    with True r m j ne show ?thesis
      by (auto simp: apiAllItems_def spec_add_item_def entries_abs_db_None cat_names_abs_db json_field_def
          split: option.splits)
  next
    case (Some cat)
    note add = abs_add_new_item [OF wf True Some, of d "req_now req" u]
    with True Some r m j ne u have db': "db' = add_item (new_item n d (cat_id cat) (req_now req) u) db" "status r = 200"
      by (auto simp: apiAllItems_def json_field_def split: option.splits)
    from Some have "c \<in> cat_names (abs_db db)" by (simp add: cat_names_abs_db)
    with add True db' show ?thesis
      by (simp add: spec_add_item_def entries_abs_db_None)
  qed
qed

text \<open>
  C24: a POST /api/categories/ with a name by a registered user implements the
  abstract category creation: a name already in the catalog is refused with 400
  and nothing changes; otherwise the answer is 200 and the new database reads
  as the catalog with the name added and every item unchanged.
\<close>

theorem apiAllCategories_refines_add_category:
  assumes wf: "wf_db db" and m: "req_method req = POST"
    and u: "ls_userId ls = Some u" "u \<noteq> 0" and j: "json_field req ''name'' = Some n"
    and r: "apiAllCategories db ls req = (r, db', ls')"
  shows "case spec_add_category n (abs_db db) of
           None \<Rightarrow> db' = db \<and> status r = 400
         | Some C \<Rightarrow> abs_db db' = C \<and> status r = 200"
proof (cases "find (\<lambda>x. cat_name x = n) (categories db) = None")
  case False
  with r m u j show ?thesis
    by (auto simp: apiAllCategories_def spec_add_category_def cat_names_abs_db json_field_def
        split: option.splits)
next
  case True
  have "db_constraints (add_category n db)"
    using wf True by (auto simp: wf_db_def constraints_add_category find_None_iff)
  with True r m u j have "db' = add_category n db" "status r = 200"
    by (auto simp: apiAllCategories_def commit_def json_field_def split: option.splits)
  with abs_add_category [OF wf, of n] True show ?thesis
    by (simp add: spec_add_category_def cat_names_abs_db)
qed

text \<open>
  C25: DELETE /api/categories/<id>/ by an administrator on an existing category
  answers 200 and implements the abstract deletion: the category name leaves
  the catalog together with every entry filed under it.
\<close>

theorem apiManageCategory_refines_delete:
  assumes wf: "wf_db db" and "is_admin ls" "req_method req = DELETE" and c: "c \<in> set (categories db)"
    and r: "apiManageCategory db ls req (cat_id c) = (r, db', ls')"
  shows "status r = 200 \<and> abs_db db' = spec_delete_category (cat_name c) (abs_db db)"
proof -
  have "find (\<lambda>x. cat_id x = cat_id c) (categories db) \<noteq> None"
    using c by (auto simp: find_None_iff)
  moreover have "db_constraints db" using wf by (simp add: wf_db_def)
  ultimately have "status r = 200"
    "db' = db\<lparr>categories := filter (\<lambda>x. cat_id x \<noteq> cat_id c) (categories db),
              items := filter (\<lambda>i. category_id i \<noteq> cat_id c) (items db)\<rparr>"
    using assms(2,3) r by (auto simp: apiManageCategory_def commit_def constraints_filter)
  with abs_cascade [OF wf c] show ?thesis by simp
qed

text \<open>
  C26: DELETE /api/items/<id>/ on an existing item by its owner or an
  administrator answers 200 and implements the abstract deletion: exactly that
  item's entry leaves the catalog.
\<close>

theorem apiManageItem_refines_delete:
  assumes wf: "wf_db db" and "req_method req = DELETE" and it: "it \<in> set (items db)"
    and "may_change ls it" and r: "apiManageItem db ls req (item_id it) = (r, db', ls')"
  shows "status r = 200 \<and> abs_db db' = spec_delete_item (item_name it) (abs_db db)"
proof -
  have "find (\<lambda>i. item_id i = item_id it) (items db) = Some it"
    using wf_item_ids [OF wf] it by (rule find_by_key)
  moreover have "db_constraints db" using wf by (simp add: wf_db_def)
  ultimately have "status r = 200" "db' = db\<lparr>items := filter (\<lambda>i. item_id i \<noteq> item_id it) (items db)\<rparr>"
    using assms(2,4) r by (auto simp: apiManageItem_def commit_def constraints_filter_items)
  with abs_delete_item [OF wf it] show ?thesis by simp
qed

lemma entries_abs_db_member:
  "wf_db db \<Longrightarrow> it \<in> set (items db) \<Longrightarrow> entries (abs_db db) (item_name it) = Some (entry_of db it)"
  using find_by_key [OF wf_item_names_distinct] by (simp add: entries_abs_db)

text \<open>The entry of an edited row, when a new category name is one of the table.\<close>

lemma entry_of_edited:
  assumes "wf_db db" "\<not> (nc \<noteq> [] \<and> find (\<lambda>x. cat_name x = nc) (categories db) = None)"
  shows "entry_of db (edited_item it nn nd
            (if nc \<noteq> [] then map_option cat_id (find (\<lambda>x. cat_name x = nc) (categories db)) else None) t) =
         (if nd \<noteq> [] then nd else description it,
          if nc \<noteq> [] then nc else cat_name_of db (category_id it), user_id it)"
proof (cases "nc = []")
  case False
  with assms(2) obtain y where y: "find (\<lambda>x. cat_name x = nc) (categories db) = Some y" by auto
  then have "y \<in> set (categories db)" "cat_name y = nc" using find_Some_in_set [OF y] by simp_all
  with False y cat_name_of_member [OF wf_cat_ids_distinct [OF assms(1)]] show ?thesis
    by (simp add: entry_of_def edited_item_def)
qed (simp add: entry_of_def edited_item_def)

text \<open>
  C31: Editing an item on the page (POST /catalog/items/<id>/edit/ by the
  item's owner, with the three form fields) implements the abstract edit:
  when the catalog refuses (new name taken, new category unknown) the
  database is unchanged; otherwise the page redirects (302) and the new
  database reads as the catalog with the entry renamed and updated.
\<close>

theorem editItem_refines_edit:
  assumes wf: "wf_db db" and it: "it \<in> set (items db)" and own: "ls_userId ls = Some (user_id it)"
    and m: "req_method req = POST"
    and f: "map_of (req_form req) ''name'' = Some nn" "map_of (req_form req) ''description'' = Some nd"
      "map_of (req_form req) ''category'' = Some nc"
    and r: "editItem db ls req (item_id it) = (r, db', ls')"
  shows "case spec_edit_item (item_name it) nn nd nc (abs_db db) of
           None \<Rightarrow> db' = db
         | Some C \<Rightarrow> abs_db db' = C \<and> status r = 302"
proof -
  have fi: "find (\<lambda>i. item_id i = item_id it) (items db) = Some it" by (rule find_by_key [OF wf_item_ids [OF wf] it])
  have ent: "entries (abs_db db) (item_name it) = Some (entry_of db it)"
    by (rule entries_abs_db_member [OF wf it])
  have fv: "\<not> form_missing req [''name'', ''description'', ''category'']"
    "form_value req ''name'' = nn" "form_value req ''description'' = nd" "form_value req ''category'' = nc"
    using f by (simp_all add: form_missing_def form_value_def)
  note page = r [unfolded editItem_def Let_def, simplified own fi m fv]
  note spec = spec_edit_item_def ent entry_of_def Let_def entries_abs_db_None cat_names_abs_db
  show ?thesis
  proof (cases "nn = [] \<and> nd = [] \<and> nc = []")
    case True
    with page have "db' = db" "status r = 302" by auto
    moreover have "(entries (abs_db db))(item_name it \<mapsto> entry_of db it) = entries (abs_db db)"
      using ent by (simp add: fun_upd_idem)
    ultimately show ?thesis using True by (simp add: spec)
  next
    case notA: False
    show ?thesis
    proof (cases "nn \<noteq> item_name it \<and> find (\<lambda>i. item_name i = nn) (items db) \<noteq> None")
      case True
      then have "nn \<noteq> []" using wf_rows_items_ok [OF wf_db_rows [OF wf]] by (auto dest: find_Some_in_set)
      moreover from True notA page have "db' = db" by auto
      moreover have "spec_edit_item (item_name it) nn nd nc (abs_db db) = None"
        using True \<open>nn \<noteq> []\<close> by (simp add: spec)
      ultimately show ?thesis by simp
    next
      case notB: False
      show ?thesis
      proof (cases "nc \<noteq> [] \<and> find (\<lambda>x. cat_name x = nc) (categories db) = None")
        case True
        with notA notB page have "db' = db" by auto
        moreover have "spec_edit_item (item_name it) nn nd nc (abs_db db) = None"
          using True by (simp add: spec)
        ultimately show ?thesis by simp
      next
        case notC: False
        let ?it = "edited_item it nn nd
                     (if nc \<noteq> [] then map_option cat_id (find (\<lambda>x. cat_name x = nc) (categories db)) else None)
                     (req_now req)"
        have "db_constraints (db\<lparr>items := replace_row item_id ?it (items db)\<rparr>)"
          using notB by (intro integrity_edit [OF wf fi]) auto
        with notA notB notC page
        have db': "db' = db\<lparr>items := replace_row item_id ?it (items db)\<rparr>" "status r = 302"
          by (auto simp: commit_def)
        have fresh: "item_name ?it = item_name it \<or> item_name ?it \<notin> item_name ` set (items db)"
          using notB by (auto simp: edited_item_def find_None_iff)
        from abs_replace_item [OF wf it _ fresh] entry_of_edited [OF wf notC] db' notB notC
        show ?thesis by (auto simp: spec edited_item_def)
      qed
    qed
  qed
qed

end
