(* ===== verification/Access.thy ===== *)
theory Access
  imports Server
begin

text \<open>
  What a client without credentials can do. A request with no \<open>userId\<close> in its
  session and no \<open>Authorization\<close> header reaches the API views only through
  flask_httpauth, which calls \<open>verify_password('', '')\<close> for it
  (\<open>src/vagrant/catalog/project.py\<close>, lines 62-81). The empty string is no valid
  token, so the credentials are looked up as a user name. The lemmas show that
  such a client cannot change categories or items as long as no user has the
  empty name, and that an account with empty name and password, which
  \<open>new_user\<close> accepts, opens the API to every anonymous client.
\<close>

definition catalog_unchanged :: "catalog_db \<Rightarrow> outcome \<Rightarrow> bool" where
  "catalog_unchanged db out \<longleftrightarrow>
     categories (fst (snd out)) = categories db \<and> items (fst (snd out)) = items db"

lemma parse_token_Nil: "parse_token [] = None"
  by (simp add: parse_token_def cut_dot_def)

lemma verify_auth_token_Nil: "verify_auth_token secret now [] = None"
  by (simp add: verify_auth_token_def serializer_loads_def parse_token_Nil)

lemma login_required_anonymous:
  assumes "req_auth req = None" "req_method req \<noteq> GET"
  shows "login_required secret handler db ls req =
           (case find (\<lambda>u. name u = []) (users db) of
              None \<Rightarrow> (Abort 401 ''Unauthorized Access'', db, ls)
            | Some u \<Rightarrow> if verify_password_hash u [] then handler db (login_user ls u) req
                        else (Abort 401 ''Unauthorized Access'', db, ls))"
  using assms
  by (simp add: login_required_def verify_password_def verify_auth_token_Nil split: option.split)

lemma catalog_unchanged_same [simp]: "catalog_unchanged db (r, db, ls)"
  by (simp add: catalog_unchanged_def)

lemma catalog_unchanged_add_user [simp]: "catalog_unchanged db (r, add_user u db, ls)"
  by (simp add: catalog_unchanged_def add_user_def)

text \<open>On \<open>GET\<close> the API views only read.\<close>

lemma api_get_unchanged:
  assumes "req_method req = GET"
  shows "catalog_unchanged db (apiAllCategories db ls req)" "catalog_unchanged db (apiAllItems db ls req)"
    "catalog_unchanged db (apiManageCategory db ls req c)" "catalog_unchanged db (apiManageItem db ls req i)"
  using assms
  by (simp_all add: apiAllCategories_def apiAllItems_def apiManageCategory_def apiManageItem_def
      split: option.split)

lemma login_required_anonymous_unchanged:
  assumes "req_auth req = None" "[] \<notin> name ` set (users db)"
    and "req_method req = GET \<Longrightarrow> catalog_unchanged db (handler db ls req)"
  shows "catalog_unchanged db (login_required secret handler db ls req)"
proof (cases "req_method req = GET")
  case True
  then show ?thesis using assms(3) by (simp add: login_required_def verify_password_def)
next
  case False
  have "find (\<lambda>u. name u = []) (users db) = None"
    using assms(2) by (auto simp: find_None_iff) (metis image_eqI)
  with False assms(1) show ?thesis by (simp add: login_required_anonymous)
qed

lemma createUser_unchanged: "catalog_unchanged db (r, snd (createUser db info), ls)"
  by (auto simp: createUser_def catalog_unchanged_def add_user_def commit_def Let_def
      split: option.split list.split)

lemma createUser_keeps_catalog:
  "createUser db info = (x, db') \<Longrightarrow> categories db' = categories db \<and> items db' = items db"
  by (auto simp: createUser_def add_user_def commit_def Let_def split: option.splits list.splits if_splits)

lemma login_required_unchanged:
  "(\<And>ls'. catalog_unchanged db (handler db ls' req)) \<Longrightarrow>
   catalog_unchanged db (login_required secret handler db ls req)"
  by (auto simp: login_required_def split: prod.split sum.split bool.split)

lemma dispatch_anonymous_unchanged:
  assumes "ls_userId ls = None" "req_auth req = None" "[] \<notin> name ` set (users db)"
  shows "catalog_unchanged db (dispatch secret r db ls req)"
proof (cases r)
  case RNewUser
  then show ?thesis by (simp add: new_user_def Let_def commit_def split: option.split)
next
  case RToken
  then show ?thesis
    by (simp add: login_required_unchanged get_auth_token_def split: option.split)
next
  case RGConnect
  then show ?thesis
    by (auto simp: gconnect_def Let_def catalog_unchanged_def split: option.split prod.split sum.split
        dest: createUser_keeps_catalog)
next
  case RGDisconnect
  then show ?thesis by (simp add: gdisconnect_def split: option.split)
qed (use assms in \<open>simp_all add: showHome_def Let_def showCategory_def showItem_def newItem_def
       newCategory_def editItem_def deleteItem_def login_required_anonymous_unchanged api_get_unchanged
       split: option.split\<close>)

subsection \<open>Properties\<close>

text \<open>
  C29: As long as no user has the empty name, a client whose session names no
  user and whose request carries no Authorization header cannot change the
  categories or the items, on any route and with any method.
\<close>

theorem anonymous_cannot_change_catalog:
  assumes "ls_userId ls = None" "req_auth req = None" "[] \<notin> name ` set (users db)"
  shows "categories (fst (snd (serve secret r db ls req))) = categories db \<and>
         items (fst (snd (serve secret r db ls req))) = items db"
  using dispatch_anonymous_unchanged [OF assms, of secret r]
  by (simp add: serve_def catalog_unchanged_def)

text \<open>
  C30: Once an account with the empty name and the empty password exists
  (new_user accepts one: it rejects only missing fields), a POST to
  /api/categories/ without any credentials is authenticated as that account:
  it creates the category and logs the client's session in.
\<close>

theorem anonymous_write_with_empty_account:
  assumes "find (\<lambda>v. name v = []) (users db) = Some u" "verify_password_hash u []" "uid u \<noteq> 0"
    and "req_auth req = None" "req_method req = POST" "json_field req ''name'' = Some n"
    and "find (\<lambda>x. cat_name x = n) (categories db) = None" "db_constraints db"
  shows "serve secret RApiCategories db ls req =
           (Text (''New Category '' @ n @ '' created''), add_category n db, login_user ls u)"
proof -
  have "db_constraints (add_category n db)"
    using assms(7,8) by (auto simp: constraints_add_category find_None_iff)
  with assms show ?thesis
    by (auto simp: serve_def login_required_anonymous apiAllCategories_def login_user_def commit_def
        json_field_def split: option.splits)
qed

text \<open>
  C32: A Google sign-in whose state parameter differs from the anti-forgery
  token in the client's session (or whose session has none) changes neither
  the database nor the session and is answered with 401 or 500.
\<close>

theorem gconnect_state_mismatch:
  assumes "map_of (req_args req) ''state'' \<noteq> ls_state ls"
  shows "snd (gconnect db ls req) = (db, ls) \<and> status (fst (gconnect db ls req)) \<in> {401, 500}"
  using assms by (cases "ls_state ls") (auto simp: gconnect_def)

end
