(* ===== verification/Ownership.thy ===== *)
theory Ownership
  imports Access
begin

text \<open>
  An item's owner (\<open>Item.user_id\<close> in \<open>src/vagrant/catalog/database_setup.py\<close>)
  is set when the item is created and never changed: the edit handlers copy
  name, description and category only, deletions remove rows, and a new row
  gets a rowid no existing item has. \<open>owners_kept db db'\<close> says that every row
  of \<open>db'\<close> whose rowid exists in \<open>db\<close> has the owner it had there.
\<close>

definition owners_kept :: "catalog_db \<Rightarrow> catalog_db \<Rightarrow> bool" where
  "owners_kept db db' \<longleftrightarrow>
     (\<forall>it' \<in> set (items db'). \<forall>it \<in> set (items db). item_id it' = item_id it \<longrightarrow> user_id it' = user_id it)"

named_theorems owner_intros "table changes that keep every item's owner"

lemma owners_kept_I:
  assumes ids: "distinct (map item_id (items db))"
    and "\<And>it'. it' \<in> set (items db') \<Longrightarrow> item_id it' \<in> item_id ` set (items db) \<Longrightarrow>
           \<exists>it \<in> set (items db). item_id it = item_id it' \<and> user_id it = user_id it'"
  shows "owners_kept db db'"
  unfolding owners_kept_def
proof (intro ballI impI)
  fix it' it assume it': "it' \<in> set (items db')" and it: "it \<in> set (items db)" and eq: "item_id it' = item_id it"
  then obtain it0 where "it0 \<in> set (items db)" "item_id it0 = item_id it'" "user_id it0 = user_id it'"
    using assms(2) [OF it'] by force
  with it eq distinct_key_eq [OF ids] show "user_id it' = user_id it" by metis
qed

lemma owners_kept_subset [owner_intros]:
  "wf_db db \<Longrightarrow> set (items db') \<subseteq> set (items db) \<Longrightarrow> owners_kept db db'"
  by (rule owners_kept_I [OF wf_item_ids]) auto

lemma owners_kept_add_item [owner_intros]: "wf_db db \<Longrightarrow> owners_kept db (add_item it db)"
  by (rule owners_kept_I [OF wf_item_ids]) (auto simp: add_item_def, metis less_irrefl next_rowid_gt)

lemma owners_kept_replace [owner_intros]:
  assumes "wf_db db" "find (\<lambda>i. item_id i = k) (items db) = Some old"
  shows "owners_kept db (db\<lparr>items := replace_row item_id (edited_item old nn nd c t) (items db)\<rparr>)"
proof (rule owners_kept_I [OF wf_item_ids [OF assms(1)]])
  have old: "old \<in> set (items db)" using find_Some_in_set [OF assms(2)] by simp
  fix it' assume "it' \<in> set (items (db\<lparr>items := replace_row item_id (edited_item old nn nd c t) (items db)\<rparr>))"
  then have "it' = edited_item old nn nd c t \<or> it' \<in> set (items db)"
    using set_replace_row_subset [of item_id "edited_item old nn nd c t" "items db"] by auto
  with old show "\<exists>it \<in> set (items db). item_id it = item_id it' \<and> user_id it = user_id it'"
    by (auto simp: edited_item_def)
qed

lemma owners_kept_same [owner_intros]: "wf_db db \<Longrightarrow> items db' = items db \<Longrightarrow> owners_kept db db'"
  by (simp add: owners_kept_subset)

lemma owners_kept_filter [owner_intros]:
  "wf_db db \<Longrightarrow> owners_kept db (db\<lparr>items := filter P (items db)\<rparr>)"
  "wf_db db \<Longrightarrow> owners_kept db (db\<lparr>categories := Q, items := filter P (items db)\<rparr>)"
  "wf_db db \<Longrightarrow> owners_kept db (db\<lparr>items := []\<rparr>)"
  "wf_db db \<Longrightarrow> owners_kept db (db\<lparr>categories := Q, items := []\<rparr>)"
  by (simp_all add: owners_kept_subset subset_iff)

lemma owners_kept_tables [owner_intros]:
  "wf_db db \<Longrightarrow> owners_kept db (add_category n db)"
  "wf_db db \<Longrightarrow> owners_kept db (add_user u db)"
  by (simp_all add: owners_kept_same add_category_def add_user_def)

subsection \<open>Every handler keeps the owners\<close>

lemma newItem_owners: "wf_db db \<Longrightarrow> owners_kept db (fst (snd (newItem db ls req)))"
  unfolding newItem_def Let_def by (simp add: commit_def owner_intros split: option.split)

lemma newCategory_owners: "wf_db db \<Longrightarrow> owners_kept db (fst (snd (newCategory db ls req)))"
  unfolding newCategory_def Let_def by (simp add: commit_def owner_intros split: option.split)

lemma editItem_owners: "wf_db db \<Longrightarrow> owners_kept db (fst (snd (editItem db ls req i)))"
  unfolding editItem_def Let_def
  by (cases "ls_userId ls"; cases "find (\<lambda>it. item_id it = i) (items db)";
      simp add: commit_def owner_intros split: option.split)

lemma deleteItem_owners: "wf_db db \<Longrightarrow> owners_kept db (fst (snd (deleteItem db ls req i)))"
  unfolding deleteItem_def by (simp add: commit_def owner_intros split: option.split)

lemma api_owners:
  "wf_db db \<Longrightarrow> owners_kept db (fst (snd (apiAllCategories db ls req)))"
  "wf_db db \<Longrightarrow> owners_kept db (fst (snd (apiManageCategory db ls req c)))"
  "wf_db db \<Longrightarrow> owners_kept db (fst (snd (apiAllItems db ls req)))"
  by (simp_all add: apiAllCategories_def apiManageCategory_def apiAllItems_def Let_def commit_def
      owner_intros split: option.split)

lemma apiManageItem_owners: "wf_db db \<Longrightarrow> owners_kept db (fst (snd (apiManageItem db ls req i)))"
  unfolding apiManageItem_def Let_def
  by (cases "find (\<lambda>it. item_id it = i) (items db)"; simp add: commit_def owner_intros split: option.split)

lemma auth_owners:
  "wf_db db \<Longrightarrow> owners_kept db (fst (snd (new_user db ls req)))"
  "wf_db db \<Longrightarrow> owners_kept db (fst (snd (get_auth_token secret db ls req)))"
  "wf_db db \<Longrightarrow> owners_kept db (fst (snd (gdisconnect db ls req)))"
  by (simp_all add: new_user_def get_auth_token_def gdisconnect_def Let_def commit_def owner_intros
      split: option.split)

lemma gconnect_owners: "wf_db db \<Longrightarrow> owners_kept db (fst (snd (gconnect db ls req)))"
  unfolding gconnect_def Let_def
  by (auto simp: owner_intros split: option.split prod.split sum.split dest!: createUser_keeps_catalog)

lemma login_required_owners:
  "wf_db db \<Longrightarrow> (\<And>ls'. owners_kept db (fst (snd (handler db ls' req)))) \<Longrightarrow>
   owners_kept db (fst (snd (login_required secret handler db ls req)))"
  by (auto simp: login_required_def owner_intros split: prod.split sum.split bool.split)

lemma dispatch_owners: "wf_db db \<Longrightarrow> owners_kept db (fst (snd (dispatch secret r db ls req)))"
  by (cases r)
     (simp_all add: login_required_owners auth_owners gconnect_owners newItem_owners newCategory_owners
       editItem_owners deleteItem_owners api_owners apiManageItem_owners showHome_def Let_def
       showCategory_def showItem_def owner_intros split: option.split)

subsection \<open>Property\<close>

text \<open>
  C34: No request changes the owner of an item: after any step from a
  reachable state, a row with the rowid of an item that existed before has
  that item's owner.
\<close>

theorem item_owner_immutable:
  assumes "reach secret s" "server_step secret s c r req = (resp, s')"
    and "it \<in> set (items (srv_db s))" "it' \<in> set (items (srv_db s'))" "item_id it' = item_id it"
  shows "user_id it' = user_id it"
proof -
  have wf: "wf_db (srv_db s)" using assms(1) by (rule reach_wf)
  have "srv_db s' = fst (snd (serve secret r (srv_db s) (srv_sessions s c) req))"
    using assms(2) by (auto simp: server_step_serve)
  moreover have "owners_kept (srv_db s) (fst (snd (serve secret r (srv_db s) (srv_sessions s c) req)))"
    using wf by (simp add: serve_def dispatch_owners owner_intros)
  ultimately show ?thesis using assms(3-5) by (simp add: owners_kept_def)
qed

end
