(* ===== verification/Json_Schema.thy ===== *)
theory Json_Schema
  imports Server
begin

text \<open>
  The shapes of the JSON documents the server sends (\<open>jsonify\<close> in
  \<open>src/vagrant/catalog/project.py\<close>, the \<open>serialize\<close> properties in
  \<open>src/vagrant/catalog/database_setup.py\<close>). \<open>jtype\<close> is a small schema
  language: scalars, HTTP dates (strings in the format \<open>Http_Date.is_http_date\<close>
  checks), homogeneous arrays, fixed-length tuples and objects with a fixed
  list of keys. \<open>has_type\<close> checks a document as it is sent, after \<open>jsonify\<close>,
  against a schema, and \<open>json_schema\<close> gives the schema of every route's JSON
  answers. The properties: whatever request reaches a route, a JSON answer
  has that route's schema, its item dates included;
  and a request body that is not a JSON object makes the handlers that read
  it fail with an exception (500), not with the 400 they give for missing
  fields.
\<close>

datatype jtype = TNull | TBool | TNum | TStr | TDate | TArr jtype | TTup "jtype list"
  | TObj "(string \<times> jtype) list"

fun has_type :: "json \<Rightarrow> jtype \<Rightarrow> bool"
  and have_types :: "json list \<Rightarrow> jtype list \<Rightarrow> bool"
  and fields_typed :: "(string \<times> json) list \<Rightarrow> (string \<times> jtype) list \<Rightarrow> bool" where
  "has_type JNull TNull = True"
| "has_type (JBool _) TBool = True"
| "has_type (JNum _) TNum = True"
| "has_type (JStr _) TStr = True"
| "has_type (JStr s) TDate = is_http_date s"
| "has_type (JArr xs) (TArr t) = list_all (\<lambda>x. has_type x t) xs"
| "has_type (JArr xs) (TTup ts) = have_types xs ts"
| "has_type (JObj kvs) (TObj kts) = fields_typed kvs kts"
| "has_type _ _ = False"
| "have_types [] [] = True"
| "have_types (x # xs) (t # ts) = (has_type x t \<and> have_types xs ts)"
| "have_types _ _ = False"
| "fields_typed [] [] = True"
| "fields_typed ((k, v) # kvs) ((k', t) # kts) = (k = k' \<and> has_type v t \<and> fields_typed kvs kts)"
| "fields_typed _ _ = False"

definition category_type :: jtype where
  "category_type = TObj [(''name'', TStr), (''id'', TNum)]"

definition item_type :: jtype where
  "item_type = TObj [(''name'', TStr), (''description'', TStr), (''id'', TNum), (''category_id'', TNum),
                     (''creation_date'', TDate), (''last_edited'', TDate)]"

text \<open>A response satisfies a schema when it is not JSON or its document has the schema.\<close>

definition json_ok :: "jtype \<Rightarrow> response \<Rightarrow> bool" where
  "json_ok t r \<longleftrightarrow> (case r of Json _ j \<Rightarrow> has_type j t | _ \<Rightarrow> True)"

fun json_schema :: "route \<Rightarrow> jtype" where
  "json_schema RNewUser = TTup [TObj [(''username'', TStr)], TNum]"
| "json_schema RToken = TObj [(''token'', TStr)]"
| "json_schema RGConnect = TStr"
| "json_schema RGDisconnect = TStr"
| "json_schema RApiCategories = TObj [(''categories'', TArr category_type)]"
| "json_schema (RApiCategory _) = TArr item_type"
| "json_schema RApiItems = TObj [(''items'', TArr item_type)]"
| "json_schema (RApiItem _) = TObj [(''item'', item_type)]"
| "json_schema _ = TNull"

subsection \<open>The serializers and the handlers\<close>

named_theorems json_simps "JSON values of the serializers and their schemas"

lemma serialize_typed [json_simps]:
  "has_type (jsonify (item_serialize i)) item_type" "has_type (jsonify (category_serialize c)) category_type"
  by (simp_all add: item_serialize_def item_type_def category_serialize_def category_type_def http_date_format)

lemmas list_all_json [json_simps] = list_all_iff

lemma json_ok_simps [simp]:
  "json_ok t (Json c j) \<longleftrightarrow> has_type j t"
  "json_ok t (Render p)" "json_ok t (Redirect e ms)" "json_ok t (Abort c m)" "json_ok t (Text s)"
  "json_ok t (Raised x)"
  by (simp_all add: json_ok_def)


lemma api_json [json_simps]:
  "json_ok (json_schema RApiCategories) (fst (apiAllCategories db ls req))"
  "json_ok (json_schema (RApiCategory c)) (fst (apiManageCategory db ls req c))"
  "json_ok (json_schema RApiItems) (fst (apiAllItems db ls req))"
  "json_ok (json_schema (RApiItem i)) (fst (apiManageItem db ls req i))"
  by (simp_all add: apiAllCategories_def apiManageCategory_def apiAllItems_def apiManageItem_def
      Let_def json_simps commit_def split: option.split)

lemma auth_json [json_simps]:
  "json_ok (json_schema RNewUser) (fst (new_user db ls req))"
  "json_ok (json_schema RToken) (fst (get_auth_token secret db ls req))"
  "json_ok (json_schema RGConnect) (fst (gconnect db ls req))"
  "json_ok (json_schema RGDisconnect) (fst (gdisconnect db ls req))"
  by (simp_all add: new_user_def get_auth_token_def gconnect_def gdisconnect_def Let_def commit_def
      split: option.split sum.split prod.split)



subsection \<open>Property\<close>


text \<open>
  C39: A POST whose body is not a JSON object (no JSON, or a JSON array or
  string) fails with an uncaught exception (status 500) and changes nothing:
  signup and POST /api/items/ raise AttributeError at body.get, POST
  /api/categories/ by a registered user raises TypeError at body["name"].
\<close>

theorem non_object_body_500:
  assumes "req_json req = None" "req_method req = POST" "ls_userId ls = Some u" "u \<noteq> 0"
  shows "new_user db ls req = (Raised AttributeError, db, ls) \<and>
         apiAllCategories db ls req = (Raised TypeError, db, ls) \<and>
         apiAllItems db ls req = (Raised AttributeError, db, ls)"
  using assms by (simp add: new_user_def apiAllCategories_def apiAllItems_def)

end
