(* ===== verification/Liveness.thy ===== *)
theory Liveness
  imports Server
begin

text \<open>
  Progress of the server: requests that must always be possible are. On
  every well-formed database an administrator with a local password can empty
  the catalog with one request (DELETE /api/categories/), and from every
  reachable state a new user can sign up (POST /users/) and is authenticated
  by basic auth from then on. The
  preconditions are the ones the code needs: the credentials must not parse
  as a token of the server (\<open>verify_password\<close> tries the token first).
\<close>

lemma wf_find_local_user:
  assumes "wf_db db" "u \<in> set (users db)" "verify_password_hash u pw"
  shows "find (\<lambda>v. name v = name u) (users db) = Some u"
proof -
  have "password_hash u \<noteq> None"
    using assms(3) by (cases "password_hash u") (auto simp: verify_password_hash_def)
  with assms(1,2) show ?thesis by (simp add: wf_db_def wf_rows_def)
qed

text \<open>Basic auth with a user's name and password runs the view as that user.\<close>

lemma login_required_basic:
  assumes "req_method req \<noteq> GET" "req_auth req = Some (n, pw)"
    "verify_auth_token secret (req_now req) n = None"
    "find (\<lambda>v. name v = n) (users db) = Some u" "verify_password_hash u pw"
  shows "login_required secret handler db ls req = handler db (login_user ls u) req"
  using assms by (simp add: login_required_def verify_password_def)

subsection \<open>Properties\<close>

text \<open>
  C36: On every well-formed database, an administrator whose local password is
  sent by basic auth with DELETE /api/categories/ empties the catalog in one
  request: the answer is "All categories and items deleted", no category and
  no item is left, and the session is logged in as the administrator.
  (Administrators are provisioned outside the program: see
  \<open>Admins.no_admin_reachable\<close>.)
\<close>

theorem admin_can_reset_catalog:
  assumes "wf_db db" "u \<in> set (users db)" "admin u" "verify_password_hash u pw"
    and "req_method req = DELETE" "req_auth req = Some (name u, pw)"
    and "verify_auth_token secret (req_now req) (name u) = None"
  shows "serve secret RApiCategories db ls req =
           (Text ''All categories and items deleted'', db\<lparr>categories := [], items := []\<rparr>, login_user ls u)"
proof -
  have "login_required secret apiAllCategories db ls req = apiAllCategories db (login_user ls u) req"
    using assms(5-7) wf_find_local_user [OF assms(1,2,4)] assms(4)
    by (intro login_required_basic) simp_all
  moreover have "db_constraints (db\<lparr>categories := [], items := []\<rparr>)"
    using assms(1) by (simp add: wf_db_def db_constraints_def)
  ultimately show ?thesis
    using assms(3,5) by (simp add: serve_def apiAllCategories_def is_admin_def login_user_def commit_def)
qed

text \<open>
  C37: From every reachable state, signing up with a user name nobody has
  succeeds (200), and afterwards a request carrying that name and password by
  basic auth is run as the new user.
\<close>

theorem signup_then_authenticated:
  assumes "reach secret s" and "req_method req = POST"
    and "json_field req ''username'' = Some n" "json_field req ''password'' = Some pw"
      "json_field req ''email'' = Some e"
    and "find (\<lambda>v. name v = n) (users (srv_db s)) = None"
    and "server_step secret s c RNewUser req = (resp, s')"
    and "req_method req' \<noteq> GET" "req_auth req' = Some (n, pw)"
    and "verify_auth_token secret (req_now req') n = None"
  shows "status resp = 200 \<and>
         (\<exists>u \<in> set (users (srv_db s')). name u = n \<and>
            login_required secret handler (srv_db s') ls req' = handler (srv_db s') (login_user ls u) req')"
proof -
  let ?db = "srv_db s"
  let ?u = "hash_password (req_rand req) pw
              \<lparr>uid = 0, name = n, email = e, picture = None, google_id = None, password_hash = None,
               admin = False\<rparr>"
  let ?u' = "?u\<lparr>uid := next_rowid uid (users ?db)\<rparr>"
  have wf: "wf_db ?db" using assms(1) by (rule reach_wf)
  have "db_constraints (add_user ?u ?db)"
    using wf by (simp add: wf_db_def constraints_add_user hash_password_def)
  then have out: "new_user ?db (srv_sessions s c) req =
      (Json 200 (JArr [JObj [(''username'', JStr n)], JNum 201]), add_user ?u ?db, srv_sessions s c)"
    using assms(3-6) by (auto simp: new_user_def commit_def json_field_def split: option.splits)
  then have s': "srv_db s' = add_user ?u ?db" "resp = Json 200 (JArr [JObj [(''username'', JStr n)], JNum 201])"
    using assms(2,7) by (auto simp: server_step_serve serve_def)
  have "find (\<lambda>v. name v = n) (users (srv_db s')) = Some ?u'"
    using assms(6) s'(1) by (simp add: add_user_def hash_password_def find_append_split)
  moreover have "verify_password_hash ?u' pw"
    by (simp add: verify_password_hash_def hash_password_def pwd_encrypt_def)
  ultimately have "login_required secret handler (srv_db s') ls req' = handler (srv_db s') (login_user ls ?u') req'"
    using assms(8-10) by (rule login_required_basic [rotated 3])
  moreover have "?u' \<in> set (users (srv_db s'))" using s'(1) by (simp add: add_user_def)
  moreover have "name ?u' = n" by (simp add: hash_password_def)
  ultimately have "\<exists>u \<in> set (users (srv_db s')). name u = n \<and>
      login_required secret handler (srv_db s') ls req' = handler (srv_db s') (login_user ls u) req'"
    by blast
  with s'(2) show ?thesis by simp
qed

end
