(* ===== verification/Admins.thy ===== *)
theory Admins
  imports Server
begin

text \<open>
  Administrators. The column \<open>User.admin\<close> of
  \<open>src/vagrant/catalog/database_setup.py\<close> defaults to \<open>False\<close>, and neither
  \<open>new_user\<close> nor \<open>createUser\<close> in \<open>src/vagrant/catalog/project.py\<close> sets it;
  \<open>login_session["admin"]\<close> is only ever written from a user row. So no
  request creates an administrator: from an empty database, no reachable
  state has an administrator row or an administrator session, and the
  admin-only operations (bulk deletes, deleting a category, changing another
  user's item through the API) can only be used on a database whose
  administrators were written outside the program.
\<close>

definition admin_free :: "catalog_db \<Rightarrow> login_session \<Rightarrow> bool" where
  "admin_free db ls \<longleftrightarrow> (\<forall>u \<in> set (users db). \<not> admin u) \<and> ls_admin ls \<noteq> Some True"

text \<open>The catalog handlers leave the users and the session's admin flag alone.\<close>

definition keeps_admin :: "catalog_db \<Rightarrow> login_session \<Rightarrow> outcome \<Rightarrow> bool" where
  "keeps_admin db ls out \<longleftrightarrow> users (fst (snd out)) = users db \<and> ls_admin (snd (snd out)) = ls_admin ls"

lemma keeps_admin_pages:
  "keeps_admin db ls (showHome db ls req)" "keeps_admin db ls (newItem db ls req)"
  "keeps_admin db ls (newCategory db ls req)" "keeps_admin db ls (showCategory db ls c)"
  "keeps_admin db ls (showItem db ls i)" "keeps_admin db ls (deleteItem db ls req i)"
  by (simp_all add: keeps_admin_def showHome_def newItem_def newCategory_def showCategory_def
      showItem_def deleteItem_def Let_def commit_def add_item_def add_category_def split: option.split)

lemma keeps_admin_editItem: "keeps_admin db ls (editItem db ls req i)"
  unfolding editItem_def Let_def
  by (cases "ls_userId ls"; cases "find (\<lambda>it. item_id it = i) (items db)";
      simp add: keeps_admin_def commit_def split: option.split)

lemma keeps_admin_api:
  "keeps_admin db ls (apiAllCategories db ls req)" "keeps_admin db ls (apiManageCategory db ls req c)"
  "keeps_admin db ls (apiAllItems db ls req)"
  by (simp_all add: keeps_admin_def apiAllCategories_def apiManageCategory_def apiAllItems_def Let_def
      commit_def add_item_def add_category_def split: option.split)

lemma keeps_admin_apiManageItem: "keeps_admin db ls (apiManageItem db ls req i)"
  unfolding apiManageItem_def Let_def
  by (cases "find (\<lambda>it. item_id it = i) (items db)"; simp add: keeps_admin_def commit_def split: option.split)

lemma admin_free_keeps: "admin_free db ls \<Longrightarrow> keeps_admin db ls out \<Longrightarrow> admin_free (fst (snd out)) (snd (snd out))"
  by (simp add: admin_free_def keeps_admin_def)

lemma admin_free_login_user:
  "admin_free db ls \<Longrightarrow> u \<in> set (users db) \<Longrightarrow> admin_free db (login_user ls u)"
  by (simp add: admin_free_def login_user_def)

lemma verify_password_admin_free:
  "admin_free db ls \<Longrightarrow> verify_password secret db ls req n p = Inr (b, ls') \<Longrightarrow> admin_free db ls'"
  unfolding verify_password_def Let_def
  by (auto split: if_splits option.splits dest!: find_Some_in_set intro: admin_free_login_user)

lemma login_required_admin_free:
  assumes "admin_free db ls"
    and "\<And>ls'. admin_free db ls' \<Longrightarrow> admin_free (fst (snd (handler db ls' req))) (snd (snd (handler db ls' req)))"
  shows "admin_free (fst (snd (login_required secret handler db ls req))) (snd (snd (login_required secret handler db ls req)))"
  using assms unfolding login_required_def
  by (auto split: prod.split sum.split bool.split dest: verify_password_admin_free)

lemma createUser_no_admin:
  "createUser db info = (x, db') \<Longrightarrow> set (users db') \<subseteq> set (users db) \<union> {u. \<not> admin u}"
  by (auto simp: createUser_def add_user_def commit_def Let_def
      split: option.splits list.splits if_splits prod.splits)

lemma auth_admin_free:
  "admin_free db ls \<Longrightarrow> admin_free (fst (snd (new_user db ls req))) (snd (snd (new_user db ls req)))"
  "admin_free db ls \<Longrightarrow> admin_free (fst (snd (get_auth_token secret db ls req))) (snd (snd (get_auth_token secret db ls req)))"
  "admin_free db ls \<Longrightarrow> admin_free (fst (snd (gdisconnect db ls req))) (snd (snd (gdisconnect db ls req)))"
  by (auto simp: new_user_def get_auth_token_def gdisconnect_def Let_def commit_def add_user_def
      hash_password_def admin_free_def split: option.split)

lemma gconnect_admin_free:
  "admin_free db ls \<Longrightarrow> admin_free (fst (snd (gconnect db ls req))) (snd (snd (gconnect db ls req)))"
  unfolding gconnect_def Let_def
  by (auto split: option.split prod.split sum.split dest!: createUser_no_admin simp: admin_free_def)

lemma dispatch_admin_free:
  "admin_free db ls \<Longrightarrow>
   admin_free (fst (snd (dispatch secret r db ls req))) (snd (snd (dispatch secret r db ls req)))"
  by (cases r)
     (simp_all add: auth_admin_free gconnect_admin_free login_required_admin_free admin_free_keeps
       keeps_admin_pages keeps_admin_editItem keeps_admin_api keeps_admin_apiManageItem)

lemma reach_admin_free: "reach secret s \<Longrightarrow> admin_free (srv_db s) (srv_sessions s c)"
proof (induction arbitrary: c rule: reach.induct)
  case init
  show ?case by (simp add: admin_free_def init_server_def empty_db_def empty_session_def)
next
  case (step s c' r req resp s')
  let ?out = "serve secret r (srv_db s) (srv_sessions s c') req"
  have out: "admin_free (fst (snd ?out)) (snd (snd ?out))"
    using step.IH [of c'] by (simp add: serve_def dispatch_admin_free)
  moreover have "admin_free (fst (snd ?out)) (srv_sessions s c)"
    using out step.IH [of c] by (simp add: admin_free_def)
  ultimately show ?case using step.hyps(2) by (auto simp: server_step_serve)
qed

subsection \<open>Property\<close>

text \<open>
  C38: No request creates an administrator: in every state reachable from an
  empty database, no user row has the admin flag and no client session is an
  administrator session.
\<close>

theorem no_admin_reachable:
  assumes "reach secret s"
  shows "(\<forall>u \<in> set (users (srv_db s)). \<not> admin u) \<and> (\<forall>c. \<not> is_admin (srv_sessions s c))"
  using reach_admin_free [OF assms] by (simp add: admin_free_def is_admin_def)

end
