(* ===== verification/Interleaving.thy ===== *)
theory Interleaving
  imports Catalog_Spec
begin

text \<open>
  Ordering of requests of different clients. \<open>api_item_post\<close> is the effect
  of the body of \<open>apiAllItems\<close> (POST branch, project.py) read on the abstract
  catalog of \<open>Catalog_Spec\<close>, and \<open>items_post_view\<close> adds the outcome of
  \<open>verify_password\<close> in front of it, as \<open>@auth.login_required\<close> does. The
  lemmas show that a served POST /api/items/ computes this view
  (\<open>serve_items_post_abs\<close>), that the view only adds the entry named in the
  body and is independent of entries under other names (frame and shape
  lemmas), and hence that two such requests of different clients with
  different item names commute: both orders give the same answers, the same
  sessions and the same catalog up to the rowids the items receive.
\<close>

text \<open>
  The POST branch of \<open>apiAllItems\<close> on the abstract catalog, for the user id
  of the session: the same checks in the same order, the same answers.
\<close>

definition api_item_post :: "request \<Rightarrow> rowid option \<Rightarrow> catalog \<Rightarrow> response \<times> catalog" where
  "api_item_post req u C =
     (case req_json req of
        None \<Rightarrow> (Raised AttributeError, C)
      | Some body \<Rightarrow>
          (let n = map_of body ''name''; d = map_of body ''description''; c = map_of body ''category''
           in if truthy n \<and> truthy d \<and> truthy c then
                (if entries C (the n) \<noteq> None then (Abort 400 ''Item already exists'', C)
                 else if the c \<notin> cat_names C then (Abort 400 ''Category does not exist'', C)
                 else (case u of
                         None \<Rightarrow> (Raised KeyError, C)
                       | Some i \<Rightarrow> (Text (''New item '' @ the n @ '' sucessfully created''),
                                      C\<lparr>entries := (entries C)(the n \<mapsto> (the d, the c, i))\<rparr>)))
              else (Abort 400 ''The name, description and category parameters must be supplied'', C)))"

text \<open>
  The authenticated view: the result of \<open>verify_password\<close>, then 500, 401 or
  the handler on the session it returns.
\<close>

definition items_post_view ::
  "py_exc + bool \<times> login_session \<Rightarrow> login_session \<Rightarrow> request \<Rightarrow> catalog \<Rightarrow> response \<times> catalog \<times> login_session" where
  "items_post_view v ls req C =
     (case v of
        Inl e \<Rightarrow> (Raised e, C, ls)
      | Inr (False, ls') \<Rightarrow> (Abort 401 ''Unauthorized Access'', C, ls')
      | Inr (True, ls') \<Rightarrow> (case api_item_post req (ls_userId ls') C of (a, C') \<Rightarrow> (a, C', ls')))"

text \<open>Adding one entry to the abstract catalog.\<close>

abbreviation add_entry :: "string \<Rightarrow> entry \<Rightarrow> catalog \<Rightarrow> catalog" where
  "add_entry n e C \<equiv> C\<lparr>entries := (entries C)(n \<mapsto> e)\<rparr>"

lemma apiAllItems_post_abs:
  assumes wf: "wf_db db" and m: "req_method req = POST" and r: "apiAllItems db ls req = (a, db', ls')"
  shows "(a, abs_db db') = api_item_post req (ls_userId ls) (abs_db db) \<and> ls' = ls \<and> users db' = users db"
proof (cases "req_json req")
  case None
  with m r show ?thesis by (auto simp: apiAllItems_def api_item_post_def)
next
  case js: (Some body)
  show ?thesis
  proof (cases "truthy (map_of body ''name'') \<and> truthy (map_of body ''description'') \<and> truthy (map_of body ''category'')")
    case False
    with js m r show ?thesis by (auto simp: apiAllItems_def api_item_post_def)
  next
    case True
    then obtain n d c where j: "map_of body ''name'' = Some n" "map_of body ''description'' = Some d"
        "map_of body ''category'' = Some c" and ne: "n \<noteq> []" "d \<noteq> []" "c \<noteq> []"
      by (auto simp: truthy_def split: option.splits)
    show ?thesis
    proof (cases "find (\<lambda>i. item_name i = n) (items db) = None")
      case False
      with js j ne m r show ?thesis
        by (auto simp: apiAllItems_def api_item_post_def entries_abs_db_None)
    next
      case fresh: True
      show ?thesis
      proof (cases "find (\<lambda>x. cat_name x = c) (categories db)")
        case None
        with fresh js j ne m r show ?thesis
          by (auto simp: apiAllItems_def api_item_post_def entries_abs_db_None cat_names_abs_db)
      next
        case (Some cat)
        note add = abs_add_new_item [OF wf fresh Some, of d "req_now req"]
        from Some have "c \<in> cat_names (abs_db db)" by (simp add: cat_names_abs_db)
        with js Some fresh j ne m r add show ?thesis
          by (cases "ls_userId ls")
             (auto simp: apiAllItems_def api_item_post_def entries_abs_db_None add_item_def)
      qed
    qed
  qed
qed

lemma api_item_post_frame:
  "json_field req ''name'' \<noteq> Some n \<Longrightarrow>
   api_item_post req u (add_entry n e C) = map_prod id (add_entry n e) (api_item_post req u C)"
  by (auto simp: api_item_post_def json_field_def Let_def truthy_def fun_upd_twist split: option.splits)

lemma api_item_post_shape:
  "api_item_post req u C = (a, C') \<Longrightarrow>
   C' = C \<or> (\<exists>n e. json_field req ''name'' = Some n \<and> C' = add_entry n e C)"
  by (auto simp: api_item_post_def json_field_def Let_def truthy_def split: option.splits if_splits) blast

lemma items_post_view_frame:
  "json_field req ''name'' \<noteq> Some n \<Longrightarrow>
   items_post_view v ls req (add_entry n e C) =
     (case items_post_view v ls req C of (a, C', ls') \<Rightarrow> (a, add_entry n e C', ls'))"
  by (auto simp: items_post_view_def api_item_post_frame split: sum.split prod.split bool.split)

lemma items_post_view_shape:
  "items_post_view v ls req C = (a, C', ls') \<Longrightarrow>
   C' = C \<or> (\<exists>n e. json_field req ''name'' = Some n \<and> C' = add_entry n e C)"
  by (auto simp: items_post_view_def split: sum.splits prod.splits bool.splits dest!: api_item_post_shape)

lemma items_post_view_session:
  "items_post_view v ls req C = (a, C', ls') \<Longrightarrow> items_post_view v ls req D = (b, D', ls'') \<Longrightarrow> ls' = ls''"
  by (auto simp: items_post_view_def split: sum.splits prod.splits bool.splits)

lemma items_post_view_commute:
  assumes n: "json_field r1 ''name'' \<noteq> json_field r2 ''name''"
    and o1: "items_post_view v1 l1 r1 C = (a1, C1, l1')" and o12: "items_post_view v2 l2 r2 C1 = (a2, C12, l2')"
    and o2: "items_post_view v2 l2 r2 C = (b2, C2, l2'')" and o21: "items_post_view v1 l1 r1 C2 = (b1, C21, l1'')"
  shows "a1 = b1 \<and> a2 = b2 \<and> C12 = C21 \<and> l1' = l1'' \<and> l2' = l2''"
  using items_post_view_shape [OF o1] items_post_view_shape [OF o2]
proof (elim disjE exE conjE)
  assume "C1 = C" "C2 = C"
  with o1 o2 o12 o21 show ?thesis by simp
next
  fix n2 e2 assume "C1 = C" "json_field r2 ''name'' = Some n2" "C2 = add_entry n2 e2 C"
  with n o1 o2 o12 o21 show ?thesis by (auto simp: items_post_view_frame)
next
  fix n1 e1 assume "json_field r1 ''name'' = Some n1" "C1 = add_entry n1 e1 C" "C2 = C"
  with n o1 o2 o12 o21 show ?thesis by (auto simp: items_post_view_frame)
next
  fix n1 e1 n2 e2
  assume "json_field r1 ''name'' = Some n1" "C1 = add_entry n1 e1 C"
    "json_field r2 ''name'' = Some n2" "C2 = add_entry n2 e2 C"
  with n o1 o2 o12 o21 show ?thesis by (auto simp: items_post_view_frame fun_upd_twist)
qed

lemma verify_password_users:
  assumes "users db' = users db"
  shows "verify_password secret db' = verify_password secret db"
  unfolding verify_password_def [abs_def] assms ..

lemma serve_items_post_abs:
  assumes wf: "wf_db db" and m: "req_method req = POST"
    and cr: "(case req_auth req of None \<Rightarrow> ([], []) | Some c \<Rightarrow> c) = (u, p)"
    and r: "serve secret RApiItems db ls req = (a, db', ls')"
  shows "(a, abs_db db', ls') = items_post_view (verify_password secret db ls req u p) ls req (abs_db db) \<and>
         users db' = users db"
proof (cases "verify_password secret db ls req u p")
  case (Inl e)
  with m cr r show ?thesis by (simp add: serve_def login_required_def items_post_view_def)
next
  case (Inr bl)
  then obtain b l where v: "verify_password secret db ls req u p = Inr (b, l)" by (cases bl) auto
  show ?thesis
  proof (cases b)
    case False
    with v m cr r show ?thesis by (simp add: serve_def login_required_def items_post_view_def)
  next
    case True
    with v m cr r have "apiAllItems db l req = (a, db', ls')" by (simp add: serve_def login_required_def)
    from apiAllItems_post_abs [OF wf m this] v True show ?thesis
      by (auto simp: items_post_view_def split: prod.split)
  qed
qed

lemma server_step_items_post:
  assumes "reach secret s" "req_method req = POST"
    "(case req_auth req of None \<Rightarrow> ([], []) | Some c \<Rightarrow> c) = (u, p)"
    "server_step secret s c RApiItems req = (a, s')"
  shows "(a, abs_db (srv_db s'), srv_sessions s' c) =
           items_post_view (verify_password secret (srv_db s) (srv_sessions s c) req u p) (srv_sessions s c) req
             (abs_db (srv_db s)) \<and>
         users (srv_db s') = users (srv_db s) \<and>
         srv_sessions s' = (srv_sessions s)(c := srv_sessions s' c)"
proof -
  obtain db' ls' where o: "serve secret RApiItems (srv_db s) (srv_sessions s c) req = (a, db', ls')"
    and s': "s' = \<lparr>srv_db = db', srv_sessions = (srv_sessions s)(c := ls')\<rparr>"
    using assms(4) by (auto simp: server_step_def split: prod.splits)
  from serve_items_post_abs [OF reach_wf [OF assms(1)] assms(2,3) o] s' show ?thesis by simp
qed

text \<open>
  C17: Two POST /api/items/ requests of two different clients whose bodies
  name different items commute: from any reachable state, serving the first
  and then the second gives the same two responses, the same client sessions
  and the same abstract catalog (every item's description, category name and
  owner) as serving them in the other order; only the rowids the two new
  items receive depend on the order.
\<close>

theorem api_item_posts_commute:
  assumes reach: "reach secret s" and c: "c1 \<noteq> c2"
    and m: "req_method r1 = POST" "req_method r2 = POST"
    and n: "json_field r1 ''name'' \<noteq> json_field r2 ''name''"
    and s1: "server_step secret s c1 RApiItems r1 = (a1, s1)"
    and s12: "server_step secret s1 c2 RApiItems r2 = (a2, s12)"
    and s2: "server_step secret s c2 RApiItems r2 = (b2, s2)"
    and s21: "server_step secret s2 c1 RApiItems r1 = (b1, s21)"
  shows "a1 = b1 \<and> a2 = b2 \<and> abs_db (srv_db s12) = abs_db (srv_db s21) \<and> srv_sessions s12 = srv_sessions s21"
proof -
  obtain u1 p1 where cr1: "(case req_auth r1 of None \<Rightarrow> ([], []) | Some c \<Rightarrow> c) = (u1, p1)" by fastforce
  obtain u2 p2 where cr2: "(case req_auth r2 of None \<Rightarrow> ([], []) | Some c \<Rightarrow> c) = (u2, p2)" by fastforce
  note t1 = server_step_items_post [OF reach m(1) cr1 s1]
  note t2 = server_step_items_post [OF reach m(2) cr2 s2]
  note t12 = server_step_items_post [OF reach.step [OF reach s1] m(2) cr2 s12]
  note t21 = server_step_items_post [OF reach.step [OF reach s2] m(1) cr1 s21]
  have S: "srv_sessions s1 c2 = srv_sessions s c2" "srv_sessions s2 c1 = srv_sessions s c1"
    using t1 t2 c by (metis fun_upd_other)+
  have V: "verify_password secret (srv_db s1) = verify_password secret (srv_db s)"
    "verify_password secret (srv_db s2) = verify_password secret (srv_db s)"
    using t1 t2 by (blast intro: verify_password_users)+
  from items_post_view_commute [OF n conjunct1 [OF t1, symmetric] conjunct1 [OF t12, unfolded S V, symmetric]
      conjunct1 [OF t2, symmetric] conjunct1 [OF t21, unfolded S V, symmetric]]
  have "a1 = b1" "a2 = b2" "abs_db (srv_db s12) = abs_db (srv_db s21)"
    "srv_sessions s1 c1 = srv_sessions s21 c1" "srv_sessions s12 c2 = srv_sessions s2 c2" by simp_all
  moreover have "srv_sessions s12 = srv_sessions s21"
    using t1 t2 t12 t21 S c calculation(4,5) by (metis fun_upd_twist)
  ultimately show ?thesis by simp
qed

end
