(* ===== verification/Spec2Isabelle.thy ===== *)
theory Spec2Isabelle
  imports Server Catalog_Spec Integrity Access Ownership Json_Schema Liveness Admins Interleaving
begin

text \<open>
  \<^bold>\<open>A verification development for the catalog web application of
  \<^verbatim>\<open>src/vagrant/catalog\<close>.\<close>

  \<^emph>\<open>The program.\<close> A Flask application (\<^verbatim>\<open>project.py\<close>) over an SQLite database
  declared with SQLAlchemy (\<^verbatim>\<open>database_setup.py\<close>). The database holds users,
  categories and items. Requests arrive on server-rendered page routes
  (\<open>showHome\<close>, \<open>newItem\<close>, \<open>newCategory\<close>, \<open>showCategory\<close>, \<open>showItem\<close>,
  \<open>editItem\<close>, \<open>deleteItem\<close>), on a JSON API (\<open>apiAllCategories\<close>,
  \<open>apiManageCategory\<close>, \<open>apiAllItems\<close>, \<open>apiManageItem\<close>, each behind
  flask_httpauth's \<open>login_required\<close> with the callback \<open>verify_password\<close>), and
  on the authentication routes (\<open>new_user\<close>, \<open>get_auth_token\<close>, \<open>gconnect\<close>,
  \<open>gdisconnect\<close>). The components share two pieces of state: the database, and
  the client's signed cookie session \<open>login_session\<close>, into which
  \<open>verify_password\<close> and \<open>gconnect\<close> write the user id that the pages and the
  API then trust.

  \<^emph>\<open>The theories.\<close>
  \<^item> \<open>Prelude\<close>: tables as row lists in rowid order, SQLite's choice of the next
    rowid, Python truthiness, JSON values, Python exceptions.
  \<^item> \<open>Token\<close>: the itsdangerous serializer (a library, modelled from its
    documentation) and \<open>User.generate_auth_token\<close>/\<open>verify_auth_token\<close>.
  \<^item> \<open>Http_Date\<close>: how Flask's \<open>jsonify\<close> renders a \<open>datetime\<close> (Werkzeug's
    \<open>http_date\<close>, a library modelled from its documentation): the Gregorian
    calendar (\<open>civil_year\<close>, a recursion over years with its termination
    measure, and \<open>civil_month\<close>), the date format, the rendering \<open>jsonify\<close>
    of a document, the bounds of every field and the format theorem
    \<open>http_date_format\<close>.
  \<^item> \<open>Schema\<close>: the three ORM classes as records, the database record, passlib
    hashing, \<open>commit\<close> with the \<open>unique=True\<close> constraints, the row operations
    \<open>add_user\<close>/\<open>add_category\<close>/\<open>add_item\<close>, and the invariant \<open>wf_db\<close> with one
    lemma per operation.
  \<^item> \<open>Http\<close>: session, request, response; a handler maps database, session and
    request to response, database and session. The interface \<open>sound_step\<close>
    (the invariant is kept and no user row is lost) and its lemmas for each
    kind of write.
  \<^item> \<open>Auth\<close>, \<open>Pages\<close>, \<open>Api\<close>: one definition per view function of
    \<^verbatim>\<open>project.py\<close>, following its branches and early returns in order; each
    theory proves \<open>sound_step\<close> for its handlers and states its properties.
  \<^item> \<open>Server\<close>: the URL map (\<open>route\<close>, \<open>route_methods\<close>, \<open>dispatch\<close>, \<open>serve\<close>),
    the server state (database and one session per client), one step per
    request, and the reachable states \<open>reach\<close>, an inductive predicate.
  \<^item> \<open>Catalog_Spec\<close>: the contract of the catalog as an abstract state (a
    set of category names and a map from item names to description, category
    name and owner), the abstraction \<open>abs_db\<close> of a database, and refinement
    lemmas: the API's create and delete handlers implement the abstract
    operations \<open>spec_add_item\<close>, \<open>spec_add_category\<close>,
    \<open>spec_delete_category\<close>, \<open>spec_delete_item\<close> on well-formed databases,
    and the edit page implements \<open>spec_edit_item\<close>.
  \<^item> \<open>Integrity\<close>: the unique constraints are guarded: each handler's
    insert or update is preceded by a query that rules out a clash, so on a
    well-formed database only Google sign-in can fail with \<open>IntegrityError\<close>.
  \<^item> \<open>Access\<close>: what a client without credentials can do. flask_httpauth
    passes two empty strings to \<open>verify_password\<close> when a request has no
    \<open>Authorization\<close> header; such a client cannot change the catalog unless
    a user with the empty name exists, and then it acts as that user. Also
    the anti-forgery check of \<open>gconnect\<close>.
  \<^item> \<open>Ownership\<close>: no handler changes the owner (\<open>user_id\<close>) of an existing
    item: per-handler lemmas on \<open>owners_kept\<close> and the property for every
    step from a reachable state.
  \<^item> \<open>Json_Schema\<close>: a schema language for JSON (\<open>jtype\<close>, \<open>has_type\<close>), the
    schema of each route's JSON answers (\<open>json_schema\<close>), and per-handler
    lemmas that the serializers and handlers produce documents of it; and
    the handlers' failure on a request body that is not a JSON object.
  \<^item> \<open>Liveness\<close>: progress: an administrator can always reset the catalog,
    and a new user can always sign up and is then authenticated.
  \<^item> \<open>Admins\<close>: the invariant that no request creates an administrator.
  \<^item> \<open>Interleaving\<close>: the ordering of requests of different clients. The
    POST branch of \<open>apiAllItems\<close> read on the abstract catalog
    (\<open>api_item_post\<close>), behind \<open>verify_password\<close> (\<open>items_post_view\<close>); a
    frame lemma (a creation under one name leaves every other name alone) and
    the commutation of two item creations under different names.
  \<^item> This theory: the property relating the page and the API, and the
    witnesses of every property at a small concrete database (\<open>demo_db\<close>)
    or at servers reached by concrete request sequences (\<open>s1\<close>..\<open>s3\<close>).

  \<^emph>\<open>How the model corresponds to the code.\<close> \<open>session.query(T).filter_by(..).first()\<close>
  is \<^const>\<open>find\<close> on the table's list; an insert followed by \<open>session.commit()\<close>
  is \<open>commit (add_... db)\<close>; an \<open>UPDATE\<close> of an item is \<open>replace_row\<close>; a bulk or
  single delete is \<^const>\<open>filter\<close>. \<open>abort(c, m)\<close> is \<open>Abort c m\<close>, \<open>flash(m)\<close> and
  \<open>redirect(url_for(e))\<close> is \<open>Redirect e [m]\<close>, an uncaught exception is \<open>Raised\<close>
  (status 500) and leaves the database as the last commit left it. Time,
  random strings and Google's verdict on an ID token are inputs of the request.
  No loop of the program is unbounded (every iteration is over a finite table),
  so no fuel or partial function is needed; the one recursion of the model
  that is not structural, the year count of \<open>Http_Date.civil_year\<close>,
  terminates by the measure of the remaining days.

  \<^emph>\<open>What is proved.\<close> Every reachable state keeps the database invariant and
  sound sessions (\<open>Server.reachable_state_wf\<close>), from per-handler lemmas; no
  step loses a user row, and no step changes the owner of an item. The
  behaviours the spec lists: duplicate categories are refused, items without
  fields or with an unknown category are refused, non-owners cannot change an
  item through the API, expired tokens are rejected, deleting a category
  removes its items. Round trips: token text parses back, a token verifies
  until its expiry, and never under another secret key. Equivalence: the page
  and the API create the same row. Refinement: creating an item or a
  category and deleting a category or an item through the API, and editing
  an item on its page, change the abstract catalog exactly as the contract's
  operations do, and refuse exactly when the contract refuses. Safety: on a
  well-formed database only Google sign-in can fail with \<open>IntegrityError\<close>;
  without a session or credentials a client changes neither categories nor
  items, unless an account with the empty name exists; a Google sign-in with
  a wrong anti-forgery state changes nothing. Type: every JSON answer has its
  route's schema, the item dates being well-formed HTTP dates whose fields
  are in range. Bounds: the home page lists exactly min(5, n) items.
  Liveness: an administrator with a password can always empty the catalog,
  and signup with a fresh name always succeeds and authenticates the user.
  Ordering: two clients creating items under different names through the API
  get the same answers and leave the same abstract catalog in either order
  (only the rowids differ), so the interleaving of such requests does not
  matter.
  Error paths of the request body: a body that is not a JSON object makes
  signup and the API's POST handlers crash (500) instead of answering 400.
  And the places where the code differs from the spec: the page variant
  crashes on an unknown category, admins cannot edit or delete on the pages,
  \<open>/token/\<close> checks no credential, signup answers 200, a non-admin bulk delete
  of items answers 200, renaming an item to its own name is refused,
  \<open>gdisconnect\<close> after basic-auth login raises, a Google account whose
  e-mail changed cannot sign in, and signup accepts an empty user name and
  password, after which every request without credentials is authenticated
  as that account. Finally, no route creates an administrator
  (\<open>Admins.no_admin_reachable\<close>): the admin-only operations are usable only
  on databases whose administrators were written outside the program, which
  is why the administrator properties are stated over any well-formed
  database rather than over the reachable states.

  \<^emph>\<open>Not modelled.\<close> Template rendering (only the data passed to the templates
  is kept), the HTTP call revoking the OAuth token, the cryptography of the
  token signature and of the password hash (both modelled as injective
  encodings), the network and concurrency inside SQLite (each request is one
  atomic step; requests of different clients interleave as steps), the
  \<open>HEAD\<close>/\<open>OPTIONS\<close> methods Flask adds, JSON values other than strings in
  a request body (numbers, \<open>null\<close>), and replay of old session cookies by a
  client. A body that is not a JSON object is modelled with the behaviour of
  Flask 1.x, where \<open>get_json()\<close> returns \<open>None\<close> (Flask 2.1 and later answer 415
  before the handler runs). A timestamp counts the seconds of the server's
  clock from 1970-01-01 00:00:00; the microseconds of \<open>datetime.now()\<close> are
  not modelled. \<open>item.serialize\<close> returns the dates as \<open>datetime\<close> values
  (\<open>JDate\<close>) and every \<open>jsonify\<close> call of the program renders them as HTTP
  date strings, so the schema of the JSON answers types them \<open>TDate\<close>.
\<close>

subsection \<open>A small catalog for the witnesses\<close>

definition ann :: user where
  "ann = \<lparr>uid = 1, name = ''ann'', email = ''ann@example.org'', picture = None, google_id = None,
          password_hash = Some (pwd_encrypt ''s1'' ''pw''), admin = False\<rparr>"

definition bob :: user where
  "bob = \<lparr>uid = 2, name = ''bob'', email = ''bob@example.org'', picture = Some ''b.png'',
          google_id = Some ''g2'', password_hash = None, admin = True\<rparr>"

definition books :: category where "books = \<lparr>cat_id = 1, cat_name = ''Books''\<rparr>"

definition games :: category where "games = \<lparr>cat_id = 2, cat_name = ''Games''\<rparr>"

definition dune :: item where
  "dune = \<lparr>item_id = 1, item_name = ''Dune'', description = ''novel'', category_id = 1,
           creation_date = 10, last_edited = 10, user_id = 1\<rparr>"

definition chess :: item where
  "chess = \<lparr>item_id = 2, item_name = ''Chess'', description = ''board game'', category_id = 2,
            creation_date = 20, last_edited = 20, user_id = 2\<rparr>"

definition demo_db :: catalog_db where
  "demo_db = \<lparr>users = [ann, bob], categories = [books, games], items = [dune, chess]\<rparr>"

definition ann_session :: login_session where
  "ann_session = empty_session\<lparr>ls_userId := Some 1, ls_admin := Some False, ls_state := Some ''st''\<rparr>"

definition bob_session :: login_session where
  "bob_session = empty_session\<lparr>ls_userId := Some 2, ls_admin := Some True\<rparr>"

definition carol_info :: idinfo where
  "carol_info = \<lparr>id_iss = ''accounts.google.com'', id_sub = ''g3'', id_email = ''carol@example.org'',
                 id_name = Some ''carol'', id_picture = Some ''c.png''\<rparr>"

definition bob_new_mail_info :: idinfo where
  "bob_new_mail_info = \<lparr>id_iss = ''accounts.google.com'', id_sub = ''g2'', id_email = ''bob@new.org'',
                        id_name = Some ''bob'', id_picture = Some ''b.png''\<rparr>"

definition demo_req :: "http_method \<Rightarrow> dict \<Rightarrow> dict \<Rightarrow> idinfo \<Rightarrow> request" where
  "demo_req m f j info = \<lparr>req_method = m, req_form = f, req_json = Some j, req_args = [(''state'', ''st'')],
     req_data = ''tok'', req_auth = None, req_now = 100, req_rand = ''r'', req_idinfo = Some info\<rparr>"

definition signup_req :: request where
  "signup_req = demo_req POST [] [(''username'', ''ann''), (''password'', ''pw''), (''email'', ''a@x'')] carol_info"

definition empty_signup_req :: request where
  "empty_signup_req = demo_req POST [] [(''username'', ''''), (''password'', ''''), (''email'', ''e@x'')] carol_info"

definition eve :: user where
  "eve = \<lparr>uid = 3, name = '''', email = ''e@x'', picture = None, google_id = None,
          password_hash = Some (pwd_encrypt ''r'' ''''), admin = False\<rparr>"

definition ann_auth_req :: "http_method \<Rightarrow> dict \<Rightarrow> request" where
  "ann_auth_req m j = (demo_req m [] j carol_info)\<lparr>req_auth := Some (''ann'', ''pw'')\<rparr>"

text \<open>A server after three requests of one client: signup, a category, an item.\<close>

definition s1 :: server where "s1 = snd (server_step ''K'' init_server 0 RNewUser signup_req)"

definition s2 :: server where
  "s2 = snd (server_step ''K'' s1 0 RApiCategories (ann_auth_req POST [(''name'', ''Books'')]))"

definition s3 :: server where
  "s3 = snd (server_step ''K'' s2 0 RApiItems
          (ann_auth_req POST [(''name'', ''Dune''), (''description'', ''novel''), (''category'', ''Books'')]))"

text \<open>Two item creations by two clients logged in as \<open>ann\<close>, for the ordering property.\<close>

definition dune_req :: request where
  "dune_req = ann_auth_req POST [(''name'', ''Dune''), (''description'', ''novel''), (''category'', ''Books'')]"

definition go_req :: request where
  "go_req = ann_auth_req POST [(''name'', ''Go''), (''description'', ''board game''), (''category'', ''Books'')]"

definition root :: user where
  "root = \<lparr>uid = 3, name = ''root'', email = ''root@example.org'', picture = None, google_id = None,
           password_hash = Some (pwd_encrypt ''s3'' ''rpw''), admin = True\<rparr>"

text \<open>A database whose administrator was provisioned outside the program.\<close>

definition admin_db :: catalog_db where "admin_db = demo_db\<lparr>users := [ann, bob, root]\<rparr>"

lemmas demo_defs = ann_def bob_def books_def games_def dune_def chess_def demo_db_def
  ann_session_def bob_session_def carol_info_def bob_new_mail_info_def demo_req_def empty_session_def
  json_field_def

text \<open>The definitions a step of the server unfolds to, for evaluating \<open>s1\<close>..\<open>s3\<close>.\<close>

lemmas step_defs = server_step_def serve_def login_required_def verify_password_def
  verify_auth_token_def serializer_loads_def parse_token_def cut_dot_def new_user_def hash_password_def
  apiAllCategories_def apiAllItems_def apiManageItem_def may_change_def edited_item_def replace_row_def
  commit_def db_constraints_def add_user_def add_category_def add_item_def next_rowid_def new_item_def
  init_server_def empty_db_def verify_password_hash_def pwd_encrypt_def login_user_def map_filter_def
  ann_auth_req_def signup_req_def demo_defs Let_def

subsection \<open>The page and the API agree\<close>

text \<open>
  C14: When the page newItem succeeds in creating an item, POST /api/items/ with the same session, time and fields succeeds too and leaves exactly the same database and session.
\<close>

theorem page_api_create_item_equiv:
  assumes "ls_userId ls = Some u" "req_method rp = POST" "req_method ra = POST" "req_now rp = req_now ra"
    and "map_of (req_form rp) ''name'' = Some n" "map_of (req_form rp) ''description'' = Some d"
    and "map_of (req_form rp) ''category'' = Some c"
    and "json_field ra ''name'' = Some n" "json_field ra ''description'' = Some d"
    and "json_field ra ''category'' = Some c"
    and "fst (newItem db ls rp) = Redirect Home [''New item '' @ n @ '' created!'']"
  shows "apiAllItems db ls ra = (Text (''New item '' @ n @ '' sucessfully created''), snd (newItem db ls rp))"
  using assms
  by (auto simp: newItem_def apiAllItems_def Let_def form_missing_def form_value_def json_field_def
      split: if_splits option.splits sum.splits)


subsection \<open>Witnesses\<close>

lemma demo_db_wf: "wf_db demo_db"
  by (simp add: wf_db_def wf_rows_def db_constraints_def demo_defs)

theorem reachable_state_wf_witness:
  "reach ''K'' (snd (server_step ''K'' init_server 0 RNewUser signup_req)) \<and>
   wf_db (srv_db (snd (server_step ''K'' init_server 0 RNewUser signup_req))) \<and>
   session_ok (srv_db (snd (server_step ''K'' init_server 0 RNewUser signup_req)))
     (srv_sessions (snd (server_step ''K'' init_server 0 RNewUser signup_req)) 0) \<and>
   users (srv_db (snd (server_step ''K'' init_server 0 RNewUser signup_req))) \<noteq> []"
proof -
  have r: "reach ''K'' (snd (server_step ''K'' init_server 0 RNewUser signup_req))"
    by (rule reach.step [OF reach.init]) (rule prod.collapse [symmetric])
  have "users (srv_db (snd (server_step ''K'' init_server 0 RNewUser signup_req))) \<noteq> []"
    by (simp add: server_step_def serve_def new_user_def signup_req_def init_server_def empty_db_def
        commit_def db_constraints_def add_user_def Let_def hash_password_def demo_defs)
  with r reachable_state_wf [OF r, of 0] show ?thesis by simp
qed

theorem apiManageCategory_delete_cascade_witness:
  "wf_db demo_db \<and> is_admin bob_session \<and> books \<in> set (categories demo_db) \<and>
   apiManageCategory demo_db bob_session (demo_req DELETE [] [] carol_info) (cat_id books) =
     (Text ''Category deleted'', demo_db\<lparr>categories := [games], items := [chess]\<rparr>, bob_session)"
proof -
  have h: "is_admin bob_session" "req_method (demo_req DELETE [] [] carol_info) = DELETE"
    "books \<in> set (categories demo_db)"
    by (simp_all add: is_admin_def demo_defs)
  from apiManageCategory_delete_cascade [OF demo_db_wf h] demo_db_wf h show ?thesis
    by (simp add: demo_defs)
qed

theorem apiManageItem_forbidden_witness:
  "find (\<lambda>i. item_id i = 2) (items demo_db) = Some chess \<and> \<not> is_admin ann_session \<and>
   apiManageItem demo_db ann_session (demo_req PUT [] [(''name'', ''Go'')] carol_info) 2 =
     (Abort 401 ''You cannot edit this item'', demo_db, ann_session)"
proof -
  have h: "req_method (demo_req PUT [] [(''name'', ''Go'')] carol_info) = PUT \<or>
           req_method (demo_req PUT [] [(''name'', ''Go'')] carol_info) = DELETE"
    "find (\<lambda>i. item_id i = 2) (items demo_db) = Some chess"
    "ls_userId ann_session \<noteq> Some (user_id chess)" "\<not> is_admin ann_session"
    by (simp_all add: is_admin_def demo_defs)
  from apiManageItem_forbidden [OF h] h(2,4) show ?thesis by simp
qed

theorem page_change_requires_owner_witness:
  "is_admin bob_session \<and>
   editItem demo_db bob_session (demo_req POST [] [] carol_info) 1 =
     (Redirect Home [''User cannot edit item Dune''], demo_db, bob_session) \<and>
   deleteItem demo_db bob_session (demo_req POST [] [] carol_info) 1 =
     (Redirect Home [''User cannot delete item Dune''], demo_db, bob_session)"
proof -
  have h: "ls_userId bob_session = Some 2" "find (\<lambda>i. item_id i = 1) (items demo_db) = Some dune"
    "user_id dune \<noteq> 2"
    by (simp_all add: demo_defs)
  from page_change_requires_owner [OF h, of "demo_req POST [] [] carol_info"] show ?thesis
    by (simp add: is_admin_def demo_defs)
qed

theorem verify_generate_witness:
  "verify_auth_token ''K'' 600 (generate_auth_token ''K'' 0 600 3) = Some 3 \<and>
   verify_auth_token ''K'' 601 (generate_auth_token ''K'' 0 600 3) = None"
  using verify_generate [of "''K''" 600 0 600 3] verify_generate [of "''K''" 601 0 600 3] by simp

theorem verify_password_local_login_witness:
  "verify_password ''K'' demo_db empty_session (demo_req POST [] [] carol_info) ''ann'' ''pw'' =
     Inr (True, login_user empty_session ann) \<and>
   verify_password ''K'' demo_db empty_session (demo_req POST [] [] carol_info) ''ann'' ''guess'' =
     Inr (False, empty_session)"
proof -
  have h: "req_method (demo_req POST [] [] carol_info) \<noteq> GET"
    "verify_auth_token ''K'' (req_now (demo_req POST [] [] carol_info)) (name ann) = None"
    "ann \<in> set (users demo_db)" "password_hash ann \<noteq> None"
    by (simp_all add: demo_defs verify_auth_token_def serializer_loads_def parse_token_def cut_dot_def)
  have n: "name ann = ''ann''" by (simp add: ann_def)
  from verify_password_local_login [OF demo_db_wf h, of empty_session "''pw''"]
       verify_password_local_login [OF demo_db_wf h, of empty_session "''guess''"]
  show ?thesis
    by (simp add: n verify_password_hash_def pwd_encrypt_def ann_def)
qed

theorem newCategory_duplicate_witness:
  "newCategory demo_db ann_session (demo_req POST [(''name'', ''Books'')] [] carol_info) =
     (Abort 400 ''Category already exists'', demo_db, ann_session)"
proof -
  have h: "ls_userId ann_session \<noteq> None" "req_method (demo_req POST [(''name'', ''Books'')] [] carol_info) = POST"
    "map_of (req_form (demo_req POST [(''name'', ''Books'')] [] carol_info)) ''name'' = Some ''Books''"
    "''Books'' \<noteq> []" "''Books'' \<in> cat_name ` set (categories demo_db)"
    by (simp_all add: demo_defs)
  from newCategory_duplicate [OF h] show ?thesis .
qed

theorem apiAllCategories_duplicate_witness:
  "apiAllCategories demo_db ann_session (demo_req POST [] [(''name'', ''Books'')] carol_info) =
     (Abort 400 ''Category already exists'', demo_db, ann_session)"
proof -
  have h: "ls_userId ann_session = Some 1" "(1::nat) \<noteq> 0"
    "req_method (demo_req POST [] [(''name'', ''Books'')] carol_info) = POST"
    "json_field (demo_req POST [] [(''name'', ''Books'')] carol_info) ''name'' = Some ''Books''"
    "''Books'' \<in> cat_name ` set (categories demo_db)"
    by (simp_all add: demo_defs)
  from apiAllCategories_duplicate [OF h] show ?thesis .
qed

theorem apiAllItems_missing_fields_witness:
  "apiAllItems demo_db ann_session (demo_req POST [] [(''name'', ''Go'')] carol_info) =
     (Abort 400 ''The name, description and category parameters must be supplied'', demo_db, ann_session)"
proof -
  have h: "req_method (demo_req POST [] [(''name'', ''Go'')] carol_info) = POST"
    "req_json (demo_req POST [] [(''name'', ''Go'')] carol_info) \<noteq> None"
    "\<not> (truthy (json_field (demo_req POST [] [(''name'', ''Go'')] carol_info) ''name'') \<and>
        truthy (json_field (demo_req POST [] [(''name'', ''Go'')] carol_info) ''description'') \<and>
        truthy (json_field (demo_req POST [] [(''name'', ''Go'')] carol_info) ''category''))"
    by (simp_all add: demo_defs)
  from apiAllItems_missing_fields [OF h] show ?thesis .
qed

theorem newItem_missing_fields_witness:
  "status (fst (newItem demo_db ann_session
      (demo_req POST [(''name'', ''Go''), (''description'', ''''), (''category'', ''Games'')] [] carol_info))) = 400 \<and>
   snd (newItem demo_db ann_session
      (demo_req POST [(''name'', ''Go''), (''description'', ''''), (''category'', ''Games'')] [] carol_info)) =
     (demo_db, ann_session)"
proof -
  let ?r = "demo_req POST [(''name'', ''Go''), (''description'', ''''), (''category'', ''Games'')] [] carol_info"
  have h: "ls_userId ann_session \<noteq> None" "req_method ?r = POST"
    "form_missing ?r [''name'', ''description'', ''category''] \<or> form_value ?r ''name'' = [] \<or>
     form_value ?r ''description'' = [] \<or> form_value ?r ''category'' = []"
    by (simp_all add: demo_defs form_value_def)
  from newItem_missing_fields [OF h] show ?thesis .
qed

theorem apiAllItems_unknown_category_witness:
  "apiAllItems demo_db ann_session
     (demo_req POST [] [(''name'', ''Go''), (''description'', ''d''), (''category'', ''Toys'')] carol_info) =
   (Abort 400 ''Category does not exist'', demo_db, ann_session)"
proof -
  let ?r = "demo_req POST [] [(''name'', ''Go''), (''description'', ''d''), (''category'', ''Toys'')] carol_info"
  have h: "req_method ?r = POST" "json_field ?r ''name'' = Some ''Go''"
    "json_field ?r ''description'' = Some ''d''" "json_field ?r ''category'' = Some ''Toys''"
    "''Go'' \<noteq> []" "''d'' \<noteq> []" "''Toys'' \<noteq> []"
    "''Go'' \<notin> item_name ` set (items demo_db)" "''Toys'' \<notin> cat_name ` set (categories demo_db)"
    by (simp_all add: demo_defs)
  from apiAllItems_unknown_category [OF h] show ?thesis .
qed

theorem newItem_unknown_category_witness:
  "newItem demo_db ann_session
     (demo_req POST [(''name'', ''Go''), (''description'', ''d''), (''category'', ''Toys'')] [] carol_info) =
   (Raised AttributeError, demo_db, ann_session) \<and>
   status (Raised AttributeError) = 500"
proof -
  let ?r = "demo_req POST [(''name'', ''Go''), (''description'', ''d''), (''category'', ''Toys'')] [] carol_info"
  have h: "ls_userId ann_session = Some 1" "req_method ?r = POST" "map_of (req_form ?r) ''name'' = Some ''Go''"
    "map_of (req_form ?r) ''description'' = Some ''d''" "map_of (req_form ?r) ''category'' = Some ''Toys''"
    "''Go'' \<noteq> []" "''d'' \<noteq> []" "''Toys'' \<noteq> []"
    "''Go'' \<notin> item_name ` set (items demo_db)" "''Toys'' \<notin> cat_name ` set (categories demo_db)"
    by (simp_all add: demo_defs)
  from newItem_unknown_category [OF h] show ?thesis by simp
qed

theorem serve_token_get_bypass_witness:
  "req_auth (demo_req GET [] [] carol_info) = None \<and>
   serve ''K'' RToken demo_db ann_session (demo_req GET [] [] carol_info) =
     (Json 200 (JObj [(''token'', JStr (generate_auth_token ''K'' 100 600 1))]), demo_db, ann_session)"
proof -
  have h: "req_method (demo_req GET [] [] carol_info) = GET" "ls_userId ann_session = Some (uid ann)"
    "ann \<in> set (users demo_db)"
    by (simp_all add: demo_defs)
  from serve_token_get_bypass [OF demo_db_wf h, of "''K''"] show ?thesis
    by (simp add: demo_defs)
qed

theorem page_api_create_item_equiv_witness:
  "fst (newItem demo_db ann_session
          (demo_req POST [(''name'', ''Go''), (''description'', ''d''), (''category'', ''Games'')] [] carol_info)) =
     Redirect Home [''New item Go created!''] \<and>
   apiAllItems demo_db ann_session
     (demo_req POST [] [(''name'', ''Go''), (''description'', ''d''), (''category'', ''Games'')] carol_info) =
   (Text ''New item Go sucessfully created'',
    snd (newItem demo_db ann_session
          (demo_req POST [(''name'', ''Go''), (''description'', ''d''), (''category'', ''Games'')] [] carol_info)))"
proof -
  let ?p = "demo_req POST [(''name'', ''Go''), (''description'', ''d''), (''category'', ''Games'')] [] carol_info"
  let ?a = "demo_req POST [] [(''name'', ''Go''), (''description'', ''d''), (''category'', ''Games'')] carol_info"
  have ok: "fst (newItem demo_db ann_session ?p) = Redirect Home [''New item '' @ ''Go'' @ '' created!'']"
    by (simp add: newItem_def Let_def form_missing_def form_value_def commit_def db_constraints_def
        add_item_def new_item_def demo_defs)
  have h: "ls_userId ann_session = Some 1" "req_method ?p = POST" "req_method ?a = POST"
    "req_now ?p = req_now ?a"
    "map_of (req_form ?p) ''name'' = Some ''Go''" "map_of (req_form ?p) ''description'' = Some ''d''"
    "map_of (req_form ?p) ''category'' = Some ''Games''"
    "json_field ?a ''name'' = Some ''Go''" "json_field ?a ''description'' = Some ''d''"
    "json_field ?a ''category'' = Some ''Games''"
    by (simp_all add: demo_defs)
  from page_api_create_item_equiv [OF h ok] ok show ?thesis by simp
qed

theorem latest_items_newest_witness:
  "latest_items (items demo_db) = [chess, dune] \<and>
   length (latest_items (items demo_db)) = 2 \<and>
   sorted_wrt (\<lambda>a b. creation_date b \<le> creation_date a) (latest_items (items demo_db)) \<and>
   set (latest_items (items demo_db)) \<subseteq> set (items demo_db)"
proof -
  have "latest_items (items demo_db) = [chess, dune]"
    by (simp add: latest_items_def demo_defs)
  with latest_items_newest [of "items demo_db"] show ?thesis by (simp add: demo_defs)
qed

theorem gconnect_creates_user_witness:
  "gconnect demo_db ann_session (demo_req POST [] [] carol_info) =
     (Redirect Home [],
      add_user \<lparr>uid = 0, name = ''carol'', email = ''carol@example.org'', picture = Some ''c.png'',
                google_id = Some ''g3'', password_hash = None, admin = False\<rparr> demo_db,
      ann_session\<lparr>ls_userId := Some 3, ls_credentials := Some ''tok''\<rparr>)"
proof -
  let ?r = "demo_req POST [] [] carol_info"
  have h: "db_constraints demo_db" "ls_state ann_session = Some ''st''"
    "map_of (req_args ?r) ''state'' = Some ''st''" "req_idinfo ?r = Some carol_info"
    "id_iss carol_info \<in> set google_issuers" "id_name carol_info = Some ''carol''"
    "id_picture carol_info = Some ''c.png''" "id_email carol_info \<notin> email ` set (users demo_db)"
    "id_sub carol_info \<notin> set (List.map_filter google_id (users demo_db))"
    by (simp_all add: demo_defs db_constraints_def google_issuers_def map_filter_def)
  have n: "next_rowid uid (users demo_db) = 3"
    by (simp add: next_rowid_def demo_defs)
  have e: "req_data ?r = ''tok''" "id_email carol_info = ''carol@example.org''" "id_sub carol_info = ''g3''"
    by (simp_all add: demo_defs)
  from gconnect_creates_user [OF h] show ?thesis
    by (simp only: n e)
qed

theorem api_item_posts_commute_witness:
  "reach ''K'' s2 \<and>
   status (fst (server_step ''K'' s2 0 RApiItems dune_req)) = 200 \<and>
   status (fst (server_step ''K'' s2 1 RApiItems go_req)) = 200 \<and>
   fst (server_step ''K'' s2 0 RApiItems dune_req) =
     fst (server_step ''K'' (snd (server_step ''K'' s2 1 RApiItems go_req)) 0 RApiItems dune_req) \<and>
   abs_db (srv_db (snd (server_step ''K'' (snd (server_step ''K'' s2 0 RApiItems dune_req)) 1 RApiItems go_req))) =
     abs_db (srv_db (snd (server_step ''K'' (snd (server_step ''K'' s2 1 RApiItems go_req)) 0 RApiItems dune_req)))"
proof -
  have r: "reach ''K'' s2"
    unfolding s2_def s1_def
    by (rule reach.step [OF reach.step [OF reach.init prod.collapse [symmetric]] prod.collapse [symmetric]])
  have h: "(0::nat) \<noteq> 1" "req_method dune_req = POST" "req_method go_req = POST"
    "json_field dune_req ''name'' \<noteq> json_field go_req ''name''"
    by (simp_all add: dune_req_def go_req_def ann_auth_req_def demo_defs)
  have d2: "srv_db s2 =
     \<lparr>users = [\<lparr>uid = 1, name = ''ann'', email = ''a@x'', picture = None, google_id = None,
                password_hash = Some (pwd_encrypt ''r'' ''pw''), admin = False\<rparr>],
      categories = [books], items = []\<rparr>"
    by (simp add: s2_def s1_def step_defs)
  have st: "status (fst (server_step ''K'' s2 0 RApiItems dune_req)) = 200"
    "status (fst (server_step ''K'' s2 1 RApiItems go_req)) = 200"
    by (simp_all add: d2 dune_req_def go_req_def step_defs)
  from api_item_posts_commute [OF r h prod.collapse [symmetric] prod.collapse [symmetric]
      prod.collapse [symmetric] prod.collapse [symmetric]] r st show ?thesis by simp
qed

theorem new_user_status_200_witness:
  "new_user demo_db empty_session
     (demo_req POST [] [(''username'', ''dan''), (''password'', ''pw2''), (''email'', ''d@x'')] carol_info) =
   (Json 200 (JArr [JObj [(''username'', JStr ''dan'')], JNum 201]),
    add_user \<lparr>uid = 0, name = ''dan'', email = ''d@x'', picture = None, google_id = None,
              password_hash = Some (pwd_encrypt ''r'' ''pw2''), admin = False\<rparr> demo_db, empty_session)"
proof -
  let ?r = "demo_req POST [] [(''username'', ''dan''), (''password'', ''pw2''), (''email'', ''d@x'')] carol_info"
  have h: "db_constraints demo_db" "json_field ?r ''username'' = Some ''dan''"
    "json_field ?r ''password'' = Some ''pw2''" "json_field ?r ''email'' = Some ''d@x''"
    "''dan'' \<notin> name ` set (users demo_db)"
    by (simp_all add: demo_defs db_constraints_def)
  have s: "req_rand ?r = ''r''" by (simp add: demo_req_def)
  from new_user_status_200 [OF h, of empty_session] show ?thesis by (simp only: s)
qed

theorem apiAllItems_delete_nonadmin_witness:
  "apiAllItems demo_db ann_session (demo_req DELETE [] [] carol_info) =
     (Text ''Only administrators can perform this operation'', demo_db, ann_session) \<and>
   status (fst (apiAllItems demo_db ann_session (demo_req DELETE [] [] carol_info))) = 200"
proof -
  have h: "req_method (demo_req DELETE [] [] carol_info) = DELETE" "\<not> is_admin ann_session"
    by (simp_all add: demo_defs is_admin_def)
  from apiAllItems_delete_nonadmin [OF h] show ?thesis .
qed

theorem apiManageItem_rename_own_name_witness:
  "apiManageItem demo_db ann_session (demo_req PUT [] [(''name'', ''Dune'')] carol_info) 1 =
     (Abort 400 ''The new item name has already been used'', demo_db, ann_session)"
proof -
  let ?r = "demo_req PUT [] [(''name'', ''Dune'')] carol_info"
  have h: "req_method ?r = PUT" "find (\<lambda>i. item_id i = 1) (items demo_db) = Some dune"
    "may_change ann_session dune" "json_field ?r ''name'' = Some (item_name dune)"
    "item_name dune \<noteq> []"
    by (simp_all add: demo_defs may_change_def)
  from apiManageItem_rename_own_name [OF h] show ?thesis .
qed

theorem gdisconnect_without_credentials_witness:
  "gdisconnect demo_db bob_session (demo_req GET [] [] carol_info) = (Raised KeyError, demo_db, bob_session) \<and>
   ls_userId bob_session = Some 2"
proof -
  have h: "ls_userId bob_session = Some 2" "ls_credentials bob_session = None"
    by (simp_all add: demo_defs)
  from gdisconnect_without_credentials [OF h] h(1) show ?thesis by simp
qed

theorem gconnect_reused_google_id_witness:
  "gconnect demo_db ann_session (demo_req POST [] [] bob_new_mail_info) =
     (Raised IntegrityError, demo_db, ann_session)"
proof -
  let ?r = "demo_req POST [] [] bob_new_mail_info"
  have h: "db_constraints demo_db" "ls_state ann_session = Some ''st''"
    "map_of (req_args ?r) ''state'' = Some ''st''" "req_idinfo ?r = Some bob_new_mail_info"
    "id_iss bob_new_mail_info \<in> set google_issuers" "id_name bob_new_mail_info = Some ''bob''"
    "id_picture bob_new_mail_info = Some ''b.png''"
    "id_email bob_new_mail_info \<notin> email ` set (users demo_db)"
    "id_sub bob_new_mail_info \<in> set (List.map_filter google_id (users demo_db))"
    by (simp_all add: demo_defs db_constraints_def google_issuers_def map_filter_def)
  from gconnect_reused_google_id [OF h] show ?thesis .
qed

theorem apiAllItems_refines_add_item_witness:
  "wf_db demo_db \<and>
   apiAllItems demo_db ann_session
     (demo_req POST [] [(''name'', ''Go''), (''description'', ''stones''), (''category'', ''Games'')] carol_info) =
     (Text ''New item Go sucessfully created'', add_item (new_item ''Go'' ''stones'' 2 100 1) demo_db, ann_session) \<and>
   spec_add_item ''Go'' ''stones'' ''Games'' 1 (abs_db demo_db) =
     Some ((abs_db demo_db)\<lparr>entries := (entries (abs_db demo_db))(''Go'' \<mapsto> (''stones'', ''Games'', 1))\<rparr>) \<and>
   abs_db (add_item (new_item ''Go'' ''stones'' 2 100 1) demo_db) =
     (abs_db demo_db)\<lparr>entries := (entries (abs_db demo_db))(''Go'' \<mapsto> (''stones'', ''Games'', 1))\<rparr>"
proof -
  let ?req = "demo_req POST [] [(''name'', ''Go''), (''description'', ''stones''), (''category'', ''Games'')] carol_info"
  have a: "apiAllItems demo_db ann_session ?req =
     (Text ''New item Go sucessfully created'', add_item (new_item ''Go'' ''stones'' 2 100 1) demo_db, ann_session)"
    by (simp add: apiAllItems_def demo_defs commit_def db_constraints_def add_item_def new_item_def)
  have s: "spec_add_item ''Go'' ''stones'' ''Games'' 1 (abs_db demo_db) =
     Some ((abs_db demo_db)\<lparr>entries := (entries (abs_db demo_db))(''Go'' \<mapsto> (''stones'', ''Games'', 1))\<rparr>)"
    by (simp add: spec_add_item_def entries_abs_db_None cat_names_abs_db demo_defs)
  have h: "req_method ?req = POST" "json_field ?req ''name'' = Some ''Go''"
    "json_field ?req ''description'' = Some ''stones''" "json_field ?req ''category'' = Some ''Games''"
    "ls_userId ann_session = Some 1"
    by (simp_all add: demo_defs)
  from apiAllItems_refines_add_item [OF demo_db_wf h(1-4) _ _ _ h(5) a] s a demo_db_wf show ?thesis
    by simp
qed

theorem apiAllCategories_refines_add_category_witness:
  "wf_db demo_db \<and>
   apiAllCategories demo_db ann_session (demo_req POST [] [(''name'', ''Toys'')] carol_info) =
     (Text ''New Category Toys created'', add_category ''Toys'' demo_db, ann_session) \<and>
   spec_add_category ''Toys'' (abs_db demo_db) =
     Some ((abs_db demo_db)\<lparr>cat_names := insert ''Toys'' (cat_names (abs_db demo_db))\<rparr>) \<and>
   abs_db (add_category ''Toys'' demo_db) =
     (abs_db demo_db)\<lparr>cat_names := insert ''Toys'' (cat_names (abs_db demo_db))\<rparr>"
proof -
  let ?req = "demo_req POST [] [(''name'', ''Toys'')] carol_info"
  have a: "apiAllCategories demo_db ann_session ?req =
     (Text ''New Category Toys created'', add_category ''Toys'' demo_db, ann_session)"
    by (simp add: apiAllCategories_def demo_defs commit_def db_constraints_def add_category_def)
  have s: "spec_add_category ''Toys'' (abs_db demo_db) =
     Some ((abs_db demo_db)\<lparr>cat_names := insert ''Toys'' (cat_names (abs_db demo_db))\<rparr>)"
    by (simp add: spec_add_category_def cat_names_abs_db demo_defs)
  have h: "req_method ?req = POST" "ls_userId ann_session = Some 1" "(1::nat) \<noteq> 0"
    "json_field ?req ''name'' = Some ''Toys''"
    by (simp_all add: demo_defs)
  from apiAllCategories_refines_add_category [OF demo_db_wf h a] s a demo_db_wf show ?thesis
    by simp
qed

theorem apiManageCategory_refines_delete_witness:
  "wf_db demo_db \<and> is_admin bob_session \<and> books \<in> set (categories demo_db) \<and>
   apiManageCategory demo_db bob_session (demo_req DELETE [] [] carol_info) (cat_id books) =
     (Text ''Category deleted'', demo_db\<lparr>categories := [games], items := [chess]\<rparr>, bob_session) \<and>
   abs_db (demo_db\<lparr>categories := [games], items := [chess]\<rparr>) = spec_delete_category ''Books'' (abs_db demo_db)"
proof -
  have h: "is_admin bob_session" "req_method (demo_req DELETE [] [] carol_info) = DELETE"
    "books \<in> set (categories demo_db)"
    by (simp_all add: is_admin_def demo_defs)
  have a: "apiManageCategory demo_db bob_session (demo_req DELETE [] [] carol_info) (cat_id books) =
     (Text ''Category deleted'', demo_db\<lparr>categories := [games], items := [chess]\<rparr>, bob_session)"
    by (simp add: apiManageCategory_def demo_defs commit_def db_constraints_def is_admin_def)
  from apiManageCategory_refines_delete [OF demo_db_wf h a] a demo_db_wf h show ?thesis
    by (simp add: books_def)
qed

theorem apiManageItem_refines_delete_witness:
  "wf_db demo_db \<and> dune \<in> set (items demo_db) \<and> may_change ann_session dune \<and>
   apiManageItem demo_db ann_session (demo_req DELETE [] [] carol_info) (item_id dune) =
     (Text ''Deleted item Dune'', demo_db\<lparr>items := [chess]\<rparr>, ann_session) \<and>
   abs_db (demo_db\<lparr>items := [chess]\<rparr>) = spec_delete_item ''Dune'' (abs_db demo_db)"
proof -
  have h: "req_method (demo_req DELETE [] [] carol_info) = DELETE" "dune \<in> set (items demo_db)"
    "may_change ann_session dune"
    by (simp_all add: may_change_def demo_defs)
  have a: "apiManageItem demo_db ann_session (demo_req DELETE [] [] carol_info) (item_id dune) =
     (Text ''Deleted item Dune'', demo_db\<lparr>items := [chess]\<rparr>, ann_session)"
    by (simp add: apiManageItem_def demo_defs commit_def db_constraints_def may_change_def is_admin_def)
  from apiManageItem_refines_delete [OF demo_db_wf h a] a demo_db_wf h show ?thesis
    by (simp add: dune_def chess_def demo_db_def)
qed

theorem verify_other_secret_witness:
  "''L'' \<noteq> ''K'' \<and> verify_auth_token ''L'' 100 (generate_auth_token ''K'' 0 600 3) = None"
  using verify_other_secret [where secret' = "''L''" and secret = "''K''" and now' = 100 and now = 0
      and expiration = 600 and i = 3]
  by simp

theorem integrity_error_only_gconnect_witness:
  "wf_db demo_db \<and> RNewCategory \<noteq> RGConnect \<and>
   fst (serve ''K'' RNewCategory demo_db ann_session (demo_req POST [(''name'', ''Books'')] [] carol_info))
     \<noteq> Raised IntegrityError"
  using integrity_error_only_gconnect [OF demo_db_wf, of RNewCategory "''K''" ann_session
      "demo_req POST [(''name'', ''Books'')] [] carol_info"] demo_db_wf
  by simp

theorem anonymous_cannot_change_catalog_witness:
  "ls_userId empty_session = None \<and> req_auth (demo_req DELETE [] [] carol_info) = None \<and>
   [] \<notin> name ` set (users demo_db) \<and>
   categories (fst (snd (serve ''K'' RApiCategories demo_db empty_session (demo_req DELETE [] [] carol_info))))
     = categories demo_db \<and>
   items (fst (snd (serve ''K'' RApiCategories demo_db empty_session (demo_req DELETE [] [] carol_info))))
     = items demo_db"
proof -
  have h: "ls_userId empty_session = None" "req_auth (demo_req DELETE [] [] carol_info) = None"
    "[] \<notin> name ` set (users demo_db)"
    by (simp_all add: demo_defs)
  from anonymous_cannot_change_catalog [OF h, of "''K''" RApiCategories] h show ?thesis by simp
qed

theorem anonymous_write_with_empty_account_witness:
  "new_user demo_db empty_session empty_signup_req =
     (Json 200 (JArr [JObj [(''username'', JStr [])], JNum 201]), demo_db\<lparr>users := [ann, bob, eve]\<rparr>,
      empty_session) \<and>
   serve ''K'' RApiCategories (demo_db\<lparr>users := [ann, bob, eve]\<rparr>) empty_session
       (demo_req POST [] [(''name'', ''Toys'')] carol_info) =
     (Text ''New Category Toys created'', add_category ''Toys'' (demo_db\<lparr>users := [ann, bob, eve]\<rparr>),
      login_user empty_session eve)"
proof -
  let ?db = "demo_db\<lparr>users := [ann, bob, eve]\<rparr>"
  have s: "new_user demo_db empty_session empty_signup_req =
     (Json 200 (JArr [JObj [(''username'', JStr [])], JNum 201]), ?db, empty_session)"
    by (simp add: new_user_def empty_signup_req_def demo_defs eve_def commit_def db_constraints_def
        add_user_def hash_password_def next_rowid_def map_filter_def)
  have h: "find (\<lambda>v. name v = []) (users ?db) = Some eve" "verify_password_hash eve []" "uid eve \<noteq> 0"
    "req_auth (demo_req POST [] [(''name'', ''Toys'')] carol_info) = None"
    "req_method (demo_req POST [] [(''name'', ''Toys'')] carol_info) = POST"
    "json_field (demo_req POST [] [(''name'', ''Toys'')] carol_info) ''name'' = Some ''Toys''"
    "find (\<lambda>x. cat_name x = ''Toys'') (categories ?db) = None" "db_constraints ?db"
    by (simp_all add: demo_defs eve_def verify_password_hash_def pwd_encrypt_def db_constraints_def map_filter_def)
  from anonymous_write_with_empty_account [OF h, of "''K''" empty_session] s show ?thesis by simp
qed

theorem editItem_refines_edit_witness:
  "wf_db demo_db \<and> dune \<in> set (items demo_db) \<and> ls_userId ann_session = Some (user_id dune) \<and>
   editItem demo_db ann_session
     (demo_req POST [(''name'', ''Arrakis''), (''description'', ''''), (''category'', ''Games'')] [] carol_info)
     (item_id dune) =
     (Redirect (ShowItem 1) [''Item successfully edited''],
      demo_db\<lparr>items := [dune\<lparr>item_name := ''Arrakis'', category_id := 2, last_edited := 100\<rparr>, chess]\<rparr>,
      ann_session) \<and>
   spec_edit_item ''Dune'' ''Arrakis'' [] ''Games'' (abs_db demo_db) =
     Some ((abs_db demo_db)\<lparr>entries := (entries (abs_db demo_db))
             (''Dune'' := None, ''Arrakis'' \<mapsto> (''novel'', ''Games'', 1))\<rparr>) \<and>
   abs_db (demo_db\<lparr>items := [dune\<lparr>item_name := ''Arrakis'', category_id := 2, last_edited := 100\<rparr>, chess]\<rparr>) =
     (abs_db demo_db)\<lparr>entries := (entries (abs_db demo_db))
       (''Dune'' := None, ''Arrakis'' \<mapsto> (''novel'', ''Games'', 1))\<rparr>"
proof -
  let ?req = "demo_req POST [(''name'', ''Arrakis''), (''description'', ''''), (''category'', ''Games'')] [] carol_info"
  let ?db' = "demo_db\<lparr>items := [dune\<lparr>item_name := ''Arrakis'', category_id := 2, last_edited := 100\<rparr>, chess]\<rparr>"
  have h: "dune \<in> set (items demo_db)" "ls_userId ann_session = Some (user_id dune)"
    "req_method ?req = POST" "map_of (req_form ?req) ''name'' = Some ''Arrakis''"
    "map_of (req_form ?req) ''description'' = Some []" "map_of (req_form ?req) ''category'' = Some ''Games''"
    by (simp_all add: demo_defs)
  have a: "editItem demo_db ann_session ?req (item_id dune) =
     (Redirect (ShowItem 1) [''Item successfully edited''], ?db', ann_session)"
    by (simp add: editItem_def demo_defs Let_def form_missing_def form_value_def edited_item_def
        replace_row_def commit_def db_constraints_def)
  have s: "spec_edit_item ''Dune'' ''Arrakis'' [] ''Games'' (abs_db demo_db) =
     Some ((abs_db demo_db)\<lparr>entries := (entries (abs_db demo_db))
             (''Dune'' := None, ''Arrakis'' \<mapsto> (''novel'', ''Games'', 1))\<rparr>)"
    by (simp add: spec_edit_item_def entries_abs_db cat_names_abs_db entries_abs_db_None demo_defs
        entry_of_def cat_name_of_def)
  from editItem_refines_edit [OF demo_db_wf h a] s a demo_db_wf h show ?thesis
    by (simp add: dune_def)
qed

theorem gconnect_state_mismatch_witness:
  "map_of (req_args (demo_req POST [] [] carol_info)) ''state'' \<noteq> ls_state bob_session \<and>
   snd (gconnect demo_db bob_session (demo_req POST [] [] carol_info)) = (demo_db, bob_session) \<and>
   status (fst (gconnect demo_db bob_session (demo_req POST [] [] carol_info))) \<in> {401, 500}"
proof -
  have h: "map_of (req_args (demo_req POST [] [] carol_info)) ''state'' \<noteq> ls_state bob_session"
    by (simp add: demo_defs)
  from gconnect_state_mismatch [OF h, of demo_db] h show ?thesis by simp
qed

theorem users_never_deleted_witness:
  "reach ''K'' (snd (server_step ''K'' init_server 0 RNewUser signup_req)) \<and>
   set (users (srv_db (snd (server_step ''K'' init_server 0 RNewUser signup_req)))) \<subseteq>
   set (users (srv_db (snd (server_step ''K'' (snd (server_step ''K'' init_server 0 RNewUser signup_req))
                              1 RNewUser signup_req))))"
proof -
  have r: "reach ''K'' (snd (server_step ''K'' init_server 0 RNewUser signup_req))"
    by (rule reach.step [OF reach.init]) (rule prod.collapse [symmetric])
  from users_never_deleted [OF r prod.collapse [symmetric]] r show ?thesis by simp
qed

theorem item_owner_immutable_witness:
  "reach ''K'' s3 \<and> dune\<lparr>creation_date := 100, last_edited := 100\<rparr> \<in> set (items (srv_db s3)) \<and>
   dune\<lparr>item_name := ''Arrakis'', creation_date := 100, last_edited := 100\<rparr> \<in>
     set (items (srv_db (snd (server_step ''K'' s3 0 (RApiItem 1) (ann_auth_req PUT [(''name'', ''Arrakis'')]))))) \<and>
   item_id (dune\<lparr>item_name := ''Arrakis'', creation_date := 100, last_edited := 100\<rparr>) =
     item_id (dune\<lparr>creation_date := 100, last_edited := 100\<rparr>) \<and>
   user_id (dune\<lparr>item_name := ''Arrakis'', creation_date := 100, last_edited := 100\<rparr>) =
     user_id (dune\<lparr>creation_date := 100, last_edited := 100\<rparr>)"
proof -
  have r: "reach ''K'' s3"
    unfolding s3_def s2_def s1_def
    by (rule reach.step [OF reach.step [OF reach.step [OF reach.init prod.collapse [symmetric]]
          prod.collapse [symmetric]] prod.collapse [symmetric]])
  have d3: "srv_db s3 =
     \<lparr>users = [\<lparr>uid = 1, name = ''ann'', email = ''a@x'', picture = None, google_id = None,
                password_hash = Some (pwd_encrypt ''r'' ''pw''), admin = False\<rparr>],
      categories = [books], items = [dune\<lparr>creation_date := 100, last_edited := 100\<rparr>]\<rparr>"
    by (simp add: s3_def s2_def s1_def step_defs)
  have h: "dune\<lparr>creation_date := 100, last_edited := 100\<rparr> \<in> set (items (srv_db s3))"
    "dune\<lparr>item_name := ''Arrakis'', creation_date := 100, last_edited := 100\<rparr> \<in>
     set (items (srv_db (snd (server_step ''K'' s3 0 (RApiItem 1) (ann_auth_req PUT [(''name'', ''Arrakis'')])))))"
    "item_id (dune\<lparr>item_name := ''Arrakis'', creation_date := 100, last_edited := 100\<rparr>) =
     item_id (dune\<lparr>creation_date := 100, last_edited := 100\<rparr>)"
    by (simp_all add: d3 step_defs)
  from item_owner_immutable [OF r prod.collapse [symmetric] h] r h show ?thesis by simp
qed


theorem admin_can_reset_catalog_witness:
  "wf_db admin_db \<and> root \<in> set (users admin_db) \<and> admin root \<and> verify_password_hash root ''rpw'' \<and>
   serve ''K'' RApiCategories admin_db empty_session
     ((demo_req DELETE [] [] carol_info)\<lparr>req_auth := Some (''root'', ''rpw'')\<rparr>) =
     (Text ''All categories and items deleted'', admin_db\<lparr>categories := [], items := []\<rparr>,
      login_user empty_session root)"
proof -
  let ?req = "(demo_req DELETE [] [] carol_info)\<lparr>req_auth := Some (''root'', ''rpw'')\<rparr>"
  have h: "wf_db admin_db" "root \<in> set (users admin_db)" "admin root" "verify_password_hash root ''rpw''"
    "req_method ?req = DELETE" "req_auth ?req = Some (name root, ''rpw'')"
    "verify_auth_token ''K'' (req_now ?req) (name root) = None"
    by (simp_all add: wf_db_def wf_rows_def db_constraints_def admin_db_def root_def demo_defs
        verify_password_hash_def pwd_encrypt_def verify_auth_token_def serializer_loads_def
        parse_token_def cut_dot_def map_filter_def)
  from admin_can_reset_catalog [OF h, of empty_session] h(1-4) show ?thesis by simp
qed

theorem signup_then_authenticated_witness:
  "reach ''K'' s1 \<and>
   status (fst (server_step ''K'' s1 1 RNewUser
     (demo_req POST [] [(''username'', ''bob''), (''password'', ''pw2''), (''email'', ''b@x'')] carol_info))) = 200 \<and>
   login_required ''K'' apiAllCategories
     (srv_db (snd (server_step ''K'' s1 1 RNewUser
        (demo_req POST [] [(''username'', ''bob''), (''password'', ''pw2''), (''email'', ''b@x'')] carol_info))))
     empty_session ((demo_req POST [] [(''name'', ''Toys'')] carol_info)\<lparr>req_auth := Some (''bob'', ''pw2'')\<rparr>) =
   apiAllCategories
     (srv_db (snd (server_step ''K'' s1 1 RNewUser
        (demo_req POST [] [(''username'', ''bob''), (''password'', ''pw2''), (''email'', ''b@x'')] carol_info))))
     (login_user empty_session
        \<lparr>uid = 2, name = ''bob'', email = ''b@x'', picture = None, google_id = None,
         password_hash = Some (pwd_encrypt ''r'' ''pw2''), admin = False\<rparr>)
     ((demo_req POST [] [(''name'', ''Toys'')] carol_info)\<lparr>req_auth := Some (''bob'', ''pw2'')\<rparr>)"
proof -
  let ?req = "demo_req POST [] [(''username'', ''bob''), (''password'', ''pw2''), (''email'', ''b@x'')] carol_info"
  let ?req' = "(demo_req POST [] [(''name'', ''Toys'')] carol_info)\<lparr>req_auth := Some (''bob'', ''pw2'')\<rparr>"
  let ?s' = "snd (server_step ''K'' s1 1 RNewUser ?req)"
  let ?bob = "\<lparr>uid = 2, name = ''bob'', email = ''b@x'', picture = None, google_id = None,
               password_hash = Some (pwd_encrypt ''r'' ''pw2''), admin = False\<rparr>"
  have r: "reach ''K'' s1"
    unfolding s1_def by (rule reach.step [OF reach.init]) (rule prod.collapse [symmetric])
  have h: "req_method ?req = POST" "json_field ?req ''username'' = Some ''bob''"
    "json_field ?req ''password'' = Some ''pw2''" "json_field ?req ''email'' = Some ''b@x''"
    "find (\<lambda>v. name v = ''bob'') (users (srv_db s1)) = None"
    "req_method ?req' \<noteq> GET" "req_auth ?req' = Some (''bob'', ''pw2'')"
    "verify_auth_token ''K'' (req_now ?req') ''bob'' = None"
    by (simp_all add: s1_def step_defs)
  have users: "users (srv_db ?s') =
     [\<lparr>uid = 1, name = ''ann'', email = ''a@x'', picture = None, google_id = None,
       password_hash = Some (pwd_encrypt ''r'' ''pw''), admin = False\<rparr>, ?bob]"
    by (simp add: s1_def step_defs)
  from signup_then_authenticated [where handler = apiAllCategories and ls = empty_session,
      OF r h(1-5) prod.collapse [symmetric] h(6-8)]
  obtain u where "status (fst (server_step ''K'' s1 1 RNewUser ?req)) = 200" "u \<in> set (users (srv_db ?s'))"
    "name u = ''bob''"
    "login_required ''K'' apiAllCategories (srv_db ?s') empty_session ?req' =
       apiAllCategories (srv_db ?s') (login_user empty_session u) ?req'"
    by blast
  moreover from this(2,3) users have "u = ?bob" by auto
  ultimately show ?thesis using r by simp
qed

theorem no_admin_reachable_witness:
  "reach ''K'' s3 \<and>
   users (srv_db s3) = [\<lparr>uid = 1, name = ''ann'', email = ''a@x'', picture = None, google_id = None,
                         password_hash = Some (pwd_encrypt ''r'' ''pw''), admin = False\<rparr>] \<and>
   \<not> admin \<lparr>uid = 1, name = ''ann'', email = ''a@x'', picture = None, google_id = None,
             password_hash = Some (pwd_encrypt ''r'' ''pw''), admin = False\<rparr> \<and>
   \<not> is_admin (srv_sessions s3 0)"
proof -
  have r: "reach ''K'' s3"
    unfolding s3_def s2_def s1_def
    by (rule reach.step [OF reach.step [OF reach.step [OF reach.init prod.collapse [symmetric]]
          prod.collapse [symmetric]] prod.collapse [symmetric]])
  have u: "users (srv_db s3) = [\<lparr>uid = 1, name = ''ann'', email = ''a@x'', picture = None, google_id = None,
                         password_hash = Some (pwd_encrypt ''r'' ''pw''), admin = False\<rparr>]"
    by (simp add: s3_def s2_def s1_def step_defs)
  from no_admin_reachable [OF r] r u show ?thesis by simp
qed

theorem non_object_body_500_witness:
  "new_user demo_db ann_session ((demo_req POST [] [] carol_info)\<lparr>req_json := None\<rparr>) =
     (Raised AttributeError, demo_db, ann_session) \<and>
   apiAllCategories demo_db ann_session ((demo_req POST [] [] carol_info)\<lparr>req_json := None\<rparr>) =
     (Raised TypeError, demo_db, ann_session) \<and>
   apiAllItems demo_db ann_session ((demo_req POST [] [] carol_info)\<lparr>req_json := None\<rparr>) =
     (Raised AttributeError, demo_db, ann_session)"
proof -
  let ?req = "(demo_req POST [] [] carol_info)\<lparr>req_json := None\<rparr>"
  have h: "req_json ?req = None" "req_method ?req = POST" "ls_userId ann_session = Some 1" "(1::nat) \<noteq> 0"
    by (simp_all add: demo_defs)
  from non_object_body_500 [OF h] show ?thesis .
qed

end
